theory Spec2Isabelle
  imports Complex_Main
begin

section \<open>Strings and JavaScript conversions used by the handlers\<close>

text \<open>
  JavaScript strings are modelled as \<open>string\<close>: a character is a code unit below 256,
  read as in Unicode (Latin-1). A JavaScript exception is the value \<open>None\<close> of an option
  type: every \<open>catch\<close> of the repository is a catch-all, so the kind of the exception
  never decides a branch.
\<close>

definition is_digit :: "char \<Rightarrow> bool" where
  "is_digit c = (48 \<le> (of_char c :: int) \<and> (of_char c :: int) \<le> 57)"

definition digit_val :: "char \<Rightarrow> int option" where
  "digit_val c =
     (let n = (of_char c :: int) in
      if 48 \<le> n \<and> n \<le> 57 then Some (n - 48)
      else if 97 \<le> n \<and> n \<le> 102 then Some (n - 87)
      else if 65 \<le> n \<and> n \<le> 70 then Some (n - 55)
      else None)"

definition is_radix_digit :: "int \<Rightarrow> char \<Rightarrow> bool" where
  "is_radix_digit r c = (case digit_val c of None \<Rightarrow> False | Some d \<Rightarrow> d < r)"

definition digits_value :: "int \<Rightarrow> string \<Rightarrow> int" where
  "digits_value r ds = foldl (\<lambda>a c. a * r + (case digit_val c of None \<Rightarrow> 0 | Some d \<Rightarrow> d)) 0 ds"

text \<open>A non-empty run of digits of radix \<open>r\<close>, read as a number; \<open>None\<close> otherwise.\<close>

definition parse_digits :: "int \<Rightarrow> string \<Rightarrow> int option" where
  "parse_digits r ds =
     (if ds \<noteq> [] \<and> list_all (is_radix_digit r) ds then Some (digits_value r ds) else None)"

text \<open>
  White space as \<open>BigInt\<close>, \<open>Number\<close> and \<open>parseFloat\<close> strip it (ECMAScript
  StrWhiteSpaceChar): below 256 that is TAB, LF, VT, FF, CR, the space and the no-break
  space U+00A0.
\<close>

definition is_ws :: "char \<Rightarrow> bool" where
  "is_ws c = ((of_char c :: int) \<in> {9, 10, 11, 12, 13, 32, 160})"

definition trim :: "string \<Rightarrow> string" where
  "trim s = rev (dropWhile is_ws (rev (dropWhile is_ws s)))"

definition startsWith :: "string \<Rightarrow> string \<Rightarrow> bool" where
  "startsWith s p = (take (length p) s = p)"

text \<open>
  \<open>s.toLowerCase()\<close>: the capital letters below 256 are \<open>A\<close> to \<open>Z\<close> and U+00C0 to
  U+00DE without the multiplication sign U+00D7; each has its small letter 32 places
  further.
\<close>

definition toLowerCase :: "string \<Rightarrow> string" where
  "toLowerCase s =
     map (\<lambda>c. let n = (of_char c :: int) in
               if (65 \<le> n \<and> n \<le> 90) \<or> (192 \<le> n \<and> n \<le> 222 \<and> n \<noteq> 215)
               then char_of (n + 32) else c) s"

text \<open>
  \<open>BigInt(s)\<close> on a string (ECMAScript StringToBigInt): white space is trimmed, the empty
  string is \<open>0n\<close>, \<open>0x\<close>/\<open>0o\<close>/\<open>0b\<close> prefix an unsigned literal of that radix, anything
  else is an optionally signed run of decimal digits. Every other string raises
  SyntaxError (\<open>None\<close>).
\<close>

definition BigInt :: "string \<Rightarrow> int option" where
  "BigInt s =
     (let t = trim s in
      if t = [] then Some 0
      else if startsWith t ''0x'' \<or> startsWith t ''0X'' then parse_digits 16 (drop 2 t)
      else if startsWith t ''0o'' \<or> startsWith t ''0O'' then parse_digits 8 (drop 2 t)
      else if startsWith t ''0b'' \<or> startsWith t ''0B'' then parse_digits 2 (drop 2 t)
      else if startsWith t ''-'' then map_option uminus (parse_digits 10 (drop 1 t))
      else if startsWith t ''+'' then parse_digits 10 (drop 1 t)
      else parse_digits 10 t)"

subsection \<open>JavaScript numbers\<close>

text \<open>
  A JavaScript number is an IEEE 754 binary64 value. A finite double is modelled by the
  rational it denotes (the two zeros are identified: no comparison of the handlers tells
  them apart). \<open>double_of_rat\<close> rounds a rational to the nearest double, ties to even:
  the quantum of a value in the binade \<open>[2^e, 2^(e+1))\<close> is \<open>2^(e-52)\<close>, the binades
  below \<open>2^-1022\<close> share the subnormal quantum \<open>2^-1074\<close>, and a result of \<open>2^1024\<close> or
  more overflows to an infinity.
\<close>

datatype jsnum = NaN | Finite rat | PosInfinity | NegInfinity

fun js_gt :: "jsnum \<Rightarrow> jsnum \<Rightarrow> bool" where
  "js_gt (Finite a) (Finite b) = (b < a)"
| "js_gt PosInfinity (Finite b) = True"
| "js_gt PosInfinity NegInfinity = True"
| "js_gt (Finite a) NegInfinity = True"
| "js_gt _ _ = False"

function log2floor :: "int \<Rightarrow> int" where
  "log2floor n = (if n < 2 then 0 else 1 + log2floor (n div 2))"
  by pat_completeness auto
termination
  by (relation "measure nat") auto

declare log2floor.simps [simp del]

definition bitlen :: "int \<Rightarrow> int" where
  "bitlen m = (if m \<le> 0 then 0 else log2floor m + 1)"

definition ilog2 :: "rat \<Rightarrow> int" where
  "ilog2 v = (if 1 \<le> v then log2floor \<lfloor>v\<rfloor> else - bitlen (\<lceil>1 / v\<rceil> - 1))"

definition round_half_even :: "rat \<Rightarrow> int" where
  "round_half_even x =
     (let f = \<lfloor>x\<rfloor>; d = x - of_int f in
      if d < 1 / 2 then f else if 1 / 2 < d then f + 1 else if even f then f else f + 1)"

definition double_of_rat :: "rat \<Rightarrow> jsnum" where
  "double_of_rat v =
     (if v = 0 then Finite 0
      else
        let a = \<bar>v\<bar>;
            e = max (ilog2 a) (- 1022);
            q = 2 powi (e - 52);
            r = of_int (round_half_even (a / q)) * q
        in if 2 ^ 1024 \<le> r then (if 0 < v then PosInfinity else NegInfinity)
           else Finite (if 0 < v then r else - r))"

text \<open>
  \<open>parseFloat(s)\<close>: leading white space is skipped and the longest prefix that is a
  decimal literal (sign, \<open>Infinity\<close>, digits with an optional fraction and exponent) is
  converted; \<open>NaN\<close> when there is none.
\<close>

definition parse_exponent :: "string \<Rightarrow> int" where
  "parse_exponent r =
     (case r of
        [] \<Rightarrow> 0
      | c # r1 \<Rightarrow>
          if c = CHR ''e'' \<or> c = CHR ''E'' then
            (let neg = startsWith r1 ''-'';
                 r2 = (if startsWith r1 ''-'' \<or> startsWith r1 ''+'' then drop 1 r1 else r1);
                 ds = takeWhile is_digit r2
             in if ds = [] then 0
                else if neg then - digits_value 10 ds else digits_value 10 ds)
          else 0)"

definition decimal_value :: "string \<Rightarrow> string \<Rightarrow> rat" where
  "decimal_value ip fp = of_int (digits_value 10 (ip @ fp)) / 10 ^ length fp"

definition parseFloat :: "string \<Rightarrow> jsnum" where
  "parseFloat s =
     (let t = dropWhile is_ws s;
          neg = startsWith t ''-'';
          u = (if startsWith t ''-'' \<or> startsWith t ''+'' then drop 1 t else t)
      in if startsWith u ''Infinity'' then (if neg then NegInfinity else PosInfinity)
         else
           let ip = takeWhile is_digit u;
               r1 = dropWhile is_digit u;
               fp = (if startsWith r1 ''.'' then takeWhile is_digit (drop 1 r1) else []);
               r2 = (if startsWith r1 ''.'' then dropWhile is_digit (drop 1 r1) else r1)
           in if ip = [] \<and> fp = [] then NaN
              else
                let mv = decimal_value ip fp * 10 powi (parse_exponent r2)
                in double_of_rat (if neg then - mv else mv))"

text \<open>
  \<open>Number(s)\<close> on a string (ECMAScript StringToNumber): white space is trimmed, the empty
  string is \<open>0\<close>, \<open>0x\<close>/\<open>0o\<close>/\<open>0b\<close> prefix an unsigned integer of that radix, anything
  else must be a decimal literal as a whole (sign, \<open>Infinity\<close>, or digits with an
  optional fraction and exponent); every other string is \<open>NaN\<close>.
\<close>

text \<open>An exponent part: nothing, or \<open>e\<close>, an optional sign and at least one digit.\<close>

definition exponent_part :: "string \<Rightarrow> int option" where
  "exponent_part r =
     (case r of
        [] \<Rightarrow> Some 0
      | c # r1 \<Rightarrow>
          if c = CHR ''e'' \<or> c = CHR ''E'' then
            (let neg = startsWith r1 ''-'';
                 ds = (if startsWith r1 ''-'' \<or> startsWith r1 ''+'' then drop 1 r1 else r1)
             in if ds \<noteq> [] \<and> list_all is_digit ds
                then Some (if neg then - digits_value 10 ds else digits_value 10 ds)
                else None)
          else None)"

definition radix_number :: "int \<Rightarrow> string \<Rightarrow> jsnum" where
  "radix_number r ds =
     (case parse_digits r ds of None \<Rightarrow> NaN | Some v \<Rightarrow> double_of_rat (of_int v))"

definition Number :: "string \<Rightarrow> jsnum" where
  "Number s =
     (let t = trim s in
      if t = [] then Finite 0
      else if startsWith t ''0x'' \<or> startsWith t ''0X'' then radix_number 16 (drop 2 t)
      else if startsWith t ''0o'' \<or> startsWith t ''0O'' then radix_number 8 (drop 2 t)
      else if startsWith t ''0b'' \<or> startsWith t ''0B'' then radix_number 2 (drop 2 t)
      else
        let neg = startsWith t ''-'';
            u = (if startsWith t ''-'' \<or> startsWith t ''+'' then drop 1 t else t)
        in if u = ''Infinity'' then (if neg then NegInfinity else PosInfinity)
           else
             let ip = takeWhile is_digit u;
                 r1 = dropWhile is_digit u;
                 fp = (if startsWith r1 ''.'' then takeWhile is_digit (drop 1 r1) else []);
                 r2 = (if startsWith r1 ''.'' then dropWhile is_digit (drop 1 r1) else r1)
             in if ip = [] \<and> fp = [] then NaN
                else
                  case exponent_part r2 of
                    None \<Rightarrow> NaN
                  | Some ex \<Rightarrow>
                      let mv = decimal_value ip fp * 10 powi ex
                      in double_of_rat (if neg then - mv else mv))"

subsection \<open>JavaScript values\<close>

text \<open>
  \<open>tempData\<close> is a \<open>Record<string, any>\<close> that comes back from the client in the JSON
  body of every turn. Its values are modelled as JSON values: a string, a number with an
  integral value, a boolean, \<open>null\<close>, an array of strings, or an object literal
  \<open>{...}\<close>; an absent key is \<open>undefined\<close> (\<open>None\<close>).
\<close>

datatype jsval = JString string | JNumber int | JBool bool | JNull | JArray "string list" | JObject

text \<open>JavaScript truthiness and \<open>typeof v === 'string'\<close>.\<close>

fun truthy :: "jsval option \<Rightarrow> bool" where
  "truthy None = False"
| "truthy (Some (JString s)) = (s \<noteq> [])"
| "truthy (Some (JNumber n)) = (n \<noteq> 0)"
| "truthy (Some (JBool b)) = b"
| "truthy (Some JNull) = False"
| "truthy (Some (JArray xs)) = True"
| "truthy (Some JObject) = True"

fun is_string :: "jsval option \<Rightarrow> bool" where
  "is_string (Some (JString s)) = True"
| "is_string _ = False"

text \<open>\<open>xs.join(",")\<close>, which is what an array of strings is as a primitive.\<close>

fun join :: "string list \<Rightarrow> string" where
  "join [] = []"
| "join [x] = x"
| "join (x # y # ys) = x @ CHR '','' # join (y # ys)"

text \<open>
  \<open>BigInt(v)\<close> on a value: \<open>undefined\<close> and \<open>null\<close> raise a TypeError, a boolean is \<open>0n\<close>
  or \<open>1n\<close>, an integral number is itself, a string is converted as above, and an object
  is first made a primitive: an array is its \<open>join\<close>, an object literal is the text
  \<open>[object Object]\<close>, which is no integer literal.
\<close>

fun BigInt_of :: "jsval option \<Rightarrow> int option" where
  "BigInt_of None = None"
| "BigInt_of (Some (JString s)) = BigInt s"
| "BigInt_of (Some (JNumber n)) = Some n"
| "BigInt_of (Some (JBool b)) = Some (if b then 1 else 0)"
| "BigInt_of (Some JNull) = None"
| "BigInt_of (Some (JArray xs)) = BigInt (join xs)"
| "BigInt_of (Some JObject) = BigInt ''[object Object]''"

text \<open>
  The number a value is coerced to where an operator or a string method wants a number
  (ECMAScript ToNumber).
\<close>

fun to_number :: "jsval option \<Rightarrow> jsnum" where
  "to_number None = NaN"
| "to_number (Some (JString s)) = Number s"
| "to_number (Some (JNumber n)) = Finite (of_int n)"
| "to_number (Some (JBool b)) = Finite (if b then 1 else 0)"
| "to_number (Some JNull) = Finite 0"
| "to_number (Some (JArray xs)) = Number (join xs)"
| "to_number (Some JObject) = Number ''[object Object]''"

text \<open>\<open>x - 1\<close> on a number: the difference is rounded to a double.\<close>

definition minus_one :: "jsnum \<Rightarrow> jsnum" where
  "minus_one x = (case x of Finite r \<Rightarrow> double_of_rat (r - 1) | _ \<Rightarrow> x)"

text \<open>
  The positions of \<open>s.slice(start, end)\<close>: the argument is truncated to an integer
  (\<open>NaN\<close> is \<open>0\<close>), a negative one counts from the end of the string, and the result is
  clamped to the string. \<open>s.slice(start)\<close> goes on to the end.
\<close>

definition truncate :: "rat \<Rightarrow> int" where
  "truncate r = (if 0 \<le> r then \<lfloor>r\<rfloor> else \<lceil>r\<rceil>)"

definition slice_index :: "nat \<Rightarrow> jsnum \<Rightarrow> nat" where
  "slice_index len x =
     (case x of
        NaN \<Rightarrow> 0
      | PosInfinity \<Rightarrow> len
      | NegInfinity \<Rightarrow> 0
      | Finite r \<Rightarrow>
          (let i = truncate r in
           if i < 0 then nat (max (int len + i) 0) else min (nat i) len))"

definition slice :: "string \<Rightarrow> jsnum \<Rightarrow> jsnum \<Rightarrow> string" where
  "slice s start fin =
     (let from = slice_index (length s) start; to = slice_index (length s) fin
      in take (to - from) (drop from s))"

definition slice_from :: "string \<Rightarrow> jsnum \<Rightarrow> string" where
  "slice_from s start = drop (slice_index (length s) start) s"

text \<open>
  The length \<open>padEnd\<close> and \<open>padStart\<close> make of their first argument (ECMAScript
  ToLength): truncated, and clamped between \<open>0\<close> and \<open>2^53 - 1\<close>.
\<close>

definition ToLength :: "jsnum \<Rightarrow> nat" where
  "ToLength x =
     (case x of
        NaN \<Rightarrow> 0
      | PosInfinity \<Rightarrow> 2 ^ 53 - 1
      | NegInfinity \<Rightarrow> 0
      | Finite r \<Rightarrow> nat (min (max (truncate r) 0) (2 ^ 53 - 1)))"

section \<open>Big integers as text, and viem's unit conversions\<close>

text \<open>\<open>n.toString()\<close> of a bigint: the decimal digits, with a minus sign when negative.\<close>

function nat_digits :: "int \<Rightarrow> string" where
  "nat_digits n =
     (if n < 10 then [char_of (48 + n)]
      else nat_digits (n div 10) @ [char_of (48 + n mod 10)])"
  by pat_completeness auto
termination
  by (relation "measure nat") auto

declare nat_digits.simps [simp del]

definition BigInt_toString :: "int \<Rightarrow> string" where
  "BigInt_toString n = (if n < 0 then CHR ''-'' # nat_digits (- n) else nat_digits n)"

definition padStart :: "string \<Rightarrow> nat \<Rightarrow> string" where
  "padStart s n = replicate (n - length s) (CHR ''0'') @ s"

definition padEnd :: "string \<Rightarrow> nat \<Rightarrow> string" where
  "padEnd s n = s @ replicate (n - length s) (CHR ''0'')"

text \<open>\<open>s.replace(/(0+)$/, '')\<close>: the trailing zeros are removed.\<close>

definition strip_trailing_zeros :: "string \<Rightarrow> string" where
  "strip_trailing_zeros s = rev (dropWhile (\<lambda>c. c = CHR ''0'') (rev s))"

text \<open>viem's \<open>formatUnits(value, decimals)\<close> on a bigint.\<close>

definition formatUnits :: "int \<Rightarrow> nat \<Rightarrow> string" where
  "formatUnits v decimals =
     (let display0 = BigInt_toString v;
          negative = startsWith display0 ''-'';
          display1 = (if negative then drop 1 display0 else display0);
          display = padStart display1 decimals;
          integer = take (length display - decimals) display;
          fraction = strip_trailing_zeros (drop (length display - decimals) display)
      in (if negative then ''-'' else [])
           @ (if integer = [] then ''0'' else integer)
           @ (if fraction = [] then [] else CHR ''.'' # fraction))"

text \<open>
  \<open>Math.round\<close>: the nearest integer, a tie going up; a value that is not finite is
  returned as it is.
\<close>

definition Math_round :: "jsnum \<Rightarrow> jsnum" where
  "Math_round x = (case x of Finite r \<Rightarrow> Finite (of_int \<lfloor>r + 1 / 2\<rfloor>) | _ \<Rightarrow> x)"

text \<open>
  The text of a number inside a template literal. The conversions below print the result
  of \<open>Math.round\<close> only, and only when it is not above \<open>9\<close>: a small integer, whose text
  is its digits, or \<open>NaN\<close>.
\<close>

definition number_text :: "jsnum \<Rightarrow> string" where
  "number_text x =
     (case x of
        NaN \<Rightarrow> ''NaN''
      | PosInfinity \<Rightarrow> ''Infinity''
      | NegInfinity \<Rightarrow> ''-Infinity''
      | Finite r \<Rightarrow> BigInt_toString \<lfloor>r\<rfloor>)"

text \<open>
  viem's \<open>parseUnits(value, decimals)\<close>. The value must match
  \<open>/^(-?)([0-9]*)\.?([0-9]*)$/\<close> (InvalidDecimalNumberError otherwise); it is split at the
  dot, trailing zeros of the fraction are dropped, a fraction longer than \<open>decimals\<close> is
  rounded at the last kept digit, a shorter one is padded, and the digits are converted
  with \<open>BigInt\<close>. \<open>None\<close> is a raised exception. The decimal count is whatever the
  caller passes: \<open>decimals === 0\<close> holds for the number \<open>0\<close> only, and everywhere else
  the value is coerced to a number.
\<close>

definition decimalRegex_test :: "string \<Rightarrow> bool" where
  "decimalRegex_test s =
     (let u = (if startsWith s ''-'' then drop 1 s else s);
          r1 = dropWhile is_digit u;
          r2 = (if startsWith r1 ''.'' then drop 1 r1 else r1)
      in list_all is_digit r2)"

definition parseUnits :: "string \<Rightarrow> jsval option \<Rightarrow> int option" where
  "parseUnits val decimals =
     (if \<not> decimalRegex_test val then None
      else
        let integer0 = takeWhile (\<lambda>c. c \<noteq> CHR ''.'') val;
            after = dropWhile (\<lambda>c. c \<noteq> CHR ''.'') val;
            fraction0 = (if after = [] then ''0'' else drop 1 after);
            negative = startsWith integer0 ''-'';
            sign = (if negative then ''-'' else []);
            integer1 = (if negative then drop 1 integer0 else integer0);
            fraction1 = strip_trailing_zeros fraction0;
            d = to_number decimals
        in if decimals = Some (JNumber 0) then
             (case (if Math_round (Number (CHR ''.'' # fraction1)) = Finite 1
                    then map_option (\<lambda>i. BigInt_toString (i + 1)) (BigInt integer1)
                    else Some integer1) of
                None \<Rightarrow> None
              | Some integer \<Rightarrow> BigInt (sign @ integer))
           else if js_gt (Finite (of_nat (length fraction1))) d then
             (let left = slice fraction1 (Finite 0) (minus_one d);
                  unit = slice fraction1 (minus_one d) d;
                  right = slice_from fraction1 d;
                  rounded = Math_round (Number (unit @ ''.'' @ right))
              in case (if js_gt rounded (Finite 9)
                       then map_option
                              (\<lambda>l. padStart (BigInt_toString (l + 1) @ ''0'') (length left + 1))
                              (BigInt left)
                       else Some (left @ number_text rounded)) of
                   None \<Rightarrow> None
                 | Some fraction2 \<Rightarrow>
                     (case (if js_gt (Finite (of_nat (length fraction2))) d
                            then map_option
                                   (\<lambda>i. (BigInt_toString (i + 1), slice_from fraction2 (Finite 1)))
                                   (BigInt integer1)
                            else Some (integer1, fraction2)) of
                        None \<Rightarrow> None
                      | Some (integer, fraction3) \<Rightarrow>
                          BigInt (sign @ integer @ slice fraction3 (Finite 0) d)))
           else BigInt (sign @ integer1 @ padEnd fraction1 (ToLength d)))"

text \<open>\<open>parseEther\<close> and \<open>parseGwei\<close> of viem, with their default unit \<open>wei\<close>.\<close>

definition parseEther :: "string \<Rightarrow> int option" where
  "parseEther ether = parseUnits ether (Some (JNumber 18))"

definition parseGwei :: "string \<Rightarrow> int option" where
  "parseGwei gwei = parseUnits gwei (Some (JNumber 9))"

section \<open>validators.ts\<close>

text \<open>
  \<open>hasEnoughBalance\<close>: the body of the \<open>try\<close> converts the three strings in order and
  compares; the \<open>catch\<close> logs and returns \<open>false\<close>.
\<close>

definition hasEnoughBalance_try :: "string \<Rightarrow> string \<Rightarrow> string \<Rightarrow> bool option" where
  "hasEnoughBalance_try balance amount gasEstimate =
     (case BigInt balance of
        None \<Rightarrow> None
      | Some balanceBigInt \<Rightarrow>
          (case BigInt amount of
             None \<Rightarrow> None
           | Some amountBigInt \<Rightarrow>
               (case BigInt gasEstimate of
                  None \<Rightarrow> None
                | Some gasEstimateBigInt \<Rightarrow>
                    Some (balanceBigInt \<ge> amountBigInt + gasEstimateBigInt))))"

definition hasEnoughBalance :: "string \<Rightarrow> string \<Rightarrow> string \<Rightarrow> bool" where
  "hasEnoughBalance balance amount gasEstimate =
     (case hasEnoughBalance_try balance amount gasEstimate of
        Some r \<Rightarrow> r
      | None \<Rightarrow> False)"

text \<open>
  The specification's reading of a string that parses as a big integer, to compare with
  the code. The string is an integer literal between two runs of white space. An integer
  literal is nothing (the integer \<open>0\<close>), a decimal numeral with an optional sign, or an
  unsigned numeral of radix 16, 8 or 2 after \<open>0x\<close>, \<open>0o\<close> or \<open>0b\<close> (in either letter
  case). A numeral is a non-empty run of digits of its radix, and it denotes the sum of
  its digits weighted by the powers of the radix, the last digit having weight one.
\<close>

definition the_digit :: "char \<Rightarrow> int" where
  "the_digit c = (case digit_val c of None \<Rightarrow> 0 | Some d \<Rightarrow> d)"

definition positional_value :: "int \<Rightarrow> string \<Rightarrow> int" where
  "positional_value r ds =
     sum_list (map (\<lambda>i. the_digit (ds ! i) * r ^ (length ds - 1 - i)) [0..<length ds])"

definition numeral_spec :: "int \<Rightarrow> string \<Rightarrow> bool" where
  "numeral_spec r ds = (ds \<noteq> [] \<and> list_all (is_radix_digit r) ds)"

definition bigint_literal_spec :: "string \<Rightarrow> int \<Rightarrow> bool" where
  "bigint_literal_spec t v =
     ((t = [] \<and> v = 0)
      \<or> (\<exists>ds. numeral_spec 10 ds
            \<and> ((t = ds \<or> t = CHR ''+'' # ds) \<and> v = positional_value 10 ds
               \<or> t = CHR ''-'' # ds \<and> v = - positional_value 10 ds))
      \<or> (\<exists>ds. numeral_spec 16 ds \<and> (t = ''0x'' @ ds \<or> t = ''0X'' @ ds) \<and> v = positional_value 16 ds)
      \<or> (\<exists>ds. numeral_spec 8 ds \<and> (t = ''0o'' @ ds \<or> t = ''0O'' @ ds) \<and> v = positional_value 8 ds)
      \<or> (\<exists>ds. numeral_spec 2 ds \<and> (t = ''0b'' @ ds \<or> t = ''0B'' @ ds) \<and> v = positional_value 2 ds))"

definition parses_as_bigint_spec :: "string \<Rightarrow> int \<Rightarrow> bool" where
  "parses_as_bigint_spec s v =
     (\<exists>l t r. s = l @ t @ r \<and> list_all is_ws l \<and> list_all is_ws r \<and> bigint_literal_spec t v)"

text \<open>
  \<open>isValidAmount\<close>. The regular expression \<open>/^(?!0\d)\d*(\.\d{1,18})?$/\<close> has no flags:
  \<open>\d\<close> is an ASCII digit and \<open>$\<close> is the end of the input. The look-ahead refuses a
  \<open>0\<close> followed by a digit at the start; \<open>\d*\<close> takes the leading digits (a digit can
  never start the optional group, so taking all of them loses no match); what is left is
  empty or a dot and one to eighteen digits.
\<close>

definition amountRegex_test :: "string \<Rightarrow> bool" where
  "amountRegex_test s =
     (let zero_then_digit = (case s of c1 # c2 # _ \<Rightarrow> c1 = CHR ''0'' \<and> is_digit c2 | _ \<Rightarrow> False);
          rest = dropWhile is_digit s
      in \<not> zero_then_digit \<and>
         (case rest of
            [] \<Rightarrow> True
          | c # fs \<Rightarrow> c = CHR ''.'' \<and> 1 \<le> length fs \<and> length fs \<le> 18 \<and> list_all is_digit fs))"

definition isValidAmount :: "string \<Rightarrow> bool" where
  "isValidAmount amount = (amountRegex_test amount \<and> js_gt (parseFloat amount) (Finite 0))"

text \<open>
  The specification's reading of a valid amount, to compare with the code: an unsigned
  decimal numeral, that is a run of digits (the integer part, \<open>ip\<close>) optionally followed
  by a dot and a non-empty run of at most eighteen digits (the fraction, \<open>fp\<close>); the
  integer part has no redundant leading zero (a \<open>0\<close> is its only digit or it does not
  start with \<open>0\<close>); and the number denoted is greater than zero. The integer part may be
  empty (\<open>.5\<close>), as the callers of \<open>isValidAmount\<close> expect.
\<close>

text \<open>The text of a fraction: nothing, or a dot and the digits.\<close>

definition frac_text :: "string \<Rightarrow> string" where
  "frac_text fp = (if fp = [] then [] else CHR ''.'' # fp)"

definition redundant_leading_zero :: "string \<Rightarrow> bool" where
  "redundant_leading_zero ip = (case ip of c1 # c2 # _ \<Rightarrow> c1 = CHR ''0'' | _ \<Rightarrow> False)"

definition positive_decimal_spec :: "string \<Rightarrow> bool" where
  "positive_decimal_spec s =
     (\<exists>ip fp. s = ip @ (if fp = [] then [] else CHR ''.'' # fp)
        \<and> list_all is_digit ip \<and> list_all is_digit fp \<and> length fp \<le> 18
        \<and> \<not> redundant_leading_zero ip
        \<and> 0 < decimal_value ip fp)"

section \<open>Session state, external world and replies\<close>

type_synonym tempdata = "string \<rightharpoonup> jsval"

record user_settings =
  slippage :: "string option"
  gasPriority :: "string option"

record wallet_data =
  address :: string

record session =
  userId :: string
  currentAction :: "string option"
  tempData :: "tempdata option"
  settings :: "user_settings option"

datatype tx_status = success | failure

record receipt =
  transactionHash :: string
  status :: tx_status
  gasUsed :: int
  effectiveGasPrice :: int

record tx_record =
  tx_hash :: string
  tx_userId :: string
  tx_fromAddress :: string
  tx_tokenIn :: "jsval option"
  tx_tokenOut :: "jsval option"
  tx_amountIn :: "jsval option"
  tx_result :: tx_status
  tx_amountOut :: "jsval option"
  tx_gasUsed :: int

text \<open>Every call that leaves the process is logged, oldest first.\<close>

datatype call =
    EstimateFeesPerGas
  | GetQuote
  | GetSwap
  | ReadAllowance string string string
  | WriteApprove string string string
  | SendTransaction string string int int
  | SendWithdrawal "jsval option" int
  | SaveTransaction tx_record

record world =
  allowance_now :: "string option"
  calls :: "call list"

record quote_data =
  outAmount :: string
  estimatedGas :: string

record swap_data =
  swap_to :: string
  swap_data :: string
  swap_value :: string
  swap_gasPrice :: string
  inAmount :: string

text \<open>
  The body of an OpenOcean response: an error object, a falsy body, an object without
  \<open>data\<close>, or an object with \<open>data\<close>.
\<close>

datatype 'a api_body = BodyError | BodyNull | BodyNoData | BodyData 'a

text \<open>
  The environment of one turn: the constants of \<open>utils/constants\<close> and the formatters of
  \<open>utils/formatters\<close> (not part of the sources at hand, taken as parameters; the
  formatters are total), and what each provider answers when called. \<open>None\<close> is a
  rejected call. \<open>allowance_now\<close> of the world is what an allowance read returns at the
  moment; a mined approval replaces it by \<open>snd\<close> of \<open>approve_outcome\<close>.
\<close>

record env =
  NATIVE_TOKEN_ADDRESS :: string
  MAX_UINT256 :: string
  formatEthBalance :: "jsval option \<Rightarrow> string"
  fees_answer :: "(int \<times> int) option"
  quote_answer :: "quote_data api_body option"
  swap_answer :: "swap_data api_body option"
  decrypt_ok :: bool
  approve_outcome :: "(receipt \<times> string option) option"
  send_outcome :: "receipt option"
  withdraw_outcome :: "receipt option"
  save_ok :: bool

definition log_call :: "call \<Rightarrow> world \<Rightarrow> world" where
  "log_call c w = w\<lparr>calls := calls w @ [c]\<rparr>"

text \<open>The replies of the handlers, one constructor for each message text.\<close>

datatype reply =
    OperationCancelled          \<comment> \<open>Operation cancelled.\<close>
  | InvalidRequest              \<comment> \<open>Invalid request.\<close>
  | SessionExpired              \<comment> \<open>Session expired. Please start with /withdraw again.\<close>
  | InvalidAmountFormat         \<comment> \<open>Invalid amount format.\<close>
  | InsufficientBalance         \<comment> \<open>Insufficient balance. You have ... ETH.\<close>
  | InsufficientForGas          \<comment> \<open>Insufficient balance for amount + gas.\<close>
  | WithdrawConfirmPrompt       \<comment> \<open>the withdrawal confirmation, with Confirm and Cancel buttons\<close>
  | AnErrorOccurred             \<comment> \<open>An error occurred.\<close>
  | WithdrawalCancelled         \<comment> \<open>Withdrawal cancelled.\<close>
  | SessionOrWalletNotFound     \<comment> \<open>Session or wallet not found. Please start over.\<close>
  | SessionDataLost             \<comment> \<open>Session data lost. Please start over.\<close>
  | MissingTransactionDetails   \<comment> \<open>Missing transaction details in session. Please start over.\<close>
  | WithdrawalSuccessful        \<comment> \<open>Withdrawal Successful! ...\<close>
  | WithdrawalFailed            \<comment> \<open>Withdrawal Failed. ...\<close>
  | WithdrawalError             \<comment> \<open>An error occurred during withdrawal.\<close>
  | InvalidRequestTryAgain      \<comment> \<open>Invalid request. Please try again.\<close>
  | InvalidAmountPositive       \<comment> \<open>Invalid amount format. Please enter a positive number. ...\<close>
  | InsufficientOnlyHave        \<comment> \<open>Insufficient balance. You only have ... available. ...\<close>
  | ErrorTryAgainLater          \<comment> \<open>An error occurred. Please try again later.\<close>
  | WalletNotFound              \<comment> \<open>Wallet not found. Please create or import a wallet first.\<close>
  | TradeConfirmPrompt          \<comment> \<open>the transaction details, with Confirm and Cancel buttons\<close>
  | QuoteError                  \<comment> \<open>An error occurred while getting the quote. Please try again later.\<close>
  | TradeCancelled              \<comment> \<open>Trade cancelled.\<close>
  | SessionExpiredStart         \<comment> \<open>Session expired. Please use /start to begin again.\<close>
  | ApprovalFailed              \<comment> \<open>Approval Failed. Unable to approve token spending. ...\<close>
  | TokenApprovalFailed         \<comment> \<open>Token approval failed. Please try again later.\<close>
  | TransactionSuccessful       \<comment> \<open>Transaction Successful ...\<close>
  | TransactionFailed           \<comment> \<open>Transaction Failed ...\<close>
  | TradeError                  \<comment> \<open>An error occurred while processing your trade. Please try again later.\<close>
  | InvalidSessionState         \<comment> \<open>Invalid session state. Please restart with /buy.\<close>
  | WalletNotFoundRestart       \<comment> \<open>Wallet not found. Please create or import a wallet and restart with /buy.\<close>
  | QuoteFetchFailed            \<comment> \<open>Failed to fetch swap quote. Please try again.\<close>
  | InvalidAmountExample        \<comment> \<open>Invalid amount format. Please enter a positive number (e.g., 0.0000002). ...\<close>
  | InvalidConfirmationState    \<comment> \<open>Invalid confirmation state.\<close>
  | OtherReply string           \<comment> \<open>a reply of a handler that is not modelled here\<close>

text \<open>\<open>session.currentAction = undefined; session.tempData = {}\<close>\<close>

definition clear_flow :: "session \<Rightarrow> session" where
  "clear_flow s = s\<lparr>currentAction := None, tempData := Some Map.empty\<rparr>"

text \<open>\<open>session.tempData!.k = v\<close> on a session whose \<open>tempData\<close> is an object.\<close>

definition set_temp :: "string \<Rightarrow> jsval option \<Rightarrow> session \<Rightarrow> session" where
  "set_temp k v s =
     (case tempData s of
        None \<Rightarrow> s
      | Some td \<Rightarrow> s\<lparr>tempData := Some (td(k := v))\<rparr>)"

definition temp :: "session \<Rightarrow> string \<Rightarrow> jsval option" where
  "temp s k = (case tempData s of None \<Rightarrow> None | Some td \<Rightarrow> td k)"

text \<open>
  \<open>session.settings?.slippage.toString() || "1.0"\<close>: a settings object without a slippage
  raises a TypeError.
\<close>

definition slippage_text :: "session \<Rightarrow> string option" where
  "slippage_text s =
     (case settings s of
        None \<Rightarrow> Some ''1.0''
      | Some st \<Rightarrow>
          (case slippage st of
             None \<Rightarrow> None
           | Some t \<Rightarrow> Some (if t = [] then ''1.0'' else t)))"

section \<open>lib/swap.ts and lib/token-wallet.ts\<close>

record gas_params =
  price :: string
  maxFeePerGas :: string
  maxPriorityFeePerGas :: string

text \<open>
  \<open>getGasParams\<close> never raises: when the fee estimate is rejected the \<open>catch\<close> returns the
  fixed fallback.
\<close>

definition getGasParams :: "env \<Rightarrow> world \<Rightarrow> world \<times> gas_params" where
  "getGasParams e w =
     (let w1 = log_call EstimateFeesPerGas w in
      case fees_answer e of
        Some (maxFee, maxPriorityFee) \<Rightarrow>
          (w1, \<lparr>price = formatUnits maxFee 9,
                maxFeePerGas = formatUnits maxFee 9,
                maxPriorityFeePerGas = formatUnits maxPriorityFee 9\<rparr>)
      | None \<Rightarrow>
          (w1, \<lparr>price = ''0.1'', maxFeePerGas = ''0.1'', maxPriorityFeePerGas = ''0.05''\<rparr>))"

text \<open>
  \<open>getQuote\<close> and \<open>getSwap\<close>: a rejected request and an error body are rethrown; any
  other body is returned as it is.
\<close>

definition getQuote :: "env \<Rightarrow> world \<Rightarrow> world \<times> quote_data api_body option" where
  "getQuote e w =
     (let w1 = log_call GetQuote w in
      case quote_answer e of
        None \<Rightarrow> (w1, None)
      | Some BodyError \<Rightarrow> (w1, None)
      | Some body \<Rightarrow> (w1, Some body))"

definition getSwap :: "env \<Rightarrow> world \<Rightarrow> world \<times> swap_data api_body option" where
  "getSwap e w =
     (let w1 = log_call GetSwap w in
      case swap_answer e of
        None \<Rightarrow> (w1, None)
      | Some BodyError \<Rightarrow> (w1, None)
      | Some body \<Rightarrow> (w1, Some body))"

text \<open>\<open>swap.data\<close>, \<open>quote.data\<close>: reading \<open>data\<close> of a falsy body, or a field of a missing \<open>data\<close>, raises.\<close>

fun body_data :: "'a api_body \<Rightarrow> 'a option" where
  "body_data (BodyData d) = Some d"
| "body_data _ = None"

text \<open>
  \<open>getTokenAllowance\<close>: the native token needs no allowance and no read is made; a
  rejected read is caught and reported as \<open>"0"\<close>.
\<close>

definition getTokenAllowance ::
  "env \<Rightarrow> string \<Rightarrow> string \<Rightarrow> string \<Rightarrow> world \<Rightarrow> world \<times> string" where
  "getTokenAllowance e tokenAddress ownerAddress spenderAddress w =
     (if toLowerCase tokenAddress = toLowerCase (NATIVE_TOKEN_ADDRESS e) then (w, MAX_UINT256 e)
      else
        let w1 = log_call (ReadAllowance tokenAddress ownerAddress spenderAddress) w in
        case allowance_now w of
          Some allowance \<Rightarrow> (w1, allowance)
        | None \<Rightarrow> (w1, ''0''))"

text \<open>
  \<open>executeContractMethod\<close> for \<open>approve(spender, amount)\<close>: the account is decrypted, the
  call simulated, written and its receipt awaited; any failure is rethrown.
\<close>

definition executeContractMethod ::
  "env \<Rightarrow> string \<Rightarrow> string \<Rightarrow> string \<Rightarrow> world \<Rightarrow> world \<times> receipt option" where
  "executeContractMethod e contractAddress spender amount w =
     (if \<not> decrypt_ok e then (w, None)
      else
        let w1 = log_call (WriteApprove contractAddress spender amount) w in
        case approve_outcome e of
          None \<Rightarrow> (w1, None)
        | Some (r, allowance') \<Rightarrow> (w1\<lparr>allowance_now := allowance'\<rparr>, Some r))"

text \<open>\<open>executeTransaction\<close>: \<open>BigInt(params.value || "0")\<close> and \<open>BigInt(params.gasPrice)\<close> may raise before anything is sent.\<close>

definition executeTransaction :: "env \<Rightarrow> swap_data \<Rightarrow> world \<Rightarrow> world \<times> receipt option" where
  "executeTransaction e params w =
     (if \<not> decrypt_ok e then (w, None)
      else
        case BigInt (if swap_value params = [] then ''0'' else swap_value params) of
          None \<Rightarrow> (w, None)
        | Some v \<Rightarrow>
            (case BigInt (swap_gasPrice params) of
               None \<Rightarrow> (w, None)
             | Some g \<Rightarrow>
                 (log_call (SendTransaction (swap_to params) (swap_data params) v g) w,
                  send_outcome e)))"

text \<open>
  \<open>withdrawEth\<close>: the amount, and the two fee fields when both are truthy, are converted
  with \<open>BigInt\<close> before the transfer is sent.
\<close>

definition withdrawEth ::
  "env \<Rightarrow> jsval option \<Rightarrow> jsval option \<Rightarrow> jsval option \<Rightarrow> jsval option \<Rightarrow> world
     \<Rightarrow> world \<times> receipt option" where
  "withdrawEth e to amount maxFee maxPriorityFee w =
     (if \<not> decrypt_ok e then (w, None)
      else
        case BigInt_of amount of
          None \<Rightarrow> (w, None)
        | Some v \<Rightarrow>
            if truthy maxFee \<and> truthy maxPriorityFee
               \<and> (BigInt_of maxFee = None \<or> BigInt_of maxPriorityFee = None)
            then (w, None)
            else (log_call (SendWithdrawal to v) w, withdraw_outcome e))"

section \<open>commands/withdraw.ts\<close>

text \<open>
  A handler takes the session, the wallet and the argument of the turn and returns the
  session as the turn leaves it, the world and the reply. The body of its \<open>try\<close> is a
  function of its own that returns \<open>None\<close> for the reply when it raises, together with
  the session and the world as they are at that point (the session is mutated in place);
  the handler adds what the \<open>catch\<close> does.
\<close>

definition falsy_text :: "string option \<Rightarrow> bool" where
  "falsy_text a = (case a of None \<Rightarrow> True | Some t \<Rightarrow> t = [])"

definition handleWithdrawAmount_try ::
  "env \<Rightarrow> session \<Rightarrow> string option \<Rightarrow> world \<Rightarrow> session \<times> world \<times> reply option" where
  "handleWithdrawAmount_try e s args w =
     (if userId s = [] \<or> falsy_text args then (s, w, Some InvalidRequest)
      else if tempData s = None \<or> \<not> is_string (temp s ''balance'') \<or> \<not> is_string (temp s ''to'')
        then (s\<lparr>currentAction := None\<rparr>, w, Some SessionExpired)
      else
        let amountInput = the args; balance = temp s ''balance'' in
        if \<not> isValidAmount amountInput then (s, w, Some InvalidAmountFormat)
        else
          let cleanAmount = (if startsWith amountInput ''.'' then ''0'' @ amountInput else amountInput) in
          case parseEther cleanAmount of
            None \<Rightarrow> (s, w, None)
          | Some parsed \<Rightarrow>
              let amountWei = BigInt_toString parsed in
              (case BigInt_of balance of
                 None \<Rightarrow> (s, w, None)
               | Some b \<Rightarrow>
                   (case BigInt amountWei of
                      None \<Rightarrow> (s, w, None)
                    | Some a \<Rightarrow>
                        if b < a then (s, w, Some InsufficientBalance)
                        else
                          let (w1, gasParams) = getGasParams e w;
                              gasLimit = 21000
                          in case parseGwei (maxFeePerGas gasParams) of
                               None \<Rightarrow> (s, w1, None)
                             | Some maxFeePerGasWei \<Rightarrow>
                                 let gasCost = maxFeePerGasWei * gasLimit in
                                 if b \<le> a + gasCost then (s, w1, Some InsufficientForGas)
                                 else
                                   let s1 = set_temp ''amount'' (Some (JString amountWei)) s;
                                       s2 = set_temp ''maxFeePerGas''
                                              (Some (JString (BigInt_toString maxFeePerGasWei))) s1
                                   in case parseGwei (maxPriorityFeePerGas gasParams) of
                                        None \<Rightarrow> (s2, w1, None)
                                      | Some prio \<Rightarrow>
                                          let s3 = set_temp ''maxPriorityFeePerGas''
                                                     (Some (JString (BigInt_toString prio))) s2;
                                              s4 = s3\<lparr>currentAction := Some ''withdraw_confirm''\<rparr>
                                          in (s4, w1, Some WithdrawConfirmPrompt))))"

definition handleWithdrawAmount ::
  "env \<Rightarrow> session \<Rightarrow> string option \<Rightarrow> world \<Rightarrow> session \<times> world \<times> reply" where
  "handleWithdrawAmount e s args w =
     (case handleWithdrawAmount_try e s args w of
        (s', w', Some r) \<Rightarrow> (s', w', r)
      | (s', w', None) \<Rightarrow> (s', w', AnErrorOccurred))"

text \<open>
  \<open>saveTransaction\<close> belongs to \<open>lib/database\<close>; it is awaited here, so its rejection is
  caught by the handler.
\<close>

definition handleWithdrawConfirmation_try ::
  "env \<Rightarrow> session \<Rightarrow> wallet_data option \<Rightarrow> bool \<Rightarrow> world \<Rightarrow> session \<times> world \<times> reply option" where
  "handleWithdrawConfirmation_try e s wallet confirmed w =
     (if \<not> confirmed then (clear_flow s, w, Some WithdrawalCancelled)
      else if userId s = [] \<or> wallet = None then (s, w, Some SessionOrWalletNotFound)
      else if tempData s = None then (s, w, Some SessionDataLost)
      else if \<not> truthy (temp s ''from'') \<or> \<not> truthy (temp s ''to'') \<or> \<not> truthy (temp s ''amount'')
        then (s, w, Some MissingTransactionDetails)
      else
        case withdrawEth e (temp s ''to'') (temp s ''amount'') (temp s ''maxFeePerGas'')
               (temp s ''maxPriorityFeePerGas'') w of
          (w1, None) \<Rightarrow> (s, w1, None)
        | (w1, Some r) \<Rightarrow>
            let w2 = log_call (SaveTransaction
                       \<lparr>tx_hash = transactionHash r, tx_userId = userId s,
                        tx_fromAddress = address (the wallet),
                        tx_tokenIn = Some (JString (NATIVE_TOKEN_ADDRESS e)),
                        tx_tokenOut = temp s ''to'', tx_amountIn = temp s ''amount'',
                        tx_result = status r, tx_amountOut = Some (JString ''0''),
                        tx_gasUsed = gasUsed r\<rparr>) w1
            in if \<not> save_ok e then (s, w2, None)
               else
                 let s1 = clear_flow s in
                 if status r = success then (s1, w2, Some WithdrawalSuccessful)
                 else (s1, w2, Some WithdrawalFailed))"

definition handleWithdrawConfirmation ::
  "env \<Rightarrow> session \<Rightarrow> wallet_data option \<Rightarrow> bool \<Rightarrow> world \<Rightarrow> session \<times> world \<times> reply" where
  "handleWithdrawConfirmation e s wallet confirmed w =
     (case handleWithdrawConfirmation_try e s wallet confirmed w of
        (s', w', Some r) \<Rightarrow> (s', w', r)
      | (s', w', None) \<Rightarrow> (clear_flow s', w', WithdrawalError))"

section \<open>commands/sell.ts\<close>

text \<open>
  \<open>handleSellAmountLogic\<close>. The amount is stored in \<open>tempData.fromAmount\<close> before any
  provider is called. The \<open>catch\<close> returns the quote error message and touches nothing.
\<close>

definition handleSellAmountLogic_try ::
  "env \<Rightarrow> session \<Rightarrow> wallet_data option \<Rightarrow> jsval option \<Rightarrow> world
     \<Rightarrow> session \<times> world \<times> reply option" where
  "handleSellAmountLogic_try e s wallet amountInUnits w =
     (if wallet = None then (s, w, Some WalletNotFound)
      else if tempData s = None then (s, w, None)
      else
        let s1 = set_temp ''fromAmount'' amountInUnits s;
            (w1, gasParams) = getGasParams e w;
            s2 = set_temp ''gasPrice'' (Some (JString (price gasParams))) s1;
            s3 = set_temp ''maxFeePerGas'' (Some (JString (maxFeePerGas gasParams))) s2;
            s4 = set_temp ''maxPriorityFeePerGas''
                   (Some (JString (maxPriorityFeePerGas gasParams))) s3
        in if BigInt_of amountInUnits = None \<or> slippage_text s = None
           then (s4, w1, None)
           else
             case getQuote e w1 of
               (w2, None) \<Rightarrow> (s4, w2, None)
             | (w2, Some quote) \<Rightarrow>
                 (case body_data quote of
                    None \<Rightarrow> (s4, w2, None)
                  | Some d \<Rightarrow>
                      let s5 = set_temp ''toAmount'' (Some (JString (outAmount d))) s4;
                          s6 = set_temp ''estimatedGas'' (Some (JString (estimatedGas d))) s5;
                          s7 = s6\<lparr>currentAction := Some ''sell_confirm''\<rparr>
                      in (s7, w2, Some TradeConfirmPrompt)))"

definition handleSellAmountLogic ::
  "env \<Rightarrow> session \<Rightarrow> wallet_data option \<Rightarrow> jsval option \<Rightarrow> world \<Rightarrow> session \<times> world \<times> reply" where
  "handleSellAmountLogic e s wallet amountInUnits w =
     (case handleSellAmountLogic_try e s wallet amountInUnits w of
        (s', w', Some r) \<Rightarrow> (s', w', r)
      | (s', w', None) \<Rightarrow> (s', w', QuoteError))"

text \<open>
  \<open>handleSellAmountInput\<close>. The input \<open>max\<close> (in any letter case) goes to
  \<open>handleSellAmountLogic\<close> with the stored \<open>tokenBalance\<close> before the amount is validated
  or parsed.
\<close>

definition handleSellAmountInput_try ::
  "env \<Rightarrow> session \<Rightarrow> wallet_data option \<Rightarrow> string option \<Rightarrow> world
     \<Rightarrow> session \<times> world \<times> reply option" where
  "handleSellAmountInput_try e s wallet args w =
     (if userId s = [] \<or> falsy_text args then (s, w, Some InvalidRequestTryAgain)
      else if tempData s = None then (s, w, None)
      else
        let input = the args; tokenBalance = temp s ''tokenBalance'' in
        if toLowerCase input = ''max''
        then (case handleSellAmountLogic e s wallet tokenBalance w of (s', w', r) \<Rightarrow> (s', w', Some r))
        else if \<not> isValidAmount input then (s, w, Some InvalidAmountPositive)
        else
          let amountInput = (if startsWith input ''.'' then ''0'' @ input else input) in
          case parseUnits amountInput (temp s ''fromDecimals'') of
            None \<Rightarrow> (s, w, None)
          | Some parsed \<Rightarrow>
              let amountInUnits = BigInt_toString parsed in
              (case BigInt amountInUnits of
                 None \<Rightarrow> (s, w, None)
               | Some a \<Rightarrow>
                   (case BigInt_of tokenBalance of
                      None \<Rightarrow> (s, w, None)
                    | Some b \<Rightarrow>
                        if a > b then (s, w, Some InsufficientOnlyHave)
                        else
                          (case handleSellAmountLogic e s wallet (Some (JString amountInUnits)) w of
                             (s', w', r) \<Rightarrow> (s', w', Some r)))))"

definition handleSellAmountInput ::
  "env \<Rightarrow> session \<Rightarrow> wallet_data option \<Rightarrow> string option \<Rightarrow> world \<Rightarrow> session \<times> world \<times> reply" where
  "handleSellAmountInput e s wallet args w =
     (case handleSellAmountInput_try e s wallet args w of
        (s', w', Some r) \<Rightarrow> (s', w', r)
      | (s', w', None) \<Rightarrow> (s', w', ErrorTryAgainLater))"

text \<open>
  \<open>handleSellConfirmation\<close>. \<open>saveTransaction\<close> is not awaited: its rejection does not
  reach the \<open>catch\<close>. The first allowance check compares with \<open>swap.data.inAmount\<close>, the
  check after the approval with \<open>fromAmount\<close> of the session. After the receipt of the
  swap the handler returns without touching the session.
\<close>

definition string_of :: "jsval option \<Rightarrow> string option" where
  "string_of v = (case v of Some (JString t) \<Rightarrow> Some t | _ \<Rightarrow> None)"

definition sell_record :: "session \<Rightarrow> wallet_data \<Rightarrow> receipt \<Rightarrow> tx_record" where
  "sell_record s wl r =
     \<lparr>tx_hash = transactionHash r, tx_userId = userId s, tx_fromAddress = address wl,
      tx_tokenIn = temp s ''fromToken'', tx_tokenOut = temp s ''toToken'',
      tx_amountIn = temp s ''fromAmount'', tx_result = status r,
      tx_amountOut = temp s ''toAmount'', tx_gasUsed = gasUsed r\<rparr>"

text \<open>
  The approval block of \<open>handleSellConfirmation\<close> (the body of
  \<open>if (fromToken.toLowerCase() !== NATIVE_TOKEN_ADDRESS.toLowerCase())\<close>). Its result is
  \<open>None\<close> when the handler goes on to the swap, \<open>Some (Some r)\<close> when it returns the
  reply \<open>r\<close>, and \<open>Some None\<close> when it raises.
\<close>

definition sell_approval ::
  "env \<Rightarrow> session \<Rightarrow> wallet_data \<Rightarrow> string \<Rightarrow> swap_data \<Rightarrow> world
     \<Rightarrow> world \<times> reply option option" where
  "sell_approval e s wl fromToken swap w1 =
     (let (w2, allowance) = getTokenAllowance e fromToken (address wl) (swap_to swap) w1 in
      case BigInt allowance of
        None \<Rightarrow> (w2, Some None)
      | Some al \<Rightarrow>
          (case BigInt (inAmount swap) of
             None \<Rightarrow> (w2, Some None)
           | Some need \<Rightarrow>
               if al < need then
                 (case executeContractMethod e fromToken (swap_to swap) (MAX_UINT256 e) w2 of
                    (w3, None) \<Rightarrow> (w3, Some None)
                  | (w3, Some r) \<Rightarrow>
                      if status r \<noteq> success then (w3, Some (Some ApprovalFailed))
                      else
                        let (w4, newAllowance) =
                              getTokenAllowance e fromToken (address wl) (swap_to swap) w3
                        in (case BigInt newAllowance of
                              None \<Rightarrow> (w4, Some None)
                            | Some na \<Rightarrow>
                                (case BigInt_of (temp s ''fromAmount'') of
                                   None \<Rightarrow> (w4, Some None)
                                 | Some fa \<Rightarrow>
                                     if na < fa then (w4, Some (Some TokenApprovalFailed))
                                     else (w4, None))))
               else (w2, None)))"

definition handleSellConfirmation_try ::
  "env \<Rightarrow> session \<Rightarrow> wallet_data option \<Rightarrow> bool \<Rightarrow> world \<Rightarrow> session \<times> world \<times> reply option" where
  "handleSellConfirmation_try e s wallet confirmed w =
     (if \<not> confirmed then (clear_flow s, w, Some TradeCancelled)
      else if userId s = [] then (s, w, Some SessionExpiredStart)
      else
        case wallet of
          None \<Rightarrow> (s, w, Some WalletNotFound)
        | Some wl \<Rightarrow>
            if tempData s = None \<or> slippage_text s = None
               \<or> BigInt_of (temp s ''fromAmount'') = None
            then (s, w, None)
            else
              case getSwap e w of
                (w1, None) \<Rightarrow> (s, w1, None)
              | (w1, Some body) \<Rightarrow>
                  (case string_of (temp s ''fromToken'') of
                     None \<Rightarrow> (s, w1, None)
                   | Some fromToken \<Rightarrow>
                       (case body_data body of
                          None \<Rightarrow> (s, w1, None)
                        | Some swap \<Rightarrow>
                            (case (if toLowerCase fromToken \<noteq> toLowerCase (NATIVE_TOKEN_ADDRESS e)
                                   then sell_approval e s wl fromToken swap w1
                                   else (w1, None)) of
                               (w4, Some out) \<Rightarrow> (s, w4, out)
                             | (w4, None) \<Rightarrow>
                                 (case executeTransaction e swap w4 of
                                    (w5, None) \<Rightarrow> (s, w5, None)
                                  | (w5, Some r) \<Rightarrow>
                                      let w6 = log_call (SaveTransaction (sell_record s wl r)) w5 in
                                      if status r = success then (s, w6, Some TransactionSuccessful)
                                      else (s, w6, Some TransactionFailed))))))"

definition handleSellConfirmation ::
  "env \<Rightarrow> session \<Rightarrow> wallet_data option \<Rightarrow> bool \<Rightarrow> world \<Rightarrow> session \<times> world \<times> reply" where
  "handleSellConfirmation e s wallet confirmed w =
     (case handleSellConfirmation_try e s wallet confirmed w of
        (s', w', Some r) \<Rightarrow> (s', w', r)
      | (s', w', None) \<Rightarrow> (clear_flow s', w', TradeError))"

section \<open>commands/buy.ts\<close>

text \<open>
  \<open>handleBuyAmountInput\<close>. The entered amount is compared with the balance as two
  JavaScript numbers: \<open>parseFloat(amountInput) > parseFloat(formatEthBalance(balance))\<close>.
  A missing quote body returns without touching the session; the \<open>catch\<close> clears it.
\<close>

definition handleBuyAmountInput_try ::
  "env \<Rightarrow> session \<Rightarrow> wallet_data option \<Rightarrow> string option \<Rightarrow> world
     \<Rightarrow> session \<times> world \<times> reply option" where
  "handleBuyAmountInput_try e s wallet args w =
     (if userId s = [] \<or> falsy_text args then (s, w, Some InvalidRequestTryAgain)
      else if tempData s = None \<or> \<not> truthy (temp s ''toToken'') \<or> \<not> truthy (temp s ''toSymbol'')
              \<or> \<not> truthy (temp s ''toDecimals'') \<or> \<not> truthy (temp s ''walletAddress'')
              \<or> \<not> truthy (temp s ''balance'')
        then (clear_flow s, w, Some InvalidSessionState)
      else if wallet = None then (clear_flow s, w, Some WalletNotFoundRestart)
      else
        let input = the args in
        if \<not> isValidAmount input then (s, w, Some InvalidAmountExample)
        else
          let amountInput = (if startsWith input ''.'' then ''0'' @ input else input);
              amount = parseFloat amountInput;
              balance = temp s ''balance''
          in if js_gt amount (parseFloat (formatEthBalance e balance))
             then (s, w, Some InsufficientOnlyHave)
             else
               case parseEther amountInput of
                 None \<Rightarrow> (s, w, None)
               | Some parsed \<Rightarrow>
                   let amountWei = BigInt_toString parsed;
                       s1 = set_temp ''fromAmount'' (Some (JString amountWei)) s;
                       (w1, gasParams) = getGasParams e w;
                       s2 = set_temp ''gasPrice'' (Some (JString (price gasParams))) s1;
                       s3 = set_temp ''maxFeePerGas'' (Some (JString (maxFeePerGas gasParams))) s2;
                       s4 = set_temp ''maxPriorityFeePerGas''
                              (Some (JString (maxPriorityFeePerGas gasParams))) s3
                   in if slippage_text s = None then (s4, w1, None)
                      else
                        (case getQuote e w1 of
                           (w2, None) \<Rightarrow> (s4, w2, None)
                         | (w2, Some quote) \<Rightarrow>
                             (case body_data quote of
                                None \<Rightarrow> (s4, w2, Some QuoteFetchFailed)
                              | Some d \<Rightarrow>
                                  let s5 = set_temp ''toAmount'' (Some (JString (outAmount d))) s4;
                                      s6 = set_temp ''estimatedGas'' (Some (JString (estimatedGas d))) s5
                                  in if BigInt (outAmount d) = None then (s6, w2, None)
                                     else (s6\<lparr>currentAction := Some ''buy_confirm''\<rparr>, w2,
                                           Some TradeConfirmPrompt))))"

definition handleBuyAmountInput ::
  "env \<Rightarrow> session \<Rightarrow> wallet_data option \<Rightarrow> string option \<Rightarrow> world \<Rightarrow> session \<times> world \<times> reply" where
  "handleBuyAmountInput e s wallet args w =
     (case handleBuyAmountInput_try e s wallet args w of
        (s', w', Some r) \<Rightarrow> (s', w', r)
      | (s', w', None) \<Rightarrow> (clear_flow s', w', ErrorTryAgainLater))"

text \<open>
  \<open>handleBuyConfirmation\<close>. The session is cleared right after the receipt; the success
  message then reads \<open>toAmount\<close> from the cleared \<open>tempData\<close>, and \<open>formatUnits\<close> of
  \<open>undefined\<close> raises.
\<close>

definition handleBuyConfirmation_try ::
  "env \<Rightarrow> session \<Rightarrow> wallet_data option \<Rightarrow> bool \<Rightarrow> world \<Rightarrow> session \<times> world \<times> reply option" where
  "handleBuyConfirmation_try e s wallet confirmed w =
     (if \<not> confirmed then (clear_flow s, w, Some TradeCancelled)
      else if userId s = [] then (s, w, Some SessionExpiredStart)
      else
        case wallet of
          None \<Rightarrow> (s, w, Some WalletNotFound)
        | Some wl \<Rightarrow>
            if tempData s = None \<or> slippage_text s = None
               \<or> BigInt_of (temp s ''fromAmount'') = None
            then (s, w, None)
            else
              case getSwap e w of
                (w1, None) \<Rightarrow> (s, w1, None)
              | (w1, Some body) \<Rightarrow>
                  (case body_data body of
                     None \<Rightarrow> (s, w1, None)
                   | Some swap \<Rightarrow>
                       (case executeTransaction e swap w1 of
                          (w2, None) \<Rightarrow> (s, w2, None)
                        | (w2, Some r) \<Rightarrow>
                            let w3 = log_call (SaveTransaction (sell_record s wl r)) w2;
                                s1 = clear_flow s
                            in if status r = success then
                                 (case temp s1 ''toAmount'' of
                                    None \<Rightarrow> (s1, w3, None)
                                  | Some v \<Rightarrow> (s1, w3, Some TransactionSuccessful))
                               else (s1, w3, Some TransactionFailed))))"

definition handleBuyConfirmation ::
  "env \<Rightarrow> session \<Rightarrow> wallet_data option \<Rightarrow> bool \<Rightarrow> world \<Rightarrow> session \<times> world \<times> reply" where
  "handleBuyConfirmation e s wallet confirmed w =
     (case handleBuyConfirmation_try e s wallet confirmed w of
        (s', w', Some r) \<Rightarrow> (s', w', r)
      | (s', w', None) \<Rightarrow> (clear_flow s', w', TradeError))"

section \<open>index.ts: the two endpoints\<close>

text \<open>
  Both endpoints run after \<open>loadStateMiddleware\<close>, which rebuilds the state from the
  request body. The handlers that are not modelled here (start, help, buy, sell, wallet,
  balance, history, settings, deposit, withdraw, create, import, export and the token
  and address steps) are one parameter \<open>other\<close>, called with the name of the case.
\<close>

type_synonym handler =
  "session \<Rightarrow> wallet_data option \<Rightarrow> string option \<Rightarrow> world \<Rightarrow> session \<times> world \<times> reply"

definition truthy_text :: "string option \<Rightarrow> bool" where
  "truthy_text a = (case a of None \<Rightarrow> False | Some t \<Rightarrow> t \<noteq> [])"

definition api_action ::
  "env \<Rightarrow> (string \<Rightarrow> handler) \<Rightarrow> session \<Rightarrow> wallet_data option \<Rightarrow> string \<Rightarrow> world
     \<Rightarrow> session \<times> world \<times> reply" where
  "api_action e other state wallet action w =
     (let actionToPerform =
            (if truthy_text (currentAction state) \<and> \<not> startsWith action ''/''
             then the (currentAction state) else action);
          args = Some action
      in if actionToPerform \<in> set [''/start'', ''/help'', ''/buy'', ''/sell'', ''/wallet'', ''/balance'',
               ''/history'', ''/settings'', ''/deposit'', ''/withdraw'', ''/create'', ''/import'',
               ''/export'']
         then other actionToPerform state wallet args w
         else if actionToPerform = ''/cancel'' then (clear_flow state, w, OperationCancelled)
         else if actionToPerform = ''import_wallet'' then other actionToPerform state wallet args w
         else if actionToPerform = ''buy_custom_token'' then other actionToPerform state wallet args w
         else if actionToPerform = ''buy_amount'' then handleBuyAmountInput e state wallet args w
         else if actionToPerform = ''sell_custom_token'' then other actionToPerform state wallet args w
         else if actionToPerform = ''sell_amount'' then handleSellAmountInput e state wallet args w
         else if actionToPerform = ''withdraw_address'' then other actionToPerform state wallet args w
         else if actionToPerform = ''withdraw_amount'' then handleWithdrawAmount e state args w
         else (state, w, OtherReply (''Unknown command or action: '' @ actionToPerform)))"

definition api_callback ::
  "env \<Rightarrow> (string \<Rightarrow> handler) \<Rightarrow> session \<Rightarrow> wallet_data option \<Rightarrow> string \<Rightarrow> world
     \<Rightarrow> session \<times> world \<times> reply" where
  "api_callback e other state wallet callback w =
     (let args = Some callback in
      if startsWith callback ''sell_token_'' then other ''sell_token_'' state wallet args w
      else if callback \<in> set [''USDC'', ''DAI'', ''WBTC'', ''custom'']
        then other ''token_selection'' state wallet args w
      else if callback = ''confirm_yes'' \<or> callback = ''confirm_no'' then
        (let confirmed = (callback = ''confirm_yes'') in
         if currentAction state = Some ''buy_confirm''
           then handleBuyConfirmation e state wallet confirmed w
         else if currentAction state = Some ''sell_confirm''
           then handleSellConfirmation e state wallet confirmed w
         else if currentAction state = Some ''export_wallet''
           then other ''export_wallet'' state wallet args w
         else (state, w, InvalidConfirmationState))
      else if startsWith callback ''withdraw_confirm_''
        then handleWithdrawConfirmation e state wallet (callback = ''withdraw_confirm_true'') w
      else if startsWith callback ''history_'' then other ''history_'' state wallet args w
      else if startsWith callback ''settings_'' then other ''settings_'' state wallet args w
      else if startsWith callback ''slippage_'' then other ''slippage_'' state wallet args w
      else if startsWith callback ''gas_'' then other ''gas_'' state wallet args w
      else if callback \<in> set [''check_balance'', ''check_history'', ''buy_token'', ''sell_token'',
                 ''open_settings'', ''deposit'', ''withdraw'', ''help'']
        then other callback state wallet args w
      else if callback = ''/cancel'' then (clear_flow state, w, OperationCancelled)
      else if callback \<in> set [''create_wallet'', ''confirm_create_wallet'', ''import_wallet'',
                 ''confirm_import_wallet'', ''export_key'']
        then other callback state wallet args w
      else if callback = ''cancel_create_wallet'' \<or> callback = ''cancel_import_wallet''
        then (state\<lparr>currentAction := None\<rparr>, w, OperationCancelled)
      else (state, w, OtherReply (''Unknown callback: '' @ callback)))"

section \<open>Concrete inputs\<close>

text \<open>
  A concrete environment and concrete sessions, on which the theorems below are
  evaluated. The native token address and the largest 256-bit number stand for the two
  constants; \<open>formatEthBalance\<close> is instantiated with the formatting of wei as ether.
\<close>

definition other0 :: "string \<Rightarrow> handler" where
  "other0 name = (\<lambda>s wl a w. (s, w, OtherReply name))"

definition ok_receipt :: receipt where
  "ok_receipt = \<lparr>transactionHash = ''0x01'', status = success, gasUsed = 21000,
                  effectiveGasPrice = 1000000000\<rparr>"

definition failed_receipt :: receipt where
  "failed_receipt = \<lparr>transactionHash = ''0x02'', status = failure, gasUsed = 21000,
                      effectiveGasPrice = 1000000000\<rparr>"

definition swap0 :: swap_data where
  "swap0 = \<lparr>swap_to = ''0x6352a56caadc4f1e25cd6c75970fa768a3304e64'', swap_data = ''0x90411a32'',
             swap_value = ''0'', swap_gasPrice = ''1000000000'', inAmount = ''500''\<rparr>"

definition env0 :: env where
  "env0 =
     \<lparr>NATIVE_TOKEN_ADDRESS = ''0xEeeeeEeeeEeEeeEeEeEeeEEEeeeeEeeeeeeeEEeE'',
      MAX_UINT256 = ''115792089237316195423570985008687907853269984665640564039457584007913129639935'',
      formatEthBalance =
        (\<lambda>v. case BigInt_of v of Some n \<Rightarrow> formatUnits n 18 | None \<Rightarrow> ''0''),
      fees_answer = Some (1000000000, 100000000),
      quote_answer = Some (BodyData \<lparr>outAmount = ''750000000'', estimatedGas = ''150000''\<rparr>),
      swap_answer = Some (BodyData swap0),
      decrypt_ok = True,
      approve_outcome =
        Some (ok_receipt,
              Some ''115792089237316195423570985008687907853269984665640564039457584007913129639935''),
      send_outcome = Some ok_receipt,
      withdraw_outcome = Some ok_receipt,
      save_ok = True\<rparr>"

definition world0 :: world where
  "world0 = \<lparr>allowance_now = Some ''0'', calls = []\<rparr>"

definition wallet0 :: wallet_data where
  "wallet0 = \<lparr>address = ''0x1111111111111111111111111111111111111111''\<rparr>"

definition withdraw_session :: session where
  "withdraw_session =
     \<lparr>userId = ''42'', currentAction = Some ''withdraw_amount'',
      tempData = Some [''from'' \<mapsto> JString ''0x1111111111111111111111111111111111111111'',
                       ''balance'' \<mapsto> JString ''100000000000000'',
                       ''to'' \<mapsto> JString ''0x2222222222222222222222222222222222222222''],
      settings = None\<rparr>"

definition sell_session :: session where
  "sell_session =
     \<lparr>userId = ''42'', currentAction = Some ''sell_confirm'',
      tempData = Some [''fromToken'' \<mapsto> JString ''0x833589fcd6edb6e08f4c7c32d4f71b54bda02913'',
                       ''toToken'' \<mapsto> JString ''0xEeeeeEeeeEeEeeEeEeEeeEEEeeeeEeeeeeeeEEeE'',
                       ''fromDecimals'' \<mapsto> JNumber 6,
                       ''tokenBalance'' \<mapsto> JString ''1000'',
                       ''fromAmount'' \<mapsto> JString ''500'',
                       ''toAmount'' \<mapsto> JString ''750000000''],
      settings = None\<rparr>"

definition world_failing_read :: world where
  "world_failing_read = \<lparr>allowance_now = None, calls = []\<rparr>"

definition usdc :: string where
  "usdc = ''0x833589fcd6edb6e08f4c7c32d4f71b54bda02913''"

text \<open>
  A session that sells 400 units, a swap that asks for 500, and a token whose allowance
  reads 450 after the approval.
\<close>

definition sell_session_400 :: session where
  "sell_session_400 =
     \<lparr>userId = ''42'', currentAction = Some ''sell_confirm'',
      tempData = Some [''fromToken'' \<mapsto> JString ''0x833589fcd6edb6e08f4c7c32d4f71b54bda02913'',
                       ''toToken'' \<mapsto> JString ''0xEeeeeEeeeEeEeeEeEeEeeEEEeeeeEeeeeeeeEEeE'',
                       ''fromDecimals'' \<mapsto> JNumber 6,
                       ''tokenBalance'' \<mapsto> JString ''1000'',
                       ''fromAmount'' \<mapsto> JString ''400'',
                       ''toAmount'' \<mapsto> JString ''750000000''],
      settings = None\<rparr>"

definition env_allowance_450 :: env where
  "env_allowance_450 = env0\<lparr>approve_outcome := Some (ok_receipt, Some ''450'')\<rparr>"

definition env_failed_swap :: env where
  "env_failed_swap = env0\<lparr>send_outcome := Some failed_receipt\<rparr>"

definition is_approve :: "call \<Rightarrow> bool" where
  "is_approve c = (case c of WriteApprove t sp a \<Rightarrow> True | _ \<Rightarrow> False)"

definition is_send :: "call \<Rightarrow> bool" where
  "is_send c = (case c of SendTransaction t d v g \<Rightarrow> True | _ \<Rightarrow> False)"

definition buy_session :: session where
  "buy_session =
     \<lparr>userId = ''42'', currentAction = Some ''buy_confirm'',
      tempData = Some [''fromToken'' \<mapsto> JString ''0xEeeeeEeeeEeEeeEeEeEeeEEEeeeeEeeeeeeeEEeE'',
                       ''toToken'' \<mapsto> JString ''0x833589fcd6edb6e08f4c7c32d4f71b54bda02913'',
                       ''fromDecimals'' \<mapsto> JNumber 18,
                       ''toDecimals'' \<mapsto> JNumber 6,
                       ''balance'' \<mapsto> JString ''2000000000000000000'',
                       ''fromAmount'' \<mapsto> JString ''500000000000000000'',
                       ''toAmount'' \<mapsto> JString ''750000000''],
      settings = None\<rparr>"

definition withdraw_confirm_session :: session where
  "withdraw_confirm_session =
     \<lparr>userId = ''42'', currentAction = Some ''withdraw_confirm'',
      tempData = Some [''from'' \<mapsto> JString ''0x1111111111111111111111111111111111111111'',
                       ''balance'' \<mapsto> JString ''100000000000000'',
                       ''to'' \<mapsto> JString ''0x2222222222222222222222222222222222222222'',
                       ''amount'' \<mapsto> JString ''50000000000000'',
                       ''maxFeePerGas'' \<mapsto> JString ''1000000000'',
                       ''maxPriorityFeePerGas'' \<mapsto> JString ''100000000''],
      settings = None\<rparr>"

definition sell_amount_session :: session where
  "sell_amount_session =
     \<lparr>userId = ''42'', currentAction = Some ''sell_amount'',
      tempData = Some [''fromToken'' \<mapsto> JString ''0x833589fcd6edb6e08f4c7c32d4f71b54bda02913'',
                       ''toToken'' \<mapsto> JString ''0xEeeeeEeeeEeEeeEeEeEeeEEEeeeeEeeeeeeeEEeE'',
                       ''fromDecimals'' \<mapsto> JNumber 18,
                       ''tokenBalance'' \<mapsto> JString ''1234567890123456789''],
      settings = None\<rparr>"

text \<open>A character of a printed natural number: a decimal digit, which is no white space.\<close>

definition plain_digit :: "char \<Rightarrow> bool" where
  "plain_digit c = (is_radix_digit 10 c \<and> \<not> is_ws c \<and> is_digit c)"

definition buy_amount_session :: session where
  "buy_amount_session =
     \<lparr>userId = ''42'', currentAction = Some ''buy_amount'',
      tempData = Some [''fromToken'' \<mapsto> JString ''0xEeeeeEeeeEeEeeEeEeEeeEEEeeeeEeeeeeeeEEeE'',
                       ''fromSymbol'' \<mapsto> JString ''ETH'',
                       ''fromDecimals'' \<mapsto> JNumber 18,
                       ''walletAddress'' \<mapsto> JString ''0x1111111111111111111111111111111111111111'',
                       ''balance'' \<mapsto> JString ''1000000000000000000'',
                       ''toToken'' \<mapsto> JString ''0x833589fcd6edb6e08f4c7c32d4f71b54bda02913'',
                       ''toSymbol'' \<mapsto> JString ''USDC'',
                       ''toDecimals'' \<mapsto> JNumber 6],
      settings = None\<rparr>"

text \<open>Environments in which one provider is down.\<close>

definition env_no_fees :: env where
  "env_no_fees = env0\<lparr>fees_answer := None\<rparr>"

definition env_no_quote :: env where
  "env_no_quote = env0\<lparr>quote_answer := None\<rparr>"

definition env_no_swap :: env where
  "env_no_swap = env0\<lparr>swap_answer := None\<rparr>"

definition env_no_send :: env where
  "env_no_send = env0\<lparr>send_outcome := None\<rparr>"

definition env_no_approve :: env where
  "env_no_approve = env0\<lparr>approve_outcome := None\<rparr>"

definition env_no_withdraw :: env where
  "env_no_withdraw = env0\<lparr>withdraw_outcome := None\<rparr>"

definition fallback_gas :: gas_params where
  "fallback_gas = \<lparr>price = ''0.1'', maxFeePerGas = ''0.1'', maxPriorityFeePerGas = ''0.05''\<rparr>"

section \<open>Properties of the validators\<close>

subsection \<open>Rounding to a double keeps a positive value positive\<close>

lemma log2floor_nonneg: "0 \<le> log2floor n"
  by (induction n rule: log2floor.induct) (subst log2floor.simps, simp)

lemma log2floor_lower: "1 \<le> n \<Longrightarrow> 2 ^ nat (log2floor n) \<le> n"
proof (induction n rule: log2floor.induct)
  case (1 n)
  show ?case
  proof (cases "n < 2")
    case True
    with 1 show ?thesis by (subst log2floor.simps) simp
  next
    case False
    then have ih: "2 ^ nat (log2floor (n div 2)) \<le> n div 2"
      using 1 by simp
    have "log2floor n = 1 + log2floor (n div 2)"
      using False by (subst log2floor.simps) simp
    then have "(2::int) ^ nat (log2floor n) = 2 * 2 ^ nat (log2floor (n div 2))"
      using log2floor_nonneg [of "n div 2"] by (simp add: nat_add_distrib)
    also have "\<dots> \<le> 2 * (n div 2)" using ih by simp
    also have "\<dots> \<le> n" by simp
    finally show ?thesis .
  qed
qed

lemma log2floor_upper: "1 \<le> n \<Longrightarrow> n < 2 * 2 ^ nat (log2floor n)"
proof (induction n rule: log2floor.induct)
  case (1 n)
  show ?case
  proof (cases "n < 2")
    case True
    with 1 show ?thesis by (subst log2floor.simps) simp
  next
    case False
    then have ih: "n div 2 < 2 * 2 ^ nat (log2floor (n div 2))"
      using 1 by simp
    have "log2floor n = 1 + log2floor (n div 2)"
      using False by (subst log2floor.simps) simp
    then have e: "(2::int) ^ nat (log2floor n) = 2 * 2 ^ nat (log2floor (n div 2))"
      using log2floor_nonneg [of "n div 2"] by (simp add: nat_add_distrib)
    have "n < 2 * (n div 2 + 1)" by simp
    also have "\<dots> \<le> 2 * (2 * 2 ^ nat (log2floor (n div 2)))" using ih by simp
    finally show ?thesis using e by simp
  qed
qed

lemma bitlen_nonneg: "0 \<le> bitlen m"
  by (simp add: bitlen_def log2floor_nonneg)

lemma bitlen_upper: "m < 2 ^ nat (bitlen m)"
proof (cases "m \<le> 0")
  case True
  then show ?thesis by (simp add: bitlen_def)
next
  case False
  then have "m < 2 * 2 ^ nat (log2floor m)" using log2floor_upper [of m] by simp
  then show ?thesis using False log2floor_nonneg [of m]
    by (simp add: bitlen_def nat_add_distrib)
qed

lemma ilog2_lower:
  assumes "0 < v"
  shows "2 powi (ilog2 v) \<le> v"
proof (cases "1 \<le> v")
  case True
  then have f: "1 \<le> \<lfloor>v\<rfloor>" by simp
  have "(2::rat) powi (ilog2 v) = 2 ^ nat (log2floor \<lfloor>v\<rfloor>)"
    using True log2floor_nonneg [of "\<lfloor>v\<rfloor>"] by (simp add: ilog2_def power_int_def)
  also have "\<dots> = of_int (2 ^ nat (log2floor \<lfloor>v\<rfloor>))" by simp
  also have "\<dots> \<le> of_int \<lfloor>v\<rfloor>" using log2floor_lower [OF f] by (subst of_int_le_iff)
  also have "\<dots> \<le> v" by simp
  finally show ?thesis .
next
  case False
  define k where "k = nat (bitlen (\<lceil>1 / v\<rceil> - 1))"
  have "\<lceil>1 / v\<rceil> - 1 < 2 ^ k" unfolding k_def by (rule bitlen_upper)
  then have "\<lceil>1 / v\<rceil> \<le> 2 ^ k" by simp
  then have "of_int \<lceil>1 / v\<rceil> \<le> (of_int (2 ^ k) :: rat)" by (subst of_int_le_iff)
  moreover have "(of_int (2 ^ k) :: rat) = 2 ^ k" by simp
  moreover have "1 / v \<le> of_int \<lceil>1 / v\<rceil>" by (rule le_of_int_ceiling)
  ultimately have "1 / v \<le> 2 ^ k" by linarith
  then have "1 \<le> 2 ^ k * v" using assms by (simp add: field_simps)
  then have "inverse (2 ^ k) \<le> v" by (simp add: field_simps)
  moreover have "(2::rat) powi (ilog2 v) = inverse (2 ^ k)"
    using False bitlen_nonneg [of "\<lceil>1 / v\<rceil> - 1"]
    by (simp add: ilog2_def power_int_def k_def power_one_over inverse_eq_divide)
  ultimately show ?thesis by simp
qed

lemma round_half_even_ge1: "1 \<le> x \<Longrightarrow> 1 \<le> round_half_even x"
proof -
  assume "1 \<le> x"
  then have "1 \<le> \<lfloor>x\<rfloor>" by simp
  then show ?thesis by (simp add: round_half_even_def Let_def)
qed

lemma double_of_rat_positive:
  assumes "2 powi (- 1074) \<le> v"
  shows "js_gt (double_of_rat v) (Finite 0)"
proof -
  have "(0::rat) < 2 powi (- 1074)" by simp
  then have vpos: "0 < v" using assms by (rule less_le_trans)
  define e where "e = max (ilog2 v) (- 1022)"
  define q :: rat where "q = 2 powi (e - 52)"
  have qpos: "0 < q" by (simp add: q_def)
  have "q \<le> v"
  proof (cases "- 1022 \<le> ilog2 v")
    case True
    then have "e = ilog2 v" by (simp add: e_def)
    then have "q \<le> 2 powi (ilog2 v)" unfolding q_def by (simp add: power_int_increasing)
    then show ?thesis using ilog2_lower [OF vpos] by simp
  next
    case False
    then have "e = - 1022" by (simp add: e_def)
    then show ?thesis using assms by (simp add: q_def)
  qed
  then have "1 \<le> v / q" using qpos by (simp add: field_simps)
  then have "1 \<le> round_half_even (v / q)" by (rule round_half_even_ge1)
  then have "(0::rat) < of_int (round_half_even (v / q)) * q" using qpos by simp
  then show ?thesis
    using vpos by (simp add: double_of_rat_def Let_def e_def [symmetric] q_def [symmetric])
qed

lemma BigInt_decimal_examples:
  "BigInt ''9007199254740993'' = Some 9007199254740993"
  "BigInt ''  42 '' = Some 42"
  "BigInt ''-7'' = Some (-7)"
  "BigInt ''0x1f'' = Some 31"
  "BigInt '''' = Some 0"
  "BigInt ''1.5'' = None"
  "BigInt ''1e3'' = None"
  "BigInt ''abc'' = None"
  by code_simp+

subsection \<open>The amount pattern and the decimal numerals\<close>

lemma is_digit_not_dot: "is_digit c \<Longrightarrow> c \<noteq> CHR ''.''"
  by (auto simp: is_digit_def)

lemma is_digit_not_ws: "is_digit c \<Longrightarrow> \<not> is_ws c"
  by (auto simp: is_digit_def is_ws_def)

lemma dot_not_ws: "\<not> is_ws (CHR ''.'')"
  by (simp add: is_ws_def)

lemma dot_not_digit: "\<not> is_digit (CHR ''.'')"
  by (simp add: is_digit_def)

lemma takeWhile_digits_frac:
  "list_all is_digit ip \<Longrightarrow> takeWhile is_digit (ip @ frac_text fp) = ip"
  by (induction ip) (auto simp: frac_text_def dot_not_digit)

lemma dropWhile_digits_frac:
  "list_all is_digit ip \<Longrightarrow> dropWhile is_digit (ip @ frac_text fp) = frac_text fp"
  by (induction ip) (auto simp: frac_text_def dot_not_digit)

lemma takeWhile_all: "list_all P xs \<Longrightarrow> takeWhile P xs = xs"
  by (induction xs) auto

lemma dropWhile_all: "list_all P xs \<Longrightarrow> dropWhile P xs = []"
  by (induction xs) auto

lemma list_all_takeWhile: "list_all P (takeWhile P xs)"
  by (induction xs) auto

lemma regex_decomposition:
  "amountRegex_test s \<longleftrightarrow>
     (\<exists>ip fp. s = ip @ frac_text fp \<and> list_all is_digit ip \<and> list_all is_digit fp
        \<and> length fp \<le> 18 \<and> \<not> redundant_leading_zero ip)"
proof
  assume m: "amountRegex_test s"
  define ip where "ip = takeWhile is_digit s"
  define rest where "rest = dropWhile is_digit s"
  have s: "s = ip @ rest" by (simp add: ip_def rest_def)
  have dip: "list_all is_digit ip" by (simp add: ip_def list_all_takeWhile)
  have nz: "\<not> (case s of c1 # c2 # _ \<Rightarrow> c1 = CHR ''0'' \<and> is_digit c2 | _ \<Rightarrow> False)"
    using m by (simp add: amountRegex_test_def Let_def)
  have r: "case rest of [] \<Rightarrow> True
           | c # fs \<Rightarrow> c = CHR ''.'' \<and> 1 \<le> length fs \<and> length fs \<le> 18 \<and> list_all is_digit fs"
    using m by (simp add: amountRegex_test_def Let_def rest_def)
  have nr: "\<not> redundant_leading_zero ip"
  proof
    assume "redundant_leading_zero ip"
    then obtain c2 t where ipe: "ip = CHR ''0'' # c2 # t"
      by (auto simp: redundant_leading_zero_def split: list.splits)
    then have "is_digit c2" using dip by simp
    then show False using nz s ipe by simp
  qed
  show "\<exists>ip fp. s = ip @ frac_text fp \<and> list_all is_digit ip \<and> list_all is_digit fp
        \<and> length fp \<le> 18 \<and> \<not> redundant_leading_zero ip"
  proof (cases rest)
    case Nil
    then have "s = ip @ frac_text []" using s by (simp add: frac_text_def)
    then show ?thesis using dip nr by (intro exI [of _ ip] exI [of _ "[]"]) simp
  next
    case (Cons c fs)
    then have "c = CHR ''.''" "1 \<le> length fs" "length fs \<le> 18" "list_all is_digit fs"
      using r by simp_all
    moreover from this have "rest = frac_text fs" using Cons by (auto simp: frac_text_def)
    ultimately show ?thesis using s dip nr by (intro exI [of _ ip] exI [of _ fs]) simp
  qed
next
  assume "\<exists>ip fp. s = ip @ frac_text fp \<and> list_all is_digit ip \<and> list_all is_digit fp
        \<and> length fp \<le> 18 \<and> \<not> redundant_leading_zero ip"
  then obtain ip fp where s: "s = ip @ frac_text fp" and dip: "list_all is_digit ip"
    and dfp: "list_all is_digit fp" and len: "length fp \<le> 18"
    and nr: "\<not> redundant_leading_zero ip" by blast
  have rest: "dropWhile is_digit s = frac_text fp"
    using s dip by (simp add: dropWhile_digits_frac)
  have nz: "\<not> (case s of c1 # c2 # _ \<Rightarrow> c1 = CHR ''0'' \<and> is_digit c2 | _ \<Rightarrow> False)"
  proof (cases ip)
    case Nil
    then show ?thesis using s by (auto simp: frac_text_def dot_not_digit split: list.splits)
  next
    case (Cons a t)
    show ?thesis
    proof (cases t)
      case Nil
      then show ?thesis using s Cons
        by (auto simp: frac_text_def dot_not_digit split: list.splits)
    next
      case (Cons b t')
      then have "a \<noteq> CHR ''0''" using nr \<open>ip = a # t\<close>
        by (simp add: redundant_leading_zero_def)
      then show ?thesis using s \<open>ip = a # t\<close> Cons by simp
    qed
  qed
  have "case frac_text fp of [] \<Rightarrow> True
        | c # fs \<Rightarrow> c = CHR ''.'' \<and> 1 \<le> length fs \<and> length fs \<le> 18 \<and> list_all is_digit fs"
    using dfp len by (cases fp) (auto simp: frac_text_def)
  then show "amountRegex_test s"
    using nz rest by (simp add: amountRegex_test_def Let_def)
qed

lemma parseFloat_decimal:
  assumes "list_all is_digit ip" "list_all is_digit fp"
  shows "parseFloat (ip @ frac_text fp) =
           (if ip = [] \<and> fp = [] then NaN else double_of_rat (decimal_value ip fp))"
proof -
  define s where "s = ip @ frac_text fp"
  have hd_ok: "s = [] \<or> is_digit (hd s) \<or> hd s = CHR ''.''"
    using assms by (cases ip) (auto simp: s_def frac_text_def)
  have t: "dropWhile is_ws s = s"
    using hd_ok by (cases s) (auto simp: is_digit_not_ws dot_not_ws)
  have nominus: "\<not> startsWith s ''-''" "\<not> startsWith s ''+''" "\<not> startsWith s ''Infinity''"
    using hd_ok by (cases s; auto simp: startsWith_def is_digit_def)+
  have ipe: "takeWhile is_digit s = ip" and r1: "dropWhile is_digit s = frac_text fp"
    using assms by (simp_all add: s_def takeWhile_digits_frac dropWhile_digits_frac)
  have sw: "startsWith (frac_text fp) ''.'' = (fp \<noteq> [])"
    by (cases fp) (auto simp: frac_text_def startsWith_def)
  have tw: "takeWhile is_digit (drop (Suc 0) (frac_text fp)) = fp"
    using assms by (cases fp) (auto simp: frac_text_def takeWhile_all)
  have dw: "dropWhile is_digit (drop (Suc 0) (frac_text fp)) = []"
    using assms by (cases fp) (auto simp: frac_text_def dropWhile_all)
  have ex: "parse_exponent [] = 0" by (simp add: parse_exponent_def)
  have ft0: "fp = [] \<Longrightarrow> frac_text fp = []" by (simp add: frac_text_def)
  show ?thesis
    unfolding s_def [symmetric] parseFloat_def Let_def t
    using nominus ft0 by (simp add: ipe r1 sw tw dw ex)
qed

lemma digits_value_foldl_nonneg:
  "0 \<le> acc \<Longrightarrow>
   0 \<le> foldl (\<lambda>a c. a * 10 + (case digit_val c of None \<Rightarrow> 0 | Some d \<Rightarrow> d)) acc ds"
proof (induction ds arbitrary: acc)
  case Nil
  then show ?case by simp
next
  case (Cons c ds)
  have "0 \<le> (case digit_val c of None \<Rightarrow> 0 | Some d \<Rightarrow> d)"
    by (auto simp: digit_val_def Let_def split: option.splits)
  then have "0 \<le> acc * 10 + (case digit_val c of None \<Rightarrow> 0 | Some d \<Rightarrow> d)"
    using Cons.prems by simp
  then show ?case using Cons.IH by simp
qed

lemma digits_value_nonneg: "0 \<le> digits_value 10 ds"
  unfolding digits_value_def by (rule digits_value_foldl_nonneg) simp

lemma decimal_value_nonneg: "0 \<le> decimal_value ip fp"
  by (simp add: decimal_value_def digits_value_nonneg)

lemma tiny_bound: "(2::rat) powi (- 1074) \<le> 1 / 10 ^ 18"
proof -
  have "(10::rat) ^ 18 \<le> 2 ^ 60" by simp
  also have "(2::rat) ^ 60 \<le> 2 ^ 1074" by (rule power_increasing) simp_all
  finally have "(1::rat) / 2 ^ 1074 \<le> 1 / 10 ^ 18" by (simp add: frac_le)
  moreover have "(2::rat) powi (- 1074) = 1 / 2 ^ 1074"
    by (simp add: power_int_def power_one_over inverse_eq_divide)
  ultimately show ?thesis by simp
qed

lemma decimal_value_lower:
  assumes "0 < decimal_value ip fp" "length fp \<le> 18"
  shows "2 powi (- 1074) \<le> decimal_value ip fp"
proof -
  define N where "N = digits_value 10 (ip @ fp)"
  have "0 < (of_int N :: rat)" using assms(1)
    by (simp add: decimal_value_def N_def zero_less_divide_iff)
  then have "1 \<le> N" by simp
  then have "(1::rat) \<le> of_int N" by simp
  then have c: "1 / 10 ^ length fp \<le> (of_int N :: rat) / 10 ^ length fp"
    by (simp add: divide_right_mono)
  have "(10::rat) ^ length fp \<le> 10 ^ 18"
    using assms(2) by (intro power_increasing) simp_all
  then have b: "(1::rat) / 10 ^ 18 \<le> 1 / 10 ^ length fp"
    by (intro frac_le) simp_all
  have "2 powi (- 1074) \<le> (of_int N :: rat) / 10 ^ length fp"
    by (rule order_trans [OF tiny_bound order_trans [OF b c]])
  then show ?thesis by (simp only: decimal_value_def N_def)
qed

lemma positive_decimal_spec_alt:
  "positive_decimal_spec s \<longleftrightarrow>
     (\<exists>ip fp. s = ip @ frac_text fp \<and> list_all is_digit ip \<and> list_all is_digit fp
        \<and> length fp \<le> 18 \<and> \<not> redundant_leading_zero ip \<and> 0 < decimal_value ip fp)"
  by (simp add: positive_decimal_spec_def frac_text_def)

text \<open>
  C7. \<open>isValidAmount\<close> is a total boolean function (no branch of it raises), and it is
  true exactly for the unsigned decimal numerals without a redundant leading zero, with
  at most eighteen fractional digits, whose value is greater than zero.
\<close>

theorem isValidAmount_iff_spec:
  "isValidAmount s = positive_decimal_spec s"
proof
  assume v: "isValidAmount s"
  then have "amountRegex_test s" and g: "js_gt (parseFloat s) (Finite 0)"
    by (simp_all add: isValidAmount_def)
  then obtain ip fp where s: "s = ip @ frac_text fp" and dip: "list_all is_digit ip"
    and dfp: "list_all is_digit fp" and len: "length fp \<le> 18"
    and nr: "\<not> redundant_leading_zero ip"
    using regex_decomposition [of s] by blast
  have pf: "parseFloat s = (if ip = [] \<and> fp = [] then NaN else double_of_rat (decimal_value ip fp))"
    using parseFloat_decimal [OF dip dfp] s by simp
  have "decimal_value ip fp \<noteq> 0"
  proof
    assume "decimal_value ip fp = 0"
    then show False using g pf by (auto simp: double_of_rat_def split: if_splits)
  qed
  then have "0 < decimal_value ip fp" using decimal_value_nonneg [of ip fp] by simp
  then show "positive_decimal_spec s"
    unfolding positive_decimal_spec_alt using s dip dfp len nr by blast
next
  assume "positive_decimal_spec s"
  then obtain ip fp where s: "s = ip @ frac_text fp" and dip: "list_all is_digit ip"
    and dfp: "list_all is_digit fp" and len: "length fp \<le> 18"
    and nr: "\<not> redundant_leading_zero ip" and pos: "0 < decimal_value ip fp"
    unfolding positive_decimal_spec_alt by blast
  have m: "amountRegex_test s" using regex_decomposition [of s] s dip dfp len nr by blast
  have ne: "\<not> (ip = [] \<and> fp = [])"
    using pos by (auto simp: decimal_value_def digits_value_def)
  have "parseFloat s = double_of_rat (decimal_value ip fp)"
    using parseFloat_decimal [OF dip dfp] s ne by simp
  then have "js_gt (parseFloat s) (Finite 0)"
    using double_of_rat_positive [OF decimal_value_lower [OF pos len]] by simp
  then show "isValidAmount s" using m by (simp add: isValidAmount_def)
qed

theorem isValidAmount_iff_spec_witness:
  "isValidAmount ''.5'' \<and> \<not> positive_decimal_spec ''05'' \<and> \<not> positive_decimal_spec ''1e3''"
proof -
  have "positive_decimal_spec ''.5''"
    unfolding positive_decimal_spec_def
    by (intro exI [of _ "[]"] exI [of _ "''5''"])
       (simp add: is_digit_def redundant_leading_zero_def decimal_value_def digits_value_def
          digit_val_def)
  moreover have "\<not> isValidAmount ''05''"
    by (simp add: isValidAmount_def amountRegex_test_def is_digit_def)
  moreover have "\<not> isValidAmount ''1e3''"
    by (simp add: isValidAmount_def amountRegex_test_def is_digit_def)
  ultimately show ?thesis
    using isValidAmount_iff_spec [of "''.5''"] isValidAmount_iff_spec [of "''05''"]
      isValidAmount_iff_spec [of "''1e3''"]
    by simp
qed

section \<open>The endpoints: cancel\<close>

text \<open>
  C4. On both endpoints the input \<open>/cancel\<close> reaches the cancel case whatever the state
  of the session is (so in particular from every non-idle state): the resulting session
  has no current action and an empty \<open>tempData\<close>, the reply is the fixed text
  \<open>Operation cancelled.\<close>, and the world is unchanged: no provider is called and no
  transaction record is written.
\<close>

theorem cancel_resets_session:
  "api_action e other state wallet ''/cancel'' w
     = (state\<lparr>currentAction := None, tempData := Some Map.empty\<rparr>, w, OperationCancelled)
   \<and> api_callback e other state wallet ''/cancel'' w
     = (state\<lparr>currentAction := None, tempData := Some Map.empty\<rparr>, w, OperationCancelled)"
  by (simp add: api_action_def api_callback_def startsWith_def clear_flow_def)

theorem cancel_resets_session_witness:
  "currentAction withdraw_session \<noteq> None
   \<and> currentAction (fst (api_action env0 other0 withdraw_session (Some wallet0) ''/cancel'' world0)) = None
   \<and> tempData (fst (api_action env0 other0 withdraw_session (Some wallet0) ''/cancel'' world0)) = Some Map.empty
   \<and> fst (snd (api_callback env0 other0 withdraw_session (Some wallet0) ''/cancel'' world0)) = world0
   \<and> snd (snd (api_callback env0 other0 withdraw_session (Some wallet0) ''/cancel'' world0)) = OperationCancelled"
  using cancel_resets_session [of env0 other0 withdraw_session "Some wallet0" world0]
  by (simp add: withdraw_session_def)

section \<open>The allowance sub-protocol of the sell confirmation\<close>

lemma getTokenAllowance_native:
  "toLowerCase t = toLowerCase (NATIVE_TOKEN_ADDRESS e) \<Longrightarrow>
   getTokenAllowance e t ownr sp w = (w, MAX_UINT256 e)"
  by (simp add: getTokenAllowance_def)

lemma getTokenAllowance_other:
  "toLowerCase t \<noteq> toLowerCase (NATIVE_TOKEN_ADDRESS e) \<Longrightarrow>
   getTokenAllowance e t ownr sp w =
     (log_call (ReadAllowance t ownr sp) w, case allowance_now w of Some a \<Rightarrow> a | None \<Rightarrow> ''0'')"
  by (simp add: getTokenAllowance_def split: option.splits)

lemma BigInt_zero: "BigInt ''0'' = Some 0"
  by code_simp

lemma allowance_now_log_call [simp]: "allowance_now (log_call c w) = allowance_now w"
  by (simp add: log_call_def)

lemma calls_log_call [simp]: "calls (log_call c w) = calls w @ [c]"
  by (simp add: log_call_def)

text \<open>The approval block when the allowance covers the amount of the swap.\<close>

lemma sell_approval_enough:
  assumes "toLowerCase ft \<noteq> toLowerCase (NATIVE_TOKEN_ADDRESS e)"
    and "BigInt (case allowance_now w of Some a \<Rightarrow> a | None \<Rightarrow> ''0'') = Some al"
    and "BigInt (inAmount swap) = Some need" and "\<not> al < need"
  shows "sell_approval e s wl ft swap w = (log_call (ReadAllowance ft (address wl) (swap_to swap)) w, None)"
  using assms by (simp add: sell_approval_def getTokenAllowance_other)

text \<open>The approval block when the allowance is short: the approval is written.\<close>

lemma sell_approval_short:
  assumes "toLowerCase ft \<noteq> toLowerCase (NATIVE_TOKEN_ADDRESS e)"
    and "BigInt (case allowance_now w of Some a \<Rightarrow> a | None \<Rightarrow> ''0'') = Some al"
    and "BigInt (inAmount swap) = Some need" and "al < need" and "decrypt_ok e"
  shows "sell_approval e s wl ft swap w =
     (let w2 = log_call (ReadAllowance ft (address wl) (swap_to swap)) w;
          w3 = log_call (WriteApprove ft (swap_to swap) (MAX_UINT256 e)) w2
      in case approve_outcome e of
           None \<Rightarrow> (w3, Some None)
         | Some (r, a') \<Rightarrow>
             if status r \<noteq> success then (w3\<lparr>allowance_now := a'\<rparr>, Some (Some ApprovalFailed))
             else
               let w4 = log_call (ReadAllowance ft (address wl) (swap_to swap)) (w3\<lparr>allowance_now := a'\<rparr>)
               in case BigInt (case a' of Some a \<Rightarrow> a | None \<Rightarrow> ''0'') of
                    None \<Rightarrow> (w4, Some None)
                  | Some na \<Rightarrow>
                      (case BigInt_of (temp s ''fromAmount'') of
                         None \<Rightarrow> (w4, Some None)
                       | Some fa \<Rightarrow>
                           if na < fa then (w4, Some (Some TokenApprovalFailed)) else (w4, None)))"
  using assms
  by (simp add: sell_approval_def getTokenAllowance_other executeContractMethod_def Let_def
      split: option.splits prod.splits)

text \<open>The sell confirmation of a confirmed turn that obtains a swap.\<close>

lemma sell_confirm_with_swap:
  assumes "userId s \<noteq> []" "tempData s = Some td" "slippage_text s = Some sl"
    and "BigInt_of (temp s ''fromAmount'') = Some fa"
    and "temp s ''fromToken'' = Some (JString ft)"
    and "swap_answer e = Some (BodyData swap)"
  shows "handleSellConfirmation_try e s (Some wl) True w =
     (case (if toLowerCase ft \<noteq> toLowerCase (NATIVE_TOKEN_ADDRESS e)
            then sell_approval e s wl ft swap (log_call GetSwap w)
            else (log_call GetSwap w, None)) of
        (w4, Some out) \<Rightarrow> (s, w4, out)
      | (w4, None) \<Rightarrow>
          (case executeTransaction e swap w4 of
             (w5, None) \<Rightarrow> (s, w5, None)
           | (w5, Some r) \<Rightarrow>
               let w6 = log_call (SaveTransaction (sell_record s wl r)) w5 in
               if status r = success then (s, w6, Some TransactionSuccessful)
               else (s, w6, Some TransactionFailed)))"
  using assms
  by (simp add: handleSellConfirmation_try_def getSwap_def string_of_def)

lemma executeTransaction_calls:
  "set (calls w) \<subseteq> set (calls (fst (executeTransaction e p w)))"
  by (auto simp: executeTransaction_def split: option.splits)

lemma sell_approval_short_calls:
  assumes "toLowerCase ft \<noteq> toLowerCase (NATIVE_TOKEN_ADDRESS e)"
    and "BigInt (case allowance_now w of Some a \<Rightarrow> a | None \<Rightarrow> ''0'') = Some al"
    and "BigInt (inAmount swap) = Some need" and "al < need" and "decrypt_ok e"
  shows "WriteApprove ft (swap_to swap) (MAX_UINT256 e)
           \<in> set (calls (fst (sell_approval e s wl ft swap w)))"
  unfolding sell_approval_short [OF assms]
  by (simp add: Let_def split: option.splits prod.splits)

lemma sell_confirm_keeps_approval_calls:
  assumes "userId s \<noteq> []" "tempData s = Some td" "slippage_text s = Some sl"
    and "BigInt_of (temp s ''fromAmount'') = Some fa"
    and "temp s ''fromToken'' = Some (JString ft)"
    and "swap_answer e = Some (BodyData swap)"
    and "toLowerCase ft \<noteq> toLowerCase (NATIVE_TOKEN_ADDRESS e)"
  shows "set (calls (fst (sell_approval e s wl ft swap (log_call GetSwap w))))
           \<subseteq> set (calls (fst (snd (handleSellConfirmation e s (Some wl) True w))))"
proof -
  obtain w4 out where sa: "sell_approval e s wl ft swap (log_call GetSwap w) = (w4, out)"
    by (cases "sell_approval e s wl ft swap (log_call GetSwap w)")
  obtain w5 r where ex: "executeTransaction e swap w4 = (w5, r)"
    by (cases "executeTransaction e swap w4")
  have "set (calls w4) \<subseteq> set (calls w5)"
    using executeTransaction_calls [of w4 e swap] ex by simp
  then show ?thesis
    using assms(7) sa ex
    by (auto simp: handleSellConfirmation_def sell_confirm_with_swap [OF assms(1-6)] Let_def
        split: option.splits)
qed

subsection \<open>Facts about the concrete inputs\<close>

lemma usdc_not_native: "toLowerCase usdc \<noteq> toLowerCase (NATIVE_TOKEN_ADDRESS env0)"
  by code_simp

lemma native_lower: "toLowerCase ''0xeeeeeeeeeeeeeeeeeeeeeeeeeeeeeeeeeeeeeeee'' = toLowerCase (NATIVE_TOKEN_ADDRESS env0)"
  by code_simp

lemma BigInt_500: "BigInt ''500'' = Some 500"
  by code_simp

lemma sell_session_facts:
  "userId sell_session \<noteq> []"
  "tempData sell_session = Some [''fromToken'' \<mapsto> JString ''0x833589fcd6edb6e08f4c7c32d4f71b54bda02913'',
                       ''toToken'' \<mapsto> JString ''0xEeeeeEeeeEeEeeEeEeEeeEEEeeeeEeeeeeeeEEeE'',
                       ''fromDecimals'' \<mapsto> JNumber 6,
                       ''tokenBalance'' \<mapsto> JString ''1000'',
                       ''fromAmount'' \<mapsto> JString ''500'',
                       ''toAmount'' \<mapsto> JString ''750000000'']"
  "slippage_text sell_session = Some ''1.0''"
  "BigInt_of (temp sell_session ''fromAmount'') = Some 500"
  "temp sell_session ''fromToken'' = Some (JString usdc)"
  by (simp_all add: sell_session_def slippage_text_def temp_def usdc_def BigInt_500)

text \<open>
  C9. \<open>getTokenAllowance\<close> returns \<open>MAX_UINT256\<close> for the native token (compared in
  lower case) without any read: the world, and with it the call log, is unchanged. When
  the read of another token is rejected it returns \<open>"0"\<close>, the very string a read of a
  zero allowance returns. Its caller \<open>handleSellConfirmation\<close> then finds the allowance
  below any positive amount of the swap and writes the approval.
\<close>

theorem allowance_read_native_and_failure:
  "(toLowerCase t = toLowerCase (NATIVE_TOKEN_ADDRESS e)
      \<longrightarrow> getTokenAllowance e t ownr sp w = (w, MAX_UINT256 e))
   \<and> (toLowerCase t \<noteq> toLowerCase (NATIVE_TOKEN_ADDRESS e) \<and> allowance_now w = None
      \<longrightarrow> getTokenAllowance e t ownr sp w = (log_call (ReadAllowance t ownr sp) w, ''0'')
          \<and> snd (getTokenAllowance e t ownr sp (w\<lparr>allowance_now := Some ''0''\<rparr>)) = ''0'')
   \<and> (toLowerCase t \<noteq> toLowerCase (NATIVE_TOKEN_ADDRESS e) \<and> allowance_now w = None
       \<and> userId s \<noteq> [] \<and> tempData s = Some td \<and> slippage_text s = Some sl
       \<and> BigInt_of (temp s ''fromAmount'') = Some fa \<and> temp s ''fromToken'' = Some (JString t)
       \<and> swap_answer e = Some (BodyData swap) \<and> BigInt (inAmount swap) = Some need \<and> 0 < need
       \<and> decrypt_ok e
      \<longrightarrow> WriteApprove t (swap_to swap) (MAX_UINT256 e)
            \<in> set (calls (fst (snd (handleSellConfirmation e s (Some wl) True w)))))"
proof (intro conjI impI)
  assume "toLowerCase t = toLowerCase (NATIVE_TOKEN_ADDRESS e)"
  then show "getTokenAllowance e t ownr sp w = (w, MAX_UINT256 e)"
    by (rule getTokenAllowance_native)
next
  assume a: "toLowerCase t \<noteq> toLowerCase (NATIVE_TOKEN_ADDRESS e) \<and> allowance_now w = None"
  then show "getTokenAllowance e t ownr sp w = (log_call (ReadAllowance t ownr sp) w, ''0'')"
    by (simp add: getTokenAllowance_other)
  from a show "snd (getTokenAllowance e t ownr sp (w\<lparr>allowance_now := Some ''0''\<rparr>)) = ''0''"
    by (simp add: getTokenAllowance_other)
next
  assume h: "toLowerCase t \<noteq> toLowerCase (NATIVE_TOKEN_ADDRESS e) \<and> allowance_now w = None
       \<and> userId s \<noteq> [] \<and> tempData s = Some td \<and> slippage_text s = Some sl
       \<and> BigInt_of (temp s ''fromAmount'') = Some fa \<and> temp s ''fromToken'' = Some (JString t)
       \<and> swap_answer e = Some (BodyData swap) \<and> BigInt (inAmount swap) = Some need \<and> 0 < need
       \<and> decrypt_ok e"
  then have rd: "BigInt (case allowance_now (log_call GetSwap w) of Some a \<Rightarrow> a | None \<Rightarrow> ''0'') = Some 0"
    by (simp add: BigInt_zero)
  from h have nn: "toLowerCase t \<noteq> toLowerCase (NATIVE_TOKEN_ADDRESS e)"
    and need: "BigInt (inAmount swap) = Some need" and pos: "0 < need" and dec: "decrypt_ok e"
    by simp_all
  have "WriteApprove t (swap_to swap) (MAX_UINT256 e)
          \<in> set (calls (fst (sell_approval e s wl t swap (log_call GetSwap w))))"
    by (rule sell_approval_short_calls [OF nn rd need pos dec])
  moreover have "set (calls (fst (sell_approval e s wl t swap (log_call GetSwap w))))
           \<subseteq> set (calls (fst (snd (handleSellConfirmation e s (Some wl) True w))))"
    using h by (intro sell_confirm_keeps_approval_calls [where td = td and sl = sl and fa = fa]) simp_all
  ultimately show "WriteApprove t (swap_to swap) (MAX_UINT256 e)
            \<in> set (calls (fst (snd (handleSellConfirmation e s (Some wl) True w))))"
    by blast
qed

theorem allowance_read_native_and_failure_witness:
  "getTokenAllowance env0 ''0xeeeeeeeeeeeeeeeeeeeeeeeeeeeeeeeeeeeeeeee'' (address wallet0) (swap_to swap0) world0
     = (world0, MAX_UINT256 env0)
   \<and> getTokenAllowance env0 usdc (address wallet0) (swap_to swap0) world_failing_read
     = (log_call (ReadAllowance usdc (address wallet0) (swap_to swap0)) world_failing_read, ''0'')
   \<and> WriteApprove usdc (swap_to swap0) (MAX_UINT256 env0)
       \<in> set (calls (fst (snd (handleSellConfirmation env0 sell_session (Some wallet0) True
                                 world_failing_read))))"
proof -
  have e: "swap_answer env0 = Some (BodyData swap0)" "decrypt_ok env0"
    by (simp_all add: env0_def)
  have n: "BigInt (inAmount swap0) = Some 500" "allowance_now world_failing_read = None"
    by (simp_all add: swap0_def BigInt_500 world_failing_read_def)
  show ?thesis
    using allowance_read_native_and_failure
            [of "''0xeeeeeeeeeeeeeeeeeeeeeeeeeeeeeeeeeeeeeeee''" env0 "address wallet0" "swap_to swap0" world0]
          allowance_read_native_and_failure
            [of usdc env0 "address wallet0" "swap_to swap0" world_failing_read sell_session
                _ "''1.0''" 500 swap0 500 wallet0]
          usdc_not_native native_lower sell_session_facts e n
    by simp
qed

section \<open>The sell confirmation on concrete inputs\<close>

lemma BigInt_small:
  "BigInt ''400'' = Some 400" "BigInt ''450'' = Some 450" "BigInt ''1000000000'' = Some 1000000000"
  by code_simp+

lemma BigInt_max_uint256:
  "BigInt ''115792089237316195423570985008687907853269984665640564039457584007913129639935''
     = Some 115792089237316195423570985008687907853269984665640564039457584007913129639935"
  by code_simp

lemma sell_session_400_facts:
  "userId sell_session_400 \<noteq> []"
  "tempData sell_session_400 = Some [''fromToken'' \<mapsto> JString ''0x833589fcd6edb6e08f4c7c32d4f71b54bda02913'',
                       ''toToken'' \<mapsto> JString ''0xEeeeeEeeeEeEeeEeEeEeeEEEeeeeEeeeeeeeEEeE'',
                       ''fromDecimals'' \<mapsto> JNumber 6,
                       ''tokenBalance'' \<mapsto> JString ''1000'',
                       ''fromAmount'' \<mapsto> JString ''400'',
                       ''toAmount'' \<mapsto> JString ''750000000'']"
  "slippage_text sell_session_400 = Some ''1.0''"
  "BigInt_of (temp sell_session_400 ''fromAmount'') = Some 400"
  "temp sell_session_400 ''fromToken'' = Some (JString usdc)"
  by (simp_all add: sell_session_400_def slippage_text_def temp_def usdc_def BigInt_small)

lemma env_allowance_450_facts:
  "swap_answer env_allowance_450 = Some (BodyData swap0)" "decrypt_ok env_allowance_450"
  "approve_outcome env_allowance_450 = Some (ok_receipt, Some ''450'')"
  "send_outcome env_allowance_450 = Some ok_receipt"
  "NATIVE_TOKEN_ADDRESS env_allowance_450 = NATIVE_TOKEN_ADDRESS env0"
  "MAX_UINT256 env_allowance_450 = MAX_UINT256 env0"
  by (simp_all add: env_allowance_450_def env0_def)

lemma executeTransaction_swap0:
  "decrypt_ok e \<Longrightarrow>
   executeTransaction e swap0 w =
     (log_call (SendTransaction (swap_to swap0) (swap_data swap0) 0 1000000000) w, send_outcome e)"
  by (simp add: executeTransaction_def swap0_def BigInt_zero BigInt_small)

text \<open>
  C3, where the code departs from it. The approval is written because the allowance 0 is
  below the 500 of \<open>swap.data.inAmount\<close>; after it the allowance reads 450, which is
  still below 500, yet the handler compares it with the 400 of \<open>fromAmount\<close> and sends
  the swap.
\<close>

theorem sell_recheck_against_fromAmount:
  "snd (snd (handleSellConfirmation env_allowance_450 sell_session_400 (Some wallet0) True world0))
     = TransactionSuccessful
   \<and> calls (fst (snd (handleSellConfirmation env_allowance_450 sell_session_400 (Some wallet0) True world0)))
     = [GetSwap,
        ReadAllowance usdc (address wallet0) (swap_to swap0),
        WriteApprove usdc (swap_to swap0) (MAX_UINT256 env0),
        ReadAllowance usdc (address wallet0) (swap_to swap0),
        SendTransaction (swap_to swap0) (swap_data swap0) 0 1000000000,
        SaveTransaction (sell_record sell_session_400 wallet0 ok_receipt)]
   \<and> allowance_now (fst (snd (handleSellConfirmation env_allowance_450 sell_session_400 (Some wallet0) True world0)))
     = Some ''450''
   \<and> BigInt ''450'' = Some 450 \<and> BigInt (inAmount swap0) = Some 500"
proof -
  have nn: "toLowerCase usdc \<noteq> toLowerCase (NATIVE_TOKEN_ADDRESS env_allowance_450)"
    using usdc_not_native by (simp add: env_allowance_450_facts)
  have rd: "BigInt (case allowance_now (log_call GetSwap world0) of Some a \<Rightarrow> a | None \<Rightarrow> ''0'') = Some 0"
    by (simp add: world0_def BigInt_zero)
  have need: "BigInt (inAmount swap0) = Some 500" by (simp add: swap0_def BigInt_500)
  have ap: "sell_approval env_allowance_450 sell_session_400 wallet0 usdc swap0 (log_call GetSwap world0)
      = (log_call (ReadAllowance usdc (address wallet0) (swap_to swap0))
           ((log_call (WriteApprove usdc (swap_to swap0) (MAX_UINT256 env0))
              (log_call (ReadAllowance usdc (address wallet0) (swap_to swap0)) (log_call GetSwap world0)))
            \<lparr>allowance_now := Some ''450''\<rparr>), None)"
    unfolding sell_approval_short [OF nn rd need _ env_allowance_450_facts(2), simplified]
    by (simp add: env_allowance_450_facts sell_session_400_facts BigInt_small ok_receipt_def)
  have res: "handleSellConfirmation env_allowance_450 sell_session_400 (Some wallet0) True world0
      = (sell_session_400,
         log_call (SaveTransaction (sell_record sell_session_400 wallet0 ok_receipt))
           (log_call (SendTransaction (swap_to swap0) (swap_data swap0) 0 1000000000)
              (log_call (ReadAllowance usdc (address wallet0) (swap_to swap0))
                 ((log_call (WriteApprove usdc (swap_to swap0) (MAX_UINT256 env0))
                    (log_call (ReadAllowance usdc (address wallet0) (swap_to swap0))
                       (log_call GetSwap world0)))
                  \<lparr>allowance_now := Some ''450''\<rparr>))),
         TransactionSuccessful)"
    by (simp add: handleSellConfirmation_def
        sell_confirm_with_swap [OF sell_session_400_facts env_allowance_450_facts(1)]
        nn ap executeTransaction_swap0 env_allowance_450_facts(2,4) ok_receipt_def)
  show ?thesis
    unfolding res by (simp add: log_call_def world0_def BigInt_small need)
qed

section \<open>What the confirmations leave in the session\<close>

text \<open>The approval is written once when the allowance is below \<open>swap.data.inAmount\<close>, and not at all otherwise.\<close>

lemma sell_approval_count:
  assumes "toLowerCase ft \<noteq> toLowerCase (NATIVE_TOKEN_ADDRESS e)"
    and "BigInt (case allowance_now w of Some a \<Rightarrow> a | None \<Rightarrow> ''0'') = Some al"
    and "BigInt (inAmount swap) = Some need" and "decrypt_ok e"
  shows "length (filter is_approve (calls (fst (sell_approval e s wl ft swap w))))
           = length (filter is_approve (calls w)) + (if al < need then 1 else 0)"
proof (cases "al < need")
  case True
  show ?thesis
    unfolding sell_approval_short [OF assms(1-3) True assms(4)]
    using True by (simp add: Let_def is_approve_def split: option.splits prod.splits)
next
  case False
  show ?thesis
    unfolding sell_approval_enough [OF assms(1-3) False]
    using False by (simp add: is_approve_def)
qed

text \<open>A failed approval receipt ends the turn before the swap is sent.\<close>

lemma sell_confirm_failed_approval:
  assumes "userId s \<noteq> []" "tempData s = Some td" "slippage_text s = Some sl"
    and "BigInt_of (temp s ''fromAmount'') = Some fa"
    and "temp s ''fromToken'' = Some (JString ft)"
    and "swap_answer e = Some (BodyData swap)"
    and "toLowerCase ft \<noteq> toLowerCase (NATIVE_TOKEN_ADDRESS e)"
    and "BigInt (case allowance_now w of Some a \<Rightarrow> a | None \<Rightarrow> ''0'') = Some al"
    and "BigInt (inAmount swap) = Some need" and "al < need" and "decrypt_ok e"
    and "approve_outcome e = Some (r, a')" and "status r = failure"
  shows "snd (snd (handleSellConfirmation e s (Some wl) True w)) = ApprovalFailed
         \<and> calls (fst (snd (handleSellConfirmation e s (Some wl) True w)))
             = calls w @ [GetSwap, ReadAllowance ft (address wl) (swap_to swap),
                          WriteApprove ft (swap_to swap) (MAX_UINT256 e)]"
proof -
  have rd: "BigInt (case allowance_now (log_call GetSwap w) of Some a \<Rightarrow> a | None \<Rightarrow> ''0'') = Some al"
    using assms(8) by simp
  show ?thesis
    using assms(7,12,13)
    by (simp add: handleSellConfirmation_def sell_confirm_with_swap [OF assms(1-6)]
        sell_approval_short [OF assms(7) rd assms(9,10,11)])
qed

text \<open>The buy and the withdraw confirmation clear the session on every path past their guards.\<close>

lemma clear_flow_idem [simp]: "clear_flow (clear_flow s) = clear_flow s"
  by (simp add: clear_flow_def)

lemma buy_confirmation_clears:
  "userId s \<noteq> [] \<Longrightarrow> fst (handleBuyConfirmation e s (Some wl) True w) = clear_flow s"
  by (simp add: handleBuyConfirmation_def handleBuyConfirmation_try_def Let_def
      split: option.splits prod.splits)

lemma withdraw_confirmation_clears:
  "userId s \<noteq> [] \<Longrightarrow> tempData s = Some td \<Longrightarrow> truthy (temp s ''from'') \<Longrightarrow>
   truthy (temp s ''to'') \<Longrightarrow> truthy (temp s ''amount'') \<Longrightarrow>
   fst (handleWithdrawConfirmation e s (Some wl) True w) = clear_flow s"
  by (simp add: handleWithdrawConfirmation_def handleWithdrawConfirmation_try_def Let_def
      split: option.splits prod.splits)

text \<open>
  C1, where the code departs from it. After the receipt of the swap, of either status,
  \<open>handleSellConfirmation\<close> returns with the session as it was: the current action is
  still \<open>sell_confirm\<close> and \<open>tempData\<close> still holds the amounts.
\<close>

theorem sell_confirmation_keeps_session:
  "handleSellConfirmation env0 sell_session (Some wallet0) True
       (world0\<lparr>allowance_now := Some ''1000''\<rparr>)
     = (sell_session,
        log_call (SaveTransaction (sell_record sell_session wallet0 ok_receipt))
          (log_call (SendTransaction (swap_to swap0) (swap_data swap0) 0 1000000000)
             (log_call (ReadAllowance usdc (address wallet0) (swap_to swap0))
                (log_call GetSwap (world0\<lparr>allowance_now := Some ''1000''\<rparr>)))),
        TransactionSuccessful)
   \<and> handleSellConfirmation env_failed_swap sell_session (Some wallet0) True
       (world0\<lparr>allowance_now := Some ''1000''\<rparr>)
     = (sell_session,
        log_call (SaveTransaction (sell_record sell_session wallet0 failed_receipt))
          (log_call (SendTransaction (swap_to swap0) (swap_data swap0) 0 1000000000)
             (log_call (ReadAllowance usdc (address wallet0) (swap_to swap0))
                (log_call GetSwap (world0\<lparr>allowance_now := Some ''1000''\<rparr>)))),
        TransactionFailed)
   \<and> currentAction sell_session = Some ''sell_confirm''
   \<and> temp sell_session ''fromAmount'' = Some (JString ''500'')
   \<and> fst (handleBuyConfirmation env0 buy_session (Some wallet0) True world0) = clear_flow buy_session
   \<and> fst (handleWithdrawConfirmation env0 withdraw_confirm_session (Some wallet0) True world0)
       = clear_flow withdraw_confirm_session"
proof -
  have b1000: "BigInt ''1000'' = Some 1000" by code_simp
  have f: "swap_answer env_failed_swap = Some (BodyData swap0)" "decrypt_ok env_failed_swap"
    "send_outcome env_failed_swap = Some failed_receipt"
    "NATIVE_TOKEN_ADDRESS env_failed_swap = NATIVE_TOKEN_ADDRESS env0"
    by (simp_all add: env_failed_swap_def env0_def)
  have e: "swap_answer env0 = Some (BodyData swap0)" "decrypt_ok env0"
    "send_outcome env0 = Some ok_receipt"
    by (simp_all add: env0_def)
  have need: "BigInt (inAmount swap0) = Some 500" by (simp add: swap0_def BigInt_500)
  have rd: "BigInt (case allowance_now (log_call GetSwap (world0\<lparr>allowance_now := Some ''1000''\<rparr>))
              of Some a \<Rightarrow> a | None \<Rightarrow> ''0'') = Some 1000"
    by (simp add: b1000)
  have nn: "toLowerCase usdc \<noteq> toLowerCase (NATIVE_TOKEN_ADDRESS env_failed_swap)"
    using usdc_not_native by (simp add: f)
  have r1: "handleSellConfirmation env0 sell_session (Some wallet0) True
       (world0\<lparr>allowance_now := Some ''1000''\<rparr>)
     = (sell_session,
        log_call (SaveTransaction (sell_record sell_session wallet0 ok_receipt))
          (log_call (SendTransaction (swap_to swap0) (swap_data swap0) 0 1000000000)
             (log_call (ReadAllowance usdc (address wallet0) (swap_to swap0))
                (log_call GetSwap (world0\<lparr>allowance_now := Some ''1000''\<rparr>)))),
        TransactionSuccessful)"
    by (simp add: handleSellConfirmation_def
        sell_confirm_with_swap [OF sell_session_facts e(1)] usdc_not_native
        sell_approval_enough [OF usdc_not_native rd need]
        executeTransaction_swap0 e ok_receipt_def)
  have r2: "handleSellConfirmation env_failed_swap sell_session (Some wallet0) True
       (world0\<lparr>allowance_now := Some ''1000''\<rparr>)
     = (sell_session,
        log_call (SaveTransaction (sell_record sell_session wallet0 failed_receipt))
          (log_call (SendTransaction (swap_to swap0) (swap_data swap0) 0 1000000000)
             (log_call (ReadAllowance usdc (address wallet0) (swap_to swap0))
                (log_call GetSwap (world0\<lparr>allowance_now := Some ''1000''\<rparr>)))),
        TransactionFailed)"
    by (simp add: handleSellConfirmation_def
        sell_confirm_with_swap [OF sell_session_facts f(1)] nn
        sell_approval_enough [OF nn rd need]
        executeTransaction_swap0 f(1,2,3) failed_receipt_def)
  have r3: "fst (handleBuyConfirmation env0 buy_session (Some wallet0) True world0) = clear_flow buy_session"
    by (rule buy_confirmation_clears) (simp add: buy_session_def)
  have r4: "fst (handleWithdrawConfirmation env0 withdraw_confirm_session (Some wallet0) True world0)
       = clear_flow withdraw_confirm_session"
    by (rule withdraw_confirmation_clears [where td = "the (tempData withdraw_confirm_session)"])
       (simp_all add: withdraw_confirm_session_def temp_def)
  show ?thesis
    using r1 r2 r3 r4 by (simp add: sell_session_def temp_def)
qed

section \<open>The sell amount entry\<close>

lemma temp_set_temp:
  "tempData s \<noteq> None \<Longrightarrow> temp (set_temp k v s) k' = (if k' = k then v else temp s k')"
  by (auto simp: temp_def set_temp_def split: option.splits)

lemma tempData_set_temp: "tempData s \<noteq> None \<Longrightarrow> tempData (set_temp k v s) \<noteq> None"
  by (auto simp: set_temp_def split: option.splits)

lemma temp_currentAction_update [simp]: "temp (s\<lparr>currentAction := a\<rparr>) k = temp s k"
  by (simp add: temp_def)

lemma userId_set_temp [simp]: "userId (set_temp k v s) = userId s"
  by (simp add: set_temp_def split: option.splits)

lemma currentAction_set_temp [simp]: "currentAction (set_temp k v s) = currentAction s"
  by (simp add: set_temp_def split: option.splits)

text \<open>Whatever happens after it, \<open>handleSellAmountLogic\<close> has stored the amount it was given.\<close>

lemma sell_amount_logic_stores_amount:
  assumes "tempData s \<noteq> None"
  shows "temp (fst (handleSellAmountLogic e s (Some wl) amt w)) ''fromAmount'' = amt"
proof -
  obtain td where td: "tempData s = Some td" using assms by auto
  show ?thesis
    using td
    by (simp add: handleSellAmountLogic_def handleSellAmountLogic_try_def Let_def
        temp_set_temp tempData_set_temp split: prod.splits option.splits)
qed

lemma sell_amount_logic_confirm:
  assumes "tempData s \<noteq> None" "BigInt_of amt \<noteq> None" "slippage_text s \<noteq> None"
    and "quote_answer e = Some (BodyData d)"
  shows "currentAction (fst (handleSellAmountLogic e s (Some wl) amt w)) = Some ''sell_confirm''
         \<and> snd (snd (handleSellAmountLogic e s (Some wl) amt w)) = TradeConfirmPrompt"
proof -
  obtain td a sl where "tempData s = Some td" "BigInt_of amt = Some a" "slippage_text s = Some sl"
    using assms by auto
  then show ?thesis
    using assms(4)
    by (simp add: handleSellAmountLogic_def handleSellAmountLogic_try_def Let_def getQuote_def
        log_call_def split: prod.splits)
qed

lemma max_is_no_amount: "\<not> isValidAmount ''max''"
  by (simp add: isValidAmount_def amountRegex_test_def is_digit_def)

lemma max_lower: "toLowerCase ''max'' = ''max''"
  by code_simp

text \<open>
  C8. At the sell amount entry the input \<open>max\<close> is not validated or parsed (it is not
  a valid amount, and no conversion is applied to the balance): the turn is the turn of
  \<open>handleSellAmountLogic\<close> on the stored \<open>tokenBalance\<close>, and the amount of the flow,
  \<open>tempData.fromAmount\<close>, is that very value, whatever the decimal count of the token is.
  With a quote the flow is then at \<open>sell_confirm\<close>.
\<close>

theorem sell_max_is_stored_balance:
  "userId s \<noteq> [] \<and> tempData s \<noteq> None
   \<longrightarrow> handleSellAmountInput e s (Some wl) (Some ''max'') w
         = handleSellAmountLogic e s (Some wl) (temp s ''tokenBalance'') w
       \<and> temp (fst (handleSellAmountInput e s (Some wl) (Some ''max'') w)) ''fromAmount''
           = temp s ''tokenBalance''
       \<and> \<not> isValidAmount ''max''
       \<and> (BigInt_of (temp s ''tokenBalance'') \<noteq> None \<and> slippage_text s \<noteq> None
            \<and> quote_answer e = Some (BodyData d)
           \<longrightarrow> currentAction (fst (handleSellAmountInput e s (Some wl) (Some ''max'') w))
                 = Some ''sell_confirm'')"
proof (intro impI)
  assume h: "userId s \<noteq> [] \<and> tempData s \<noteq> None"
  then obtain td where td: "tempData s = Some td" by auto
  have eq: "handleSellAmountInput e s (Some wl) (Some ''max'') w
         = handleSellAmountLogic e s (Some wl) (temp s ''tokenBalance'') w"
    using h td
    by (simp add: handleSellAmountInput_def handleSellAmountInput_try_def falsy_text_def
        max_lower Let_def split: prod.splits)
  show "handleSellAmountInput e s (Some wl) (Some ''max'') w
         = handleSellAmountLogic e s (Some wl) (temp s ''tokenBalance'') w
       \<and> temp (fst (handleSellAmountInput e s (Some wl) (Some ''max'') w)) ''fromAmount''
           = temp s ''tokenBalance''
       \<and> \<not> isValidAmount ''max''
       \<and> (BigInt_of (temp s ''tokenBalance'') \<noteq> None \<and> slippage_text s \<noteq> None
            \<and> quote_answer e = Some (BodyData d)
           \<longrightarrow> currentAction (fst (handleSellAmountInput e s (Some wl) (Some ''max'') w))
                 = Some ''sell_confirm'')"
    unfolding eq
    using h sell_amount_logic_stores_amount [of s e wl "temp s ''tokenBalance''" w]
      sell_amount_logic_confirm [of s "temp s ''tokenBalance''" e d wl w] max_is_no_amount
    by simp
qed

theorem sell_max_is_stored_balance_witness:
  "temp (fst (handleSellAmountInput env0 sell_amount_session (Some wallet0) (Some ''max'') world0))
       ''fromAmount'' = Some (JString ''1234567890123456789'')
   \<and> currentAction (fst (handleSellAmountInput env0 sell_amount_session (Some wallet0) (Some ''max'') world0))
       = Some ''sell_confirm''"
proof -
  have b: "BigInt ''1234567890123456789'' = Some 1234567890123456789" by code_simp
  have f: "userId sell_amount_session \<noteq> []" "tempData sell_amount_session \<noteq> None"
    "temp sell_amount_session ''tokenBalance'' = Some (JString ''1234567890123456789'')"
    "slippage_text sell_amount_session \<noteq> None"
    "quote_answer env0 = Some (BodyData \<lparr>outAmount = ''750000000'', estimatedGas = ''150000''\<rparr>)"
    by (simp_all add: sell_amount_session_def temp_def slippage_text_def env0_def)
  have pre: "userId sell_amount_session \<noteq> [] \<and> tempData sell_amount_session \<noteq> None"
    using f by simp
  have pre2: "BigInt_of (temp sell_amount_session ''tokenBalance'') \<noteq> None
       \<and> slippage_text sell_amount_session \<noteq> None
       \<and> quote_answer env0 = Some (BodyData \<lparr>outAmount = ''750000000'', estimatedGas = ''150000''\<rparr>)"
    using f b by simp
  note t = sell_max_is_stored_balance [of sell_amount_session env0 wallet0 world0
        "\<lparr>outAmount = ''750000000'', estimatedGas = ''150000''\<rparr>", THEN mp, OF pre]
  from t have a: "temp (fst (handleSellAmountInput env0 sell_amount_session (Some wallet0) (Some ''max'') world0))
       ''fromAmount'' = temp sell_amount_session ''tokenBalance''"
    by blast
  from t pre2 have c: "currentAction (fst (handleSellAmountInput env0 sell_amount_session (Some wallet0)
       (Some ''max'') world0)) = Some ''sell_confirm''"
    by blast
  from a c f(3) show ?thesis by simp
qed

section \<open>A bigint printed and read back\<close>

lemma of_char_digit: "0 \<le> d \<Longrightarrow> d \<le> 9 \<Longrightarrow> (of_char (char_of (48 + d)) :: int) = 48 + d"
  by (simp add: of_char_of)

lemma digit_val_char_of: "0 \<le> d \<Longrightarrow> d \<le> 9 \<Longrightarrow> digit_val (char_of (48 + d)) = Some (d::int)"
  by (simp add: digit_val_def Let_def of_char_digit)

lemma digit_char_not_ws: "0 \<le> (d::int) \<Longrightarrow> d \<le> 9 \<Longrightarrow> \<not> is_ws (char_of (48 + d))"
  by (simp add: is_ws_def of_char_digit)

lemma digits_value_snoc:
  "digits_value r (ds @ [c]) = digits_value r ds * r + (case digit_val c of None \<Rightarrow> 0 | Some d \<Rightarrow> d)"
  by (simp add: digits_value_def)

lemma plain_digit_char_of: "0 \<le> (d::int) \<Longrightarrow> d \<le> 9 \<Longrightarrow> plain_digit (char_of (48 + d))"
  by (simp add: plain_digit_def is_radix_digit_def digit_val_char_of digit_char_not_ws
      is_digit_def of_char_digit)

lemma nat_digits_props:
  "0 \<le> n \<Longrightarrow> nat_digits n \<noteq> [] \<and> list_all plain_digit (nat_digits n)
                 \<and> digits_value 10 (nat_digits n) = n"
proof (induction n rule: nat_digits.induct)
  case (1 n)
  show ?case
  proof (cases "n < 10")
    case True
    then have "nat_digits n = [char_of (48 + n)]" by (subst nat_digits.simps) simp
    then show ?thesis using True 1(2)
      by (simp add: plain_digit_char_of digits_value_def digit_val_char_of)
  next
    case False
    then have e: "nat_digits n = nat_digits (n div 10) @ [char_of (48 + n mod 10)]"
      by (subst nat_digits.simps) simp
    have ih: "nat_digits (n div 10) \<noteq> [] \<and> list_all plain_digit (nat_digits (n div 10))
                 \<and> digits_value 10 (nat_digits (n div 10)) = n div 10"
      using 1 False by simp
    have m: "0 \<le> n mod 10" "n mod 10 \<le> 9" by simp_all
    show ?thesis
      using ih m by (simp add: e digits_value_snoc digit_val_char_of plain_digit_char_of)
  qed
qed

lemma dropWhile_ws_plain: "list_all plain_digit s \<Longrightarrow> dropWhile is_ws s = s"
  by (cases s) (auto simp: plain_digit_def)

lemma trim_plain: "list_all plain_digit s \<Longrightarrow> trim s = s"
proof -
  assume a: "list_all plain_digit s"
  then have "list_all plain_digit (rev s)" by (simp add: list_all_iff)
  then show ?thesis using a by (simp add: trim_def dropWhile_ws_plain)
qed

lemma plain_no_prefix:
  assumes "list_all plain_digit s"
  shows "\<not> startsWith s ''0x''" "\<not> startsWith s ''0X''" "\<not> startsWith s ''0o''"
    "\<not> startsWith s ''0O''" "\<not> startsWith s ''0b''" "\<not> startsWith s ''0B''"
    "\<not> startsWith s ''-''" "\<not> startsWith s ''+''"
  using assms
  by (cases s; cases "tl s"; auto simp: startsWith_def plain_digit_def is_digit_def)+

lemma BigInt_plain:
  assumes "s \<noteq> []" "list_all plain_digit s"
  shows "BigInt s = Some (digits_value 10 s)"
proof -
  have "list_all (is_radix_digit 10) s"
    using assms(2) by (simp add: list_all_iff plain_digit_def)
  then show ?thesis
    using assms plain_no_prefix [OF assms(2)]
    by (simp add: BigInt_def trim_plain parse_digits_def)
qed

lemma BigInt_toString_nonneg: "0 \<le> n \<Longrightarrow> BigInt (BigInt_toString n) = Some n"
  using nat_digits_props [of n] by (simp add: BigInt_toString_def BigInt_plain)

lemma BigInt_toString_neg:
  assumes "n < 0"
  shows "BigInt (BigInt_toString n) = Some n"
proof -
  define ds where "ds = nat_digits (- n)"
  have p: "ds \<noteq> []" "list_all plain_digit ds" "digits_value 10 ds = - n"
    using nat_digits_props [of "- n"] assms by (simp_all add: ds_def)
  have ws: "\<not> is_ws (CHR ''-'')" by (simp add: is_ws_def)
  have nows: "list_all (\<lambda>c. \<not> is_ws c) (rev ds @ [CHR ''-''])"
    using p(2) ws by (simp add: list_all_iff plain_digit_def)
  have dr: "dropWhile is_ws (rev ds @ [CHR ''-'']) = rev ds @ [CHR ''-'']"
    using nows by (cases "rev ds @ [CHR ''-'']") auto
  have t: "trim (CHR ''-'' # ds) = CHR ''-'' # ds"
    by (simp add: trim_def ws dr)
  have r: "list_all (is_radix_digit 10) ds"
    using p(2) by (simp add: list_all_iff plain_digit_def)
  show ?thesis
    using assms p r
    by (simp add: BigInt_toString_def ds_def [symmetric] BigInt_def t startsWith_def
        parse_digits_def)
qed

lemma BigInt_toString_roundtrip: "BigInt (BigInt_toString n) = Some n"
  using BigInt_toString_nonneg [of n] BigInt_toString_neg [of n] by (cases "n < 0") simp_all

text \<open>A string of the decimal shape with a positive value is a valid amount.\<close>

lemma valid_amount_intro:
  assumes "list_all is_digit ip" "list_all is_digit fp" "length fp \<le> 18"
    and "\<not> redundant_leading_zero ip" "0 < decimal_value ip fp"
  shows "isValidAmount (ip @ frac_text fp)"
proof -
  have m: "amountRegex_test (ip @ frac_text fp)"
    using regex_decomposition [of "ip @ frac_text fp"] assms by blast
  have ne: "\<not> (ip = [] \<and> fp = [])"
    using assms(5) by (auto simp: decimal_value_def digits_value_def)
  have "parseFloat (ip @ frac_text fp) = double_of_rat (decimal_value ip fp)"
    using parseFloat_decimal [OF assms(1,2)] ne by simp
  then have "js_gt (parseFloat (ip @ frac_text fp)) (Finite 0)"
    using double_of_rat_positive [OF decimal_value_lower [OF assms(5,3)]] by simp
  then show ?thesis using m by (simp add: isValidAmount_def)
qed

section \<open>The withdraw amount entry\<close>

lemma temp_eq: "tempData s = Some td \<Longrightarrow> temp s k = td k"
  by (simp add: temp_def)

text \<open>
  C2. In the withdraw amount entry, with the stored balance \<open>b\<close>, the entered amount \<open>a\<close>
  in wei and the fee per gas \<open>fee\<close> of the gas parameters: the flow is at
  \<open>withdraw_confirm\<close> after the turn exactly when \<open>a \<le> b\<close> and \<open>b > a + 21000 * fee\<close>, on
  integers; otherwise the session is returned as it was, so the current action is still
  the amount entry. The first check comes first: when it fails, its message is the reply
  and the gas provider has not been called. An amount equal to the balance is refused
  for the fee whenever the fee is positive.
\<close>

theorem withdraw_amount_balance_checks:
  "userId s \<noteq> [] \<and> currentAction s = Some ''withdraw_amount'' \<and> tempData s = Some td
   \<and> td ''balance'' = Some (JString bal) \<and> is_string (td ''to'') \<and> BigInt bal = Some b
   \<and> isValidAmount input
   \<and> parseEther (if startsWith input ''.'' then ''0'' @ input else input) = Some a
   \<and> parseGwei (maxFeePerGas (snd (getGasParams e w))) = Some fee
   \<and> parseGwei (maxPriorityFeePerGas (snd (getGasParams e w))) = Some prio
   \<longrightarrow> (case handleWithdrawAmount e s (Some input) w of
          (s', w', r) \<Rightarrow>
            (currentAction s' = Some ''withdraw_confirm'') = (a \<le> b \<and> a + 21000 * fee < b)
            \<and> (if a \<le> b \<and> a + 21000 * fee < b
                then temp s' ''amount'' = Some (JString (BigInt_toString a))
                else s' = s)
            \<and> r = (if b < a then InsufficientBalance
                    else if b \<le> a + 21000 * fee then InsufficientForGas
                    else WithdrawConfirmPrompt)
            \<and> (if b < a then w' = w else w' = fst (getGasParams e w))
            \<and> (if a = b \<and> 0 < fee then r = InsufficientForGas \<and> s' = s else True))"
proof (intro impI)
  assume h: "userId s \<noteq> [] \<and> currentAction s = Some ''withdraw_amount'' \<and> tempData s = Some td
   \<and> td ''balance'' = Some (JString bal) \<and> is_string (td ''to'') \<and> BigInt bal = Some b
   \<and> isValidAmount input
   \<and> parseEther (if startsWith input ''.'' then ''0'' @ input else input) = Some a
   \<and> parseGwei (maxFeePerGas (snd (getGasParams e w))) = Some fee
   \<and> parseGwei (maxPriorityFeePerGas (snd (getGasParams e w))) = Some prio"
  obtain w1 gp where g: "getGasParams e w = (w1, gp)" by (cases "getGasParams e w")
  have ne: "input \<noteq> []"
    using h by (auto simp: isValidAmount_def parseFloat_def startsWith_def Let_def)
  have td: "tempData s = Some td" "temp s ''balance'' = Some (JString bal)"
    "is_string (temp s ''to'')" "is_string (temp s ''balance'')"
    using h by (simp_all add: temp_def)
  have s2: "tempData (set_temp ''amount'' (Some (JString (BigInt_toString a))) s) \<noteq> None"
    using td(1) by (simp add: tempData_set_temp)
  have am: "temp (set_temp ''maxPriorityFeePerGas'' (Some (JString (BigInt_toString prio)))
               (set_temp ''maxFeePerGas'' (Some (JString (BigInt_toString fee)))
                  (set_temp ''amount'' (Some (JString (BigInt_toString a))) s))) ''amount''
            = Some (JString (BigInt_toString a))"
    using td(1) s2 by (simp add: temp_set_temp tempData_set_temp)
  show "case handleWithdrawAmount e s (Some input) w of
          (s', w', r) \<Rightarrow>
            (currentAction s' = Some ''withdraw_confirm'') = (a \<le> b \<and> a + 21000 * fee < b)
            \<and> (if a \<le> b \<and> a + 21000 * fee < b
                then temp s' ''amount'' = Some (JString (BigInt_toString a))
                else s' = s)
            \<and> r = (if b < a then InsufficientBalance
                    else if b \<le> a + 21000 * fee then InsufficientForGas
                    else WithdrawConfirmPrompt)
            \<and> (if b < a then w' = w else w' = fst (getGasParams e w))
            \<and> (if a = b \<and> 0 < fee then r = InsufficientForGas \<and> s' = s else True)"
    using h ne td g am
    by (simp add: handleWithdrawAmount_def handleWithdrawAmount_try_def falsy_text_def
        BigInt_toString_roundtrip Let_def mult.commute)
qed

lemma gas_env0:
  "getGasParams env0 w =
     (log_call EstimateFeesPerGas w, \<lparr>price = ''1'', maxFeePerGas = ''1'', maxPriorityFeePerGas = ''0.1''\<rparr>)"
proof -
  have "formatUnits 1000000000 9 = ''1''" by code_simp
  moreover have "formatUnits 100000000 9 = ''0.1''" by code_simp
  ultimately show ?thesis by (simp add: getGasParams_def env0_def)
qed

lemma parseGwei_examples:
  "parseGwei ''1'' = Some 1000000000" "parseGwei ''0.1'' = Some 100000000"
  "parseGwei ''0.05'' = Some 50000000"
  by code_simp+

lemma parseEther_examples:
  "parseEther ''0.0001'' = Some 100000000000000" "parseEther ''0.00005'' = Some 50000000000000"
  by code_simp+

lemma valid_amount_examples: "isValidAmount ''0.0001''" "isValidAmount ''0.00005''"
proof -
  have "isValidAmount (''0'' @ frac_text ''0001'')"
    by (rule valid_amount_intro)
       (simp_all add: is_digit_def redundant_leading_zero_def decimal_value_def digits_value_def
          digit_val_def)
  then show "isValidAmount ''0.0001''" by (simp add: frac_text_def)
  have "isValidAmount (''0'' @ frac_text ''00005'')"
    by (rule valid_amount_intro)
       (simp_all add: is_digit_def redundant_leading_zero_def decimal_value_def digits_value_def
          digit_val_def)
  then show "isValidAmount ''0.00005''" by (simp add: frac_text_def)
qed

lemma BigInt_balance: "BigInt ''100000000000000'' = Some 100000000000000"
  by code_simp

theorem withdraw_amount_balance_checks_witness:
  "snd (snd (handleWithdrawAmount env0 withdraw_session (Some ''0.0001'') world0)) = InsufficientForGas
   \<and> fst (handleWithdrawAmount env0 withdraw_session (Some ''0.0001'') world0) = withdraw_session
   \<and> currentAction (fst (handleWithdrawAmount env0 withdraw_session (Some ''0.00005'') world0))
       = Some ''withdraw_confirm''
   \<and> snd (snd (handleWithdrawAmount env0 withdraw_session (Some ''0.00005'') world0))
       = WithdrawConfirmPrompt"
proof -
  have f: "userId withdraw_session \<noteq> []" "currentAction withdraw_session = Some ''withdraw_amount''"
    "tempData withdraw_session = Some [''from'' \<mapsto> JString ''0x1111111111111111111111111111111111111111'',
                       ''balance'' \<mapsto> JString ''100000000000000'',
                       ''to'' \<mapsto> JString ''0x2222222222222222222222222222222222222222'']"
    by (simp_all add: withdraw_session_def)
  have p1: "userId withdraw_session \<noteq> [] \<and> currentAction withdraw_session = Some ''withdraw_amount''
     \<and> tempData withdraw_session = Some [''from'' \<mapsto> JString ''0x1111111111111111111111111111111111111111'',
                       ''balance'' \<mapsto> JString ''100000000000000'',
                       ''to'' \<mapsto> JString ''0x2222222222222222222222222222222222222222'']
     \<and> [''from'' \<mapsto> JString ''0x1111111111111111111111111111111111111111'',
                       ''balance'' \<mapsto> JString ''100000000000000'',
                       ''to'' \<mapsto> JString ''0x2222222222222222222222222222222222222222''] ''balance''
          = Some (JString ''100000000000000'')
     \<and> is_string ([''from'' \<mapsto> JString ''0x1111111111111111111111111111111111111111'',
                       ''balance'' \<mapsto> JString ''100000000000000'',
                       ''to'' \<mapsto> JString ''0x2222222222222222222222222222222222222222''] ''to'')
     \<and> BigInt ''100000000000000'' = Some 100000000000000
     \<and> isValidAmount ''0.0001''
     \<and> parseEther (if startsWith ''0.0001'' ''.'' then ''0'' @ ''0.0001'' else ''0.0001'')
          = Some 100000000000000
     \<and> parseGwei (maxFeePerGas (snd (getGasParams env0 world0))) = Some 1000000000
     \<and> parseGwei (maxPriorityFeePerGas (snd (getGasParams env0 world0))) = Some 100000000"
    using f by (simp add: BigInt_balance valid_amount_examples parseEther_examples gas_env0
        parseGwei_examples startsWith_def)
  have p2: "userId withdraw_session \<noteq> [] \<and> currentAction withdraw_session = Some ''withdraw_amount''
     \<and> tempData withdraw_session = Some [''from'' \<mapsto> JString ''0x1111111111111111111111111111111111111111'',
                       ''balance'' \<mapsto> JString ''100000000000000'',
                       ''to'' \<mapsto> JString ''0x2222222222222222222222222222222222222222'']
     \<and> [''from'' \<mapsto> JString ''0x1111111111111111111111111111111111111111'',
                       ''balance'' \<mapsto> JString ''100000000000000'',
                       ''to'' \<mapsto> JString ''0x2222222222222222222222222222222222222222''] ''balance''
          = Some (JString ''100000000000000'')
     \<and> is_string ([''from'' \<mapsto> JString ''0x1111111111111111111111111111111111111111'',
                       ''balance'' \<mapsto> JString ''100000000000000'',
                       ''to'' \<mapsto> JString ''0x2222222222222222222222222222222222222222''] ''to'')
     \<and> BigInt ''100000000000000'' = Some 100000000000000
     \<and> isValidAmount ''0.00005''
     \<and> parseEther (if startsWith ''0.00005'' ''.'' then ''0'' @ ''0.00005'' else ''0.00005'')
          = Some 50000000000000
     \<and> parseGwei (maxFeePerGas (snd (getGasParams env0 world0))) = Some 1000000000
     \<and> parseGwei (maxPriorityFeePerGas (snd (getGasParams env0 world0))) = Some 100000000"
    using f by (simp add: BigInt_balance valid_amount_examples parseEther_examples gas_env0
        parseGwei_examples startsWith_def)
  note t1 = withdraw_amount_balance_checks [THEN mp, OF p1]
  note t2 = withdraw_amount_balance_checks [THEN mp, OF p2]
  from t1 have a: "snd (snd (handleWithdrawAmount env0 withdraw_session (Some ''0.0001'') world0)) = InsufficientForGas
      \<and> fst (handleWithdrawAmount env0 withdraw_session (Some ''0.0001'') world0) = withdraw_session"
    by (simp add: case_prod_beta)
  from t2 have b: "currentAction (fst (handleWithdrawAmount env0 withdraw_session (Some ''0.00005'') world0))
       = Some ''withdraw_confirm''
      \<and> snd (snd (handleWithdrawAmount env0 withdraw_session (Some ''0.00005'') world0))
       = WithdrawConfirmPrompt"
    by (simp add: case_prod_beta)
  from a b show ?thesis by simp
qed

section \<open>The buy amount entry\<close>

lemma log2floor_1: "log2floor 1 = 0"
  by (subst log2floor.simps) simp

lemma round_half_even_below_half:
  assumes "of_int f \<le> x" "x < of_int f + 1 / 2"
  shows "round_half_even x = f"
proof -
  have "\<lfloor>x\<rfloor> = f" using assms by (intro floor_unique) simp_all
  then show ?thesis using assms by (simp add: round_half_even_def Let_def)
qed

text \<open>A value in the binade of 1 that is less than half a quantum above 1 rounds to 1.\<close>

lemma double_of_rat_near_one:
  assumes "1 \<le> v" "v * 4503599627370496 < 4503599627370496 + 1 / 2"
  shows "double_of_rat v = Finite 1"
proof -
  have v2: "v < 2" using assms(2) by simp
  have fl: "\<lfloor>v\<rfloor> = 1" using assms(1) v2 by (intro floor_unique) simp_all
  have i: "ilog2 v = 0" using assms(1) by (simp add: ilog2_def log2floor_1 fl)
  have q: "(2::rat) powi (- 52) = 1 / 4503599627370496"
    by (simp add: power_int_def power_one_over inverse_eq_divide)
  have x: "v / (1 / 4503599627370496) = v * 4503599627370496" by simp
  have r: "round_half_even (v * 4503599627370496) = 4503599627370496"
    using assms by (intro round_half_even_below_half) simp_all
  have big: "\<not> (2::rat) ^ 1024 \<le> 1"
    by (simp add: not_le one_less_power)
  have "double_of_rat v =
          (let r = of_int (round_half_even (v / (1 / 4503599627370496))) * (1 / 4503599627370496)
           in if 2 ^ 1024 \<le> r then PosInfinity else Finite r)"
    using assms(1) by (simp add: double_of_rat_def i q Let_def del: divide_divide_eq_right)
  also have "\<dots> = Finite 1"
    unfolding x r Let_def using big by simp
  finally show ?thesis .
qed

lemma double_one_plus_tiny:
  "double_of_rat (1000000000000000001 / 1000000000000000000) = Finite 1"
  by (rule double_of_rat_near_one) simp_all

lemma double_one: "double_of_rat 1 = Finite 1"
  by (rule double_of_rat_near_one) simp_all

lemma parseFloat_one_plus_wei: "parseFloat ''1.000000000000000001'' = Finite 1"
proof -
  have "parseFloat (''1'' @ frac_text ''000000000000000001'')
          = double_of_rat (decimal_value ''1'' ''000000000000000001'')"
    by (subst parseFloat_decimal) (simp_all add: is_digit_def)
  moreover have "decimal_value ''1'' ''000000000000000001''
                   = 1000000000000000001 / 1000000000000000000"
    by (simp add: decimal_value_def digits_value_def digit_val_def)
  ultimately show ?thesis by (simp add: frac_text_def double_one_plus_tiny)
qed

lemma parseFloat_one: "parseFloat ''1'' = Finite 1"
proof -
  have "parseFloat (''1'' @ frac_text []) = double_of_rat (decimal_value ''1'' [])"
    by (subst parseFloat_decimal) (simp_all add: is_digit_def)
  moreover have "decimal_value ''1'' [] = 1"
    by (simp add: decimal_value_def digits_value_def digit_val_def)
  ultimately show ?thesis by (simp add: frac_text_def double_one)
qed

lemma valid_one_plus_wei: "isValidAmount ''1.000000000000000001''"
proof -
  have "isValidAmount (''1'' @ frac_text ''000000000000000001'')"
    by (rule valid_amount_intro)
       (simp_all add: is_digit_def redundant_leading_zero_def decimal_value_def digits_value_def
          digit_val_def)
  then show ?thesis by (simp add: frac_text_def)
qed

lemma one_ether_facts:
  "BigInt ''1000000000000000000'' = Some 1000000000000000000"
  "formatUnits 1000000000000000000 18 = ''1''"
  "parseEther ''1.000000000000000001'' = Some 1000000000000000001"
  "parseEther ''1'' = Some 1000000000000000000"
  "BigInt ''750000000'' = Some 750000000"
  by code_simp+

text \<open>
  Whatever \<open>formatEthBalance\<close> prints, the comparison gives the same answer for the
  amounts 1 and 1.000000000000000001, which differ by one wei.
\<close>

lemma buy_check_cannot_tell_one_wei:
  "js_gt (parseFloat ''1.000000000000000001'') (parseFloat (formatEthBalance e b))
     = js_gt (parseFloat ''1'') (parseFloat (formatEthBalance e b))"
  by (simp add: parseFloat_one_plus_wei parseFloat_one)

text \<open>
  C6, where the code departs from it. The buy amount entry compares the entered amount
  with the balance as doubles. With a balance of one ether, the amount
  \<open>1.000000000000000001\<close> is one wei more than the balance, but both sides of the
  comparison are the double 1: the amount is accepted and the flow goes on to
  \<open>buy_confirm\<close> with \<open>fromAmount\<close> above the balance.
\<close>

theorem buy_balance_check_in_doubles:
  "BigInt_of (temp buy_amount_session ''balance'') = Some 1000000000000000000
   \<and> parseEther ''1.000000000000000001'' = Some 1000000000000000001
   \<and> parseFloat ''1.000000000000000001'' = Finite 1
   \<and> parseFloat (formatEthBalance env0 (temp buy_amount_session ''balance'')) = Finite 1
   \<and> currentAction (fst (handleBuyAmountInput env0 buy_amount_session (Some wallet0)
                            (Some ''1.000000000000000001'') world0)) = Some ''buy_confirm''
   \<and> snd (snd (handleBuyAmountInput env0 buy_amount_session (Some wallet0)
                  (Some ''1.000000000000000001'') world0)) = TradeConfirmPrompt
   \<and> BigInt_of (temp (fst (handleBuyAmountInput env0 buy_amount_session (Some wallet0)
                             (Some ''1.000000000000000001'') world0)) ''fromAmount'')
       = Some 1000000000000000001"
proof -
  have td: "tempData buy_amount_session \<noteq> None"
    "temp buy_amount_session ''balance'' = Some (JString ''1000000000000000000'')"
    "truthy (temp buy_amount_session ''toToken'')" "truthy (temp buy_amount_session ''toSymbol'')"
    "truthy (temp buy_amount_session ''toDecimals'')" "truthy (temp buy_amount_session ''walletAddress'')"
    "truthy (temp buy_amount_session ''balance'')" "userId buy_amount_session \<noteq> []"
    "slippage_text buy_amount_session = Some ''1.0''"
    by (simp_all add: buy_amount_session_def temp_def slippage_text_def)
  have fmt: "formatEthBalance env0 (Some (JString ''1000000000000000000'')) = ''1''"
    by (simp add: env0_def one_ether_facts)
  have q: "getQuote env0 w = (log_call GetQuote w, Some (BodyData \<lparr>outAmount = ''750000000'', estimatedGas = ''150000''\<rparr>))" for w
    by (simp add: getQuote_def env0_def)
  define s4 where "s4 =
     set_temp ''maxPriorityFeePerGas'' (Some (JString ''0.1''))
       (set_temp ''maxFeePerGas'' (Some (JString ''1''))
          (set_temp ''gasPrice'' (Some (JString ''1''))
             (set_temp ''fromAmount'' (Some (JString (BigInt_toString 1000000000000000001)))
                buy_amount_session)))"
  have res: "handleBuyAmountInput env0 buy_amount_session (Some wallet0)
                 (Some ''1.000000000000000001'') world0
      = ((set_temp ''estimatedGas'' (Some (JString ''150000''))
            (set_temp ''toAmount'' (Some (JString ''750000000'')) s4))
          \<lparr>currentAction := Some ''buy_confirm''\<rparr>,
         log_call GetQuote (log_call EstimateFeesPerGas world0), TradeConfirmPrompt)"
    using td
    by (simp add: handleBuyAmountInput_def handleBuyAmountInput_try_def falsy_text_def
        valid_one_plus_wei startsWith_def parseFloat_one_plus_wei fmt parseFloat_one
        one_ether_facts gas_env0 q s4_def Let_def)
  have fa: "temp (set_temp ''estimatedGas'' (Some (JString ''150000''))
            (set_temp ''toAmount'' (Some (JString ''750000000'')) s4)) ''fromAmount''
        = Some (JString (BigInt_toString 1000000000000000001))"
    using td(1) by (simp add: s4_def temp_set_temp tempData_set_temp)
  show ?thesis
    unfolding res
    by (simp add: fa BigInt_toString_roundtrip td fmt parseFloat_one one_ether_facts
        parseFloat_one_plus_wei)
qed

section \<open>Failing providers\<close>

lemma clear_flow_set_temp [simp]: "clear_flow (set_temp k v s) = clear_flow s"
  by (simp add: clear_flow_def set_temp_def split: option.splits)

lemma clear_flow_currentAction [simp]: "clear_flow (s\<lparr>currentAction := a\<rparr>) = clear_flow s"
  by (simp add: clear_flow_def)

lemma getQuote_down:
  "quote_answer e = None \<or> quote_answer e = Some BodyError \<Longrightarrow>
   getQuote e w = (log_call GetQuote w, None)"
  by (auto simp: getQuote_def)

lemma getSwap_down:
  "swap_answer e = None \<or> swap_answer e = Some BodyError \<Longrightarrow>
   getSwap e w = (log_call GetSwap w, None)"
  by (auto simp: getSwap_def)

lemma getGasParams_fallback:
  "fees_answer e = None \<Longrightarrow> getGasParams e w = (log_call EstimateFeesPerGas w, fallback_gas)"
  by (simp add: getGasParams_def fallback_gas_def)

text \<open>Quote retrieval raises in the buy amount entry.\<close>

lemma buy_amount_quote_down:
  assumes "userId s \<noteq> []" "tempData s = Some td"
    and "truthy (temp s ''toToken'')" "truthy (temp s ''toSymbol'')" "truthy (temp s ''toDecimals'')"
    and "truthy (temp s ''walletAddress'')" "truthy (temp s ''balance'')"
    and "isValidAmount input"
    and "\<not> js_gt (parseFloat (if startsWith input ''.'' then ''0'' @ input else input))
               (parseFloat (formatEthBalance e (temp s ''balance'')))"
    and "parseEther (if startsWith input ''.'' then ''0'' @ input else input) = Some a"
    and "slippage_text s = Some sl"
    and "quote_answer e = None \<or> quote_answer e = Some BodyError"
  shows "handleBuyAmountInput e s (Some wl) (Some input) w
           = (clear_flow s, log_call GetQuote (fst (getGasParams e w)), ErrorTryAgainLater)"
proof -
  obtain w1 gp where g: "getGasParams e w = (w1, gp)" by (cases "getGasParams e w")
  have ne: "input \<noteq> []"
    using assms(8) by (auto simp: isValidAmount_def parseFloat_def startsWith_def Let_def)
  show ?thesis
    using assms(1-11) ne g
    by (simp add: handleBuyAmountInput_def handleBuyAmountInput_try_def falsy_text_def
        getQuote_down [OF assms(12)] Let_def)
qed

text \<open>Swap construction raises in a confirmation.\<close>

lemma confirm_swap_down:
  assumes "userId s \<noteq> []" "tempData s = Some td" "slippage_text s = Some sl"
    and "BigInt_of (temp s ''fromAmount'') = Some fa"
    and "swap_answer e = None \<or> swap_answer e = Some BodyError"
  shows "handleBuyConfirmation e s (Some wl) True w = (clear_flow s, log_call GetSwap w, TradeError)"
    and "handleSellConfirmation e s (Some wl) True w = (clear_flow s, log_call GetSwap w, TradeError)"
  using assms(1-4)
  by (simp_all add: handleBuyConfirmation_def handleBuyConfirmation_try_def
      handleSellConfirmation_def handleSellConfirmation_try_def getSwap_down [OF assms(5)])

text \<open>The execution raises in a confirmation.\<close>

lemma executeTransaction_down:
  assumes "decrypt_ok e" "BigInt (if swap_value p = [] then ''0'' else swap_value p) = Some v"
    and "BigInt (swap_gasPrice p) = Some g" "send_outcome e = None"
  shows "executeTransaction e p w = (log_call (SendTransaction (swap_to p) (swap_data p) v g) w, None)"
  using assms by (simp add: executeTransaction_def)

lemma buy_confirm_send_down:
  assumes "userId s \<noteq> []" "tempData s = Some td" "slippage_text s = Some sl"
    and "BigInt_of (temp s ''fromAmount'') = Some fa"
    and "swap_answer e = Some (BodyData p)"
    and "decrypt_ok e" "BigInt (if swap_value p = [] then ''0'' else swap_value p) = Some v"
    and "BigInt (swap_gasPrice p) = Some g" "send_outcome e = None"
  shows "handleBuyConfirmation e s (Some wl) True w
           = (clear_flow s, log_call (SendTransaction (swap_to p) (swap_data p) v g) (log_call GetSwap w),
              TradeError)"
  using assms(1-5)
  by (simp add: handleBuyConfirmation_def handleBuyConfirmation_try_def getSwap_def
      executeTransaction_down [OF assms(6-9)])

lemma sell_confirm_send_down:
  assumes "userId s \<noteq> []" "tempData s = Some td" "slippage_text s = Some sl"
    and "BigInt_of (temp s ''fromAmount'') = Some fa"
    and "temp s ''fromToken'' = Some (JString ft)"
    and "swap_answer e = Some (BodyData p)"
    and "decrypt_ok e" "BigInt (if swap_value p = [] then ''0'' else swap_value p) = Some v"
    and "BigInt (swap_gasPrice p) = Some g" "send_outcome e = None"
    and "toLowerCase ft = toLowerCase (NATIVE_TOKEN_ADDRESS e)
         \<or> snd (sell_approval e s wl ft p (log_call GetSwap w)) = None"
  shows "fst (handleSellConfirmation e s (Some wl) True w) = clear_flow s
         \<and> snd (snd (handleSellConfirmation e s (Some wl) True w)) = TradeError"
proof -
  obtain w4 out where sa: "sell_approval e s wl ft p (log_call GetSwap w) = (w4, out)"
    by (cases "sell_approval e s wl ft p (log_call GetSwap w)")
  show ?thesis
    using assms(11) sa
    by (auto simp: handleSellConfirmation_def sell_confirm_with_swap [OF assms(1-6)]
        executeTransaction_down [OF assms(7-10)])
qed

lemma sell_confirm_approve_down:
  assumes "userId s \<noteq> []" "tempData s = Some td" "slippage_text s = Some sl"
    and "BigInt_of (temp s ''fromAmount'') = Some fa"
    and "temp s ''fromToken'' = Some (JString ft)"
    and "swap_answer e = Some (BodyData p)"
    and "toLowerCase ft \<noteq> toLowerCase (NATIVE_TOKEN_ADDRESS e)"
    and "BigInt (case allowance_now w of Some a \<Rightarrow> a | None \<Rightarrow> ''0'') = Some al"
    and "BigInt (inAmount p) = Some need" and "al < need" and "decrypt_ok e"
    and "approve_outcome e = None"
  shows "fst (handleSellConfirmation e s (Some wl) True w) = clear_flow s
         \<and> snd (snd (handleSellConfirmation e s (Some wl) True w)) = TradeError"
proof -
  have rd: "BigInt (case allowance_now (log_call GetSwap w) of Some a \<Rightarrow> a | None \<Rightarrow> ''0'') = Some al"
    using assms(8) by simp
  show ?thesis
    using assms(7,12)
    by (simp add: handleSellConfirmation_def sell_confirm_with_swap [OF assms(1-6)]
        sell_approval_short [OF assms(7) rd assms(9,10,11)])
qed

lemma withdraw_confirm_send_down:
  assumes "userId s \<noteq> []" "tempData s = Some td" "truthy (temp s ''from'')"
    and "truthy (temp s ''to'')" "truthy (temp s ''amount'')"
    and "snd (withdrawEth e (temp s ''to'') (temp s ''amount'') (temp s ''maxFeePerGas'')
               (temp s ''maxPriorityFeePerGas'') w) = None"
  shows "handleWithdrawConfirmation e s (Some wl) True w
           = (clear_flow s,
              fst (withdrawEth e (temp s ''to'') (temp s ''amount'') (temp s ''maxFeePerGas'')
                    (temp s ''maxPriorityFeePerGas'') w),
              WithdrawalError)"
proof -
  obtain w1 r where we: "withdrawEth e (temp s ''to'') (temp s ''amount'') (temp s ''maxFeePerGas'')
               (temp s ''maxPriorityFeePerGas'') w = (w1, r)"
    by (cases "withdrawEth e (temp s ''to'') (temp s ''amount'') (temp s ''maxFeePerGas'')
               (temp s ''maxPriorityFeePerGas'') w")
  show ?thesis
    using assms we
    by (simp add: handleWithdrawConfirmation_def handleWithdrawConfirmation_try_def)
qed

text \<open>
  The paths of the amount entries that keep the flow: a quote that raises in the sell
  amount entry, and a quote body without data in the buy amount entry.
\<close>

lemma sell_amount_quote_down_keeps_flow:
  assumes "tempData s = Some td" "BigInt_of amt = Some a" "slippage_text s = Some sl"
    and "quote_answer e = None \<or> quote_answer e = Some BodyError"
  shows "currentAction (fst (handleSellAmountLogic e s (Some wl) amt w)) = currentAction s
         \<and> temp (fst (handleSellAmountLogic e s (Some wl) amt w)) ''fromAmount'' = amt
         \<and> snd (snd (handleSellAmountLogic e s (Some wl) amt w)) = QuoteError"
proof -
  obtain w1 gp where g: "getGasParams e w = (w1, gp)" by (cases "getGasParams e w")
  show ?thesis
    using assms(1-3) g
    by (simp add: handleSellAmountLogic_def handleSellAmountLogic_try_def Let_def
        getQuote_down [OF assms(4)] temp_set_temp tempData_set_temp)
qed

text \<open>
  C5 as the code has it by design. When quote retrieval raises in the buy amount entry,
  or swap construction, the approval transaction or the execution raises in a buy, sell
  or withdraw confirmation, the handler leaves the session with no current action and an
  empty \<open>tempData\<close> and replies with a generic message. A fee estimate that fails does
  not fail the flow: \<open>getGasParams\<close> answers with the fixed fallback fees. An allowance
  read that fails does not fail it either: the allowance is reported as \<open>"0"\<close>.
\<close>

theorem provider_failures_abort_or_fall_back:
  "(userId s1 \<noteq> [] \<and> tempData s1 = Some td1
      \<and> truthy (temp s1 ''toToken'') \<and> truthy (temp s1 ''toSymbol'') \<and> truthy (temp s1 ''toDecimals'')
      \<and> truthy (temp s1 ''walletAddress'') \<and> truthy (temp s1 ''balance'')
      \<and> isValidAmount input
      \<and> \<not> js_gt (parseFloat (if startsWith input ''.'' then ''0'' @ input else input))
                 (parseFloat (formatEthBalance e1 (temp s1 ''balance'')))
      \<and> parseEther (if startsWith input ''.'' then ''0'' @ input else input) = Some a1
      \<and> slippage_text s1 = Some sl1
      \<and> (quote_answer e1 = None \<or> quote_answer e1 = Some BodyError)
     \<longrightarrow> handleBuyAmountInput e1 s1 (Some wl1) (Some input) w1
           = (clear_flow s1, log_call GetQuote (fst (getGasParams e1 w1)), ErrorTryAgainLater))
   \<and> (userId s2 \<noteq> [] \<and> tempData s2 = Some td2 \<and> slippage_text s2 = Some sl2
      \<and> BigInt_of (temp s2 ''fromAmount'') = Some fa2
      \<and> (swap_answer e2 = None \<or> swap_answer e2 = Some BodyError)
     \<longrightarrow> handleBuyConfirmation e2 s2 (Some wl2) True w2 = (clear_flow s2, log_call GetSwap w2, TradeError)
         \<and> handleSellConfirmation e2 s2 (Some wl2) True w2 = (clear_flow s2, log_call GetSwap w2, TradeError))
   \<and> (userId s3 \<noteq> [] \<and> tempData s3 = Some td3 \<and> slippage_text s3 = Some sl3
      \<and> BigInt_of (temp s3 ''fromAmount'') = Some fa3
      \<and> swap_answer e3 = Some (BodyData p3) \<and> decrypt_ok e3
      \<and> BigInt (if swap_value p3 = [] then ''0'' else swap_value p3) = Some v3
      \<and> BigInt (swap_gasPrice p3) = Some g3 \<and> send_outcome e3 = None
     \<longrightarrow> handleBuyConfirmation e3 s3 (Some wl3) True w3
           = (clear_flow s3,
              log_call (SendTransaction (swap_to p3) (swap_data p3) v3 g3) (log_call GetSwap w3),
              TradeError))
   \<and> (userId s4 \<noteq> [] \<and> tempData s4 = Some td4 \<and> slippage_text s4 = Some sl4
      \<and> BigInt_of (temp s4 ''fromAmount'') = Some fa4
      \<and> temp s4 ''fromToken'' = Some (JString ft4)
      \<and> swap_answer e4 = Some (BodyData p4) \<and> decrypt_ok e4
      \<and> BigInt (if swap_value p4 = [] then ''0'' else swap_value p4) = Some v4
      \<and> BigInt (swap_gasPrice p4) = Some g4 \<and> send_outcome e4 = None
      \<and> (toLowerCase ft4 = toLowerCase (NATIVE_TOKEN_ADDRESS e4)
           \<or> snd (sell_approval e4 s4 wl4 ft4 p4 (log_call GetSwap w4)) = None)
     \<longrightarrow> fst (handleSellConfirmation e4 s4 (Some wl4) True w4) = clear_flow s4
         \<and> snd (snd (handleSellConfirmation e4 s4 (Some wl4) True w4)) = TradeError)
   \<and> (userId s5 \<noteq> [] \<and> tempData s5 = Some td5 \<and> slippage_text s5 = Some sl5
      \<and> BigInt_of (temp s5 ''fromAmount'') = Some fa5
      \<and> temp s5 ''fromToken'' = Some (JString ft5)
      \<and> swap_answer e5 = Some (BodyData p5)
      \<and> toLowerCase ft5 \<noteq> toLowerCase (NATIVE_TOKEN_ADDRESS e5)
      \<and> BigInt (case allowance_now w5 of Some a \<Rightarrow> a | None \<Rightarrow> ''0'') = Some al5
      \<and> BigInt (inAmount p5) = Some need5 \<and> al5 < need5 \<and> decrypt_ok e5
      \<and> approve_outcome e5 = None
     \<longrightarrow> fst (handleSellConfirmation e5 s5 (Some wl5) True w5) = clear_flow s5
         \<and> snd (snd (handleSellConfirmation e5 s5 (Some wl5) True w5)) = TradeError)
   \<and> (userId s6 \<noteq> [] \<and> tempData s6 = Some td6 \<and> truthy (temp s6 ''from'')
      \<and> truthy (temp s6 ''to'') \<and> truthy (temp s6 ''amount'')
      \<and> snd (withdrawEth e6 (temp s6 ''to'') (temp s6 ''amount'') (temp s6 ''maxFeePerGas'')
                (temp s6 ''maxPriorityFeePerGas'') w6) = None
     \<longrightarrow> handleWithdrawConfirmation e6 s6 (Some wl6) True w6
           = (clear_flow s6,
              fst (withdrawEth e6 (temp s6 ''to'') (temp s6 ''amount'') (temp s6 ''maxFeePerGas'')
                    (temp s6 ''maxPriorityFeePerGas'') w6),
              WithdrawalError))
   \<and> (fees_answer e7 = None
     \<longrightarrow> getGasParams e7 w7 = (log_call EstimateFeesPerGas w7, fallback_gas))
   \<and> (toLowerCase t8 \<noteq> toLowerCase (NATIVE_TOKEN_ADDRESS e8) \<and> allowance_now w8 = None
     \<longrightarrow> getTokenAllowance e8 t8 ownr8 sp8 w8 = (log_call (ReadAllowance t8 ownr8 sp8) w8, ''0''))"
proof (intro conjI impI, goal_cases)
  case 1
  then show ?case by (elim conjE) (rule buy_amount_quote_down; assumption)
next
  case 2
  then show ?case by (elim conjE) (rule confirm_swap_down(1); assumption)
next
  case 3
  then show ?case by (elim conjE) (rule confirm_swap_down(2); assumption)
next
  case 4
  then show ?case by (elim conjE) (rule buy_confirm_send_down; assumption)
next
  case 5
  then show ?case
    by (elim conjE) (rule sell_confirm_send_down [THEN conjunct1]; assumption)
next
  case 6
  then show ?case
    by (elim conjE) (rule sell_confirm_send_down [THEN conjunct2]; assumption)
next
  case 7
  then show ?case
    by (elim conjE) (rule sell_confirm_approve_down [THEN conjunct1]; assumption)
next
  case 8
  then show ?case
    by (elim conjE) (rule sell_confirm_approve_down [THEN conjunct2]; assumption)
next
  case 9
  then show ?case by (elim conjE) (rule withdraw_confirm_send_down; assumption)
next
  case 10
  then show ?case by (rule getGasParams_fallback)
next
  case 11
  then show ?case by (simp add: getTokenAllowance_other)
qed

lemma valid_one: "isValidAmount ''1''"
proof -
  have "isValidAmount (''1'' @ frac_text [])"
    by (rule valid_amount_intro)
       (simp_all add: is_digit_def redundant_leading_zero_def decimal_value_def digits_value_def
          digit_val_def)
  then show ?thesis by (simp add: frac_text_def)
qed

lemma more_BigInt_facts:
  "BigInt ''500000000000000000'' = Some 500000000000000000"
  "BigInt ''50000000000000'' = Some 50000000000000"
  "BigInt ''100000000'' = Some 100000000"
  "BigInt ''1000'' = Some 1000"
  "BigInt ''1234567890123456789'' = Some 1234567890123456789"
  by code_simp+

lemma down_env_facts:
  "formatEthBalance env_no_quote = formatEthBalance env0" "quote_answer env_no_quote = None"
  "fees_answer env_no_quote = fees_answer env0"
  "swap_answer env_no_swap = None"
  "swap_answer env_no_send = Some (BodyData swap0)" "decrypt_ok env_no_send"
  "send_outcome env_no_send = None" "NATIVE_TOKEN_ADDRESS env_no_send = NATIVE_TOKEN_ADDRESS env0"
  "swap_answer env_no_approve = Some (BodyData swap0)" "decrypt_ok env_no_approve"
  "approve_outcome env_no_approve = None"
  "NATIVE_TOKEN_ADDRESS env_no_approve = NATIVE_TOKEN_ADDRESS env0"
  "decrypt_ok env_no_withdraw" "withdraw_outcome env_no_withdraw = None"
  "fees_answer env_no_fees = None"
  "quote_answer env_no_fees = Some (BodyData \<lparr>outAmount = ''750000000'', estimatedGas = ''150000''\<rparr>)"
  by (simp_all add: env_no_quote_def env_no_swap_def env_no_send_def env_no_approve_def
      env_no_withdraw_def env_no_fees_def env0_def)

lemma buy_session_facts:
  "userId buy_session \<noteq> []"
  "tempData buy_session = Some (the (tempData buy_session))"
  "slippage_text buy_session = Some ''1.0''"
  "BigInt_of (temp buy_session ''fromAmount'') = Some 500000000000000000"
  by (simp_all add: buy_session_def slippage_text_def temp_def more_BigInt_facts)

lemma buy_amount_session_facts:
  "userId buy_amount_session \<noteq> []"
  "tempData buy_amount_session = Some (the (tempData buy_amount_session))"
  "temp buy_amount_session ''balance'' = Some (JString ''1000000000000000000'')"
  "truthy (temp buy_amount_session ''toToken'')" "truthy (temp buy_amount_session ''toSymbol'')"
  "truthy (temp buy_amount_session ''toDecimals'')" "truthy (temp buy_amount_session ''walletAddress'')"
  "truthy (temp buy_amount_session ''balance'')"
  "slippage_text buy_amount_session = Some ''1.0''"
  by (simp_all add: buy_amount_session_def temp_def slippage_text_def)

lemma withdraw_confirm_session_facts:
  "userId withdraw_confirm_session \<noteq> []"
  "tempData withdraw_confirm_session = Some (the (tempData withdraw_confirm_session))"
  "truthy (temp withdraw_confirm_session ''from'')" "truthy (temp withdraw_confirm_session ''to'')"
  "truthy (temp withdraw_confirm_session ''amount'')"
  "temp withdraw_confirm_session ''to'' = Some (JString ''0x2222222222222222222222222222222222222222'')"
  "temp withdraw_confirm_session ''amount'' = Some (JString ''50000000000000'')"
  "temp withdraw_confirm_session ''maxFeePerGas'' = Some (JString ''1000000000'')"
  "temp withdraw_confirm_session ''maxPriorityFeePerGas'' = Some (JString ''100000000'')"
  by (simp_all add: withdraw_confirm_session_def temp_def)

lemma withdraw_down:
  "withdrawEth env_no_withdraw (temp withdraw_confirm_session ''to'')
       (temp withdraw_confirm_session ''amount'') (temp withdraw_confirm_session ''maxFeePerGas'')
       (temp withdraw_confirm_session ''maxPriorityFeePerGas'') world0
     = (log_call (SendWithdrawal (Some (JString ''0x2222222222222222222222222222222222222222''))
                    50000000000000) world0, None)"
  by (simp add: withdrawEth_def withdraw_confirm_session_facts down_env_facts more_BigInt_facts
      BigInt_small)

text \<open>
  C5 as stated fails on the code: the fee estimate fails during the sell amount entry,
  and the flow is not aborted. The fallback fees are stored and the flow is at
  \<open>sell_confirm\<close>.
\<close>

theorem failed_fee_estimate_keeps_flow:
  "fees_answer env_no_fees = None
   \<and> currentAction (fst (handleSellAmountInput env_no_fees sell_amount_session (Some wallet0)
                            (Some ''max'') world0)) = Some ''sell_confirm''
   \<and> temp (fst (handleSellAmountInput env_no_fees sell_amount_session (Some wallet0)
                   (Some ''max'') world0)) ''gasPrice'' = Some (JString ''0.1'')
   \<and> temp (fst (handleSellAmountInput env_no_fees sell_amount_session (Some wallet0)
                   (Some ''max'') world0)) ''fromAmount'' = Some (JString ''1234567890123456789'')
   \<and> snd (snd (handleSellAmountInput env_no_fees sell_amount_session (Some wallet0)
                  (Some ''max'') world0)) = TradeConfirmPrompt"
proof -
  have f: "userId sell_amount_session \<noteq> []"
    "tempData sell_amount_session = Some (the (tempData sell_amount_session))"
    "temp sell_amount_session ''tokenBalance'' = Some (JString ''1234567890123456789'')"
    "slippage_text sell_amount_session = Some ''1.0''"
    by (simp_all add: sell_amount_session_def temp_def slippage_text_def)
  have ne: "tempData sell_amount_session \<noteq> None" by (simp add: sell_amount_session_def)
  then obtain td where td: "tempData sell_amount_session = Some td" by auto
  have res: "handleSellAmountInput env_no_fees sell_amount_session (Some wallet0) (Some ''max'') world0
      = ((set_temp ''estimatedGas'' (Some (JString ''150000''))
           (set_temp ''toAmount'' (Some (JString ''750000000''))
             (set_temp ''maxPriorityFeePerGas'' (Some (JString ''0.05''))
               (set_temp ''maxFeePerGas'' (Some (JString ''0.1''))
                 (set_temp ''gasPrice'' (Some (JString ''0.1''))
                   (set_temp ''fromAmount'' (Some (JString ''1234567890123456789''))
                      sell_amount_session))))))
          \<lparr>currentAction := Some ''sell_confirm''\<rparr>,
         log_call GetQuote (log_call EstimateFeesPerGas world0), TradeConfirmPrompt)"
    using f(1,3,4) td
    by (simp add: handleSellAmountInput_def handleSellAmountInput_try_def falsy_text_def max_lower
        handleSellAmountLogic_def handleSellAmountLogic_try_def
        getGasParams_fallback [OF down_env_facts(15)] fallback_gas_def getQuote_def
        down_env_facts(16) more_BigInt_facts Let_def)
  show ?thesis
    unfolding res using ne
    by (simp add: down_env_facts temp_set_temp tempData_set_temp)
qed

theorem provider_failures_abort_or_fall_back_witness:
  "handleBuyAmountInput env_no_quote buy_amount_session (Some wallet0) (Some ''1'') world0
     = (clear_flow buy_amount_session, log_call GetQuote (fst (getGasParams env_no_quote world0)),
        ErrorTryAgainLater)
   \<and> handleBuyConfirmation env_no_swap sell_session (Some wallet0) True world0
     = (clear_flow sell_session, log_call GetSwap world0, TradeError)
   \<and> handleSellConfirmation env_no_swap sell_session (Some wallet0) True world0
     = (clear_flow sell_session, log_call GetSwap world0, TradeError)
   \<and> handleBuyConfirmation env_no_send buy_session (Some wallet0) True world0
     = (clear_flow buy_session,
        log_call (SendTransaction (swap_to swap0) (swap_data swap0) 0 1000000000)
          (log_call GetSwap world0),
        TradeError)
   \<and> fst (handleSellConfirmation env_no_send sell_session (Some wallet0) True
            (world0\<lparr>allowance_now := Some ''1000''\<rparr>)) = clear_flow sell_session
   \<and> snd (snd (handleSellConfirmation env_no_approve sell_session (Some wallet0) True world0))
     = TradeError
   \<and> handleWithdrawConfirmation env_no_withdraw withdraw_confirm_session (Some wallet0) True world0
     = (clear_flow withdraw_confirm_session,
        fst (withdrawEth env_no_withdraw (temp withdraw_confirm_session ''to'')
               (temp withdraw_confirm_session ''amount'')
               (temp withdraw_confirm_session ''maxFeePerGas'')
               (temp withdraw_confirm_session ''maxPriorityFeePerGas'') world0),
        WithdrawalError)
   \<and> getGasParams env_no_fees world0 = (log_call EstimateFeesPerGas world0, fallback_gas)
   \<and> getTokenAllowance env0 usdc (address wallet0) (swap_to swap0) world_failing_read
     = (log_call (ReadAllowance usdc (address wallet0) (swap_to swap0)) world_failing_read, ''0'')"
proof -
  note T = provider_failures_abort_or_fall_back
  have h1: "userId buy_amount_session \<noteq> []
      \<and> tempData buy_amount_session = Some (the (tempData buy_amount_session))
      \<and> truthy (temp buy_amount_session ''toToken'') \<and> truthy (temp buy_amount_session ''toSymbol'')
      \<and> truthy (temp buy_amount_session ''toDecimals'')
      \<and> truthy (temp buy_amount_session ''walletAddress'') \<and> truthy (temp buy_amount_session ''balance'')
      \<and> isValidAmount ''1''
      \<and> \<not> js_gt (parseFloat (if startsWith ''1'' ''.'' then ''0'' @ ''1'' else ''1''))
                 (parseFloat (formatEthBalance env_no_quote (temp buy_amount_session ''balance'')))
      \<and> parseEther (if startsWith ''1'' ''.'' then ''0'' @ ''1'' else ''1'') = Some 1000000000000000000
      \<and> slippage_text buy_amount_session = Some ''1.0''
      \<and> (quote_answer env_no_quote = None \<or> quote_answer env_no_quote = Some BodyError)"
    using buy_amount_session_facts
    by (simp add: valid_one startsWith_def parseFloat_one down_env_facts env0_def one_ether_facts)
  have h2: "userId sell_session \<noteq> [] \<and> tempData sell_session = Some (the (tempData sell_session))
      \<and> slippage_text sell_session = Some ''1.0''
      \<and> BigInt_of (temp sell_session ''fromAmount'') = Some 500
      \<and> (swap_answer env_no_swap = None \<or> swap_answer env_no_swap = Some BodyError)"
    using sell_session_facts by (simp add: down_env_facts)
  have h3: "userId buy_session \<noteq> [] \<and> tempData buy_session = Some (the (tempData buy_session))
      \<and> slippage_text buy_session = Some ''1.0''
      \<and> BigInt_of (temp buy_session ''fromAmount'') = Some 500000000000000000
      \<and> swap_answer env_no_send = Some (BodyData swap0) \<and> decrypt_ok env_no_send
      \<and> BigInt (if swap_value swap0 = [] then ''0'' else swap_value swap0) = Some 0
      \<and> BigInt (swap_gasPrice swap0) = Some 1000000000 \<and> send_outcome env_no_send = None"
    using buy_session_facts by (simp add: down_env_facts swap0_def BigInt_zero BigInt_small)
  have v0: "BigInt (if swap_value swap0 = [] then ''0'' else swap_value swap0) = Some 0"
    "BigInt (swap_gasPrice swap0) = Some 1000000000"
    by (simp_all add: swap0_def BigInt_zero BigInt_small)
  have nn4: "toLowerCase usdc \<noteq> toLowerCase (NATIVE_TOKEN_ADDRESS env_no_send)"
    using usdc_not_native by (simp add: down_env_facts)
  have rd4: "BigInt (case allowance_now (log_call GetSwap (world0\<lparr>allowance_now := Some ''1000''\<rparr>))
               of Some a \<Rightarrow> a | None \<Rightarrow> ''0'') = Some 1000"
    by (simp add: more_BigInt_facts)
  have need: "BigInt (inAmount swap0) = Some 500" by (simp add: swap0_def BigInt_500)
  have h4: "userId sell_session \<noteq> [] \<and> tempData sell_session = Some (the (tempData sell_session))
      \<and> slippage_text sell_session = Some ''1.0''
      \<and> BigInt_of (temp sell_session ''fromAmount'') = Some 500
      \<and> temp sell_session ''fromToken'' = Some (JString usdc)
      \<and> swap_answer env_no_send = Some (BodyData swap0) \<and> decrypt_ok env_no_send
      \<and> BigInt (if swap_value swap0 = [] then ''0'' else swap_value swap0) = Some 0
      \<and> BigInt (swap_gasPrice swap0) = Some 1000000000 \<and> send_outcome env_no_send = None
      \<and> (toLowerCase usdc = toLowerCase (NATIVE_TOKEN_ADDRESS env_no_send)
           \<or> snd (sell_approval env_no_send sell_session wallet0 usdc swap0
                     (log_call GetSwap (world0\<lparr>allowance_now := Some ''1000''\<rparr>))) = None)"
    using sell_session_facts v0
    by (simp add: down_env_facts(5,6,7) sell_approval_enough [OF nn4 rd4 need])
  have nn5: "toLowerCase usdc \<noteq> toLowerCase (NATIVE_TOKEN_ADDRESS env_no_approve)"
    using usdc_not_native by (simp add: down_env_facts)
  have h5: "userId sell_session \<noteq> [] \<and> tempData sell_session = Some (the (tempData sell_session))
      \<and> slippage_text sell_session = Some ''1.0''
      \<and> BigInt_of (temp sell_session ''fromAmount'') = Some 500
      \<and> temp sell_session ''fromToken'' = Some (JString usdc)
      \<and> swap_answer env_no_approve = Some (BodyData swap0)
      \<and> toLowerCase usdc \<noteq> toLowerCase (NATIVE_TOKEN_ADDRESS env_no_approve)
      \<and> BigInt (case allowance_now world0 of Some a \<Rightarrow> a | None \<Rightarrow> ''0'') = Some 0
      \<and> BigInt (inAmount swap0) = Some 500 \<and> (0::int) < 500 \<and> decrypt_ok env_no_approve
      \<and> approve_outcome env_no_approve = None"
    using sell_session_facts nn5
    by (simp add: down_env_facts(9,10,11) need world0_def BigInt_zero)
  have h6: "userId withdraw_confirm_session \<noteq> []
      \<and> tempData withdraw_confirm_session = Some (the (tempData withdraw_confirm_session))
      \<and> truthy (temp withdraw_confirm_session ''from'')
      \<and> truthy (temp withdraw_confirm_session ''to'') \<and> truthy (temp withdraw_confirm_session ''amount'')
      \<and> snd (withdrawEth env_no_withdraw (temp withdraw_confirm_session ''to'')
                (temp withdraw_confirm_session ''amount'')
                (temp withdraw_confirm_session ''maxFeePerGas'')
                (temp withdraw_confirm_session ''maxPriorityFeePerGas'') world0) = None"
    using withdraw_confirm_session_facts(1-5) by (simp add: withdraw_down)
  have h7: "fees_answer env_no_fees = None" by (rule down_env_facts)
  have h8: "toLowerCase usdc \<noteq> toLowerCase (NATIVE_TOKEN_ADDRESS env0)
      \<and> allowance_now world_failing_read = None"
    using usdc_not_native by (simp add: world_failing_read_def)
  note c1 = T [THEN conjunct1, THEN mp, OF h1]
  note c2 = T [THEN conjunct2, THEN conjunct1, THEN mp, OF h2]
  note c3 = T [THEN conjunct2, THEN conjunct2, THEN conjunct1, THEN mp, OF h3]
  note c4 = T [THEN conjunct2, THEN conjunct2, THEN conjunct2, THEN conjunct1, THEN mp, OF h4]
  note c5 = T [THEN conjunct2, THEN conjunct2, THEN conjunct2, THEN conjunct2, THEN conjunct1,
               THEN mp, OF h5]
  note c6 = T [THEN conjunct2, THEN conjunct2, THEN conjunct2, THEN conjunct2, THEN conjunct2,
               THEN conjunct1, THEN mp, OF h6]
  note c7 = T [THEN conjunct2, THEN conjunct2, THEN conjunct2, THEN conjunct2, THEN conjunct2,
               THEN conjunct2, THEN conjunct1, THEN mp, OF h7]
  note c8 = T [THEN conjunct2, THEN conjunct2, THEN conjunct2, THEN conjunct2, THEN conjunct2,
               THEN conjunct2, THEN conjunct2, THEN mp, OF h8]
  show ?thesis
    by (intro conjI) (rule c1 c2 [THEN conjunct1] c2 [THEN conjunct2] c3 c4 [THEN conjunct1]
        c5 [THEN conjunct2] c6 c7 c8)+
qed

section \<open>The balance check of the validators\<close>

subsection \<open>The conversion to a big integer accepts the integer literals and nothing else\<close>

lemma positional_snoc:
  "positional_value r (ds @ [c]) = positional_value r ds * r + the_digit c"
proof -
  have "map (\<lambda>i. the_digit ((ds @ [c]) ! i) * r ^ (length ds - i)) [0..<length ds]
        = map (\<lambda>i. (the_digit (ds ! i) * r ^ (length ds - 1 - i)) * r) [0..<length ds]"
  proof (rule map_cong [OF refl])
    fix i assume "i \<in> set [0..<length ds]"
    then have i: "i < length ds" by simp
    then have "length ds - i = Suc (length ds - 1 - i)" by simp
    then show "the_digit ((ds @ [c]) ! i) * r ^ (length ds - i)
               = (the_digit (ds ! i) * r ^ (length ds - 1 - i)) * r"
      using i by (simp add: nth_append)
  qed
  then have "(\<Sum>i\<leftarrow>[0..<length ds]. the_digit ((ds @ [c]) ! i) * r ^ (length ds - i))
             = (\<Sum>i\<leftarrow>[0..<length ds]. (the_digit (ds ! i) * r ^ (length ds - 1 - i)) * r)"
    by (rule arg_cong)
  also have "\<dots> = (\<Sum>i\<leftarrow>[0..<length ds]. the_digit (ds ! i) * r ^ (length ds - 1 - i)) * r"
    by (rule sum_list_mult_const)
  finally have e: "(\<Sum>i\<leftarrow>[0..<length ds]. the_digit ((ds @ [c]) ! i) * r ^ (length ds - i))
             = positional_value r ds * r"
    by (simp only: positional_value_def)
  have "positional_value r (ds @ [c])
        = (\<Sum>i\<leftarrow>[0..<length ds]. the_digit ((ds @ [c]) ! i) * r ^ (length ds - i)) + the_digit c"
    by (simp add: positional_value_def)
  then show ?thesis by (simp only: e)
qed

lemma digits_value_positional: "digits_value r ds = positional_value r ds"
proof (induction ds rule: rev_induct)
  case Nil
  show ?case by (simp add: digits_value_def positional_value_def)
next
  case (snoc c ds)
  then show ?case by (simp add: digits_value_snoc positional_snoc the_digit_def)
qed

lemma parse_digits_spec:
  "parse_digits r ds = Some v \<longleftrightarrow> numeral_spec r ds \<and> v = positional_value r ds"
  by (auto simp: parse_digits_def numeral_spec_def digits_value_positional)

lemma trim_decomposition:
  "\<exists>l r. s = l @ trim s @ r \<and> list_all is_ws l \<and> list_all is_ws r"
proof -
  define u where "u = dropWhile is_ws s"
  define r where "r = rev (takeWhile is_ws (rev u))"
  have a: "s = takeWhile is_ws s @ u" by (simp add: u_def)
  have t: "trim s = rev (dropWhile is_ws (rev u))" by (simp add: trim_def u_def)
  have "u = rev (takeWhile is_ws (rev u) @ dropWhile is_ws (rev u))"
    by (simp only: takeWhile_dropWhile_id rev_rev_ident)
  also have "\<dots> = trim s @ r"
    by (simp only: rev_append t r_def)
  finally have b: "u = trim s @ r" .
  have "s = takeWhile is_ws s @ trim s @ r"
    using a b by simp
  moreover have "list_all is_ws (takeWhile is_ws s)" by (rule list_all_takeWhile)
  moreover have "list_all is_ws r"
    using list_all_takeWhile [of is_ws "rev u"] by (simp add: list_all_iff r_def)
  ultimately show ?thesis by blast
qed

lemma trim_all_ws: "list_all is_ws s \<Longrightarrow> trim s = []"
  by (simp add: trim_def dropWhile_all)

lemma dropWhile_ws_append:
  "list_all is_ws l \<Longrightarrow> dropWhile is_ws (l @ t) = dropWhile is_ws t"
  by (induction l) auto

lemma trim_sandwich:
  assumes "list_all is_ws l" "list_all is_ws r" "t \<noteq> []" "\<not> is_ws (hd t)" "\<not> is_ws (last t)"
  shows "trim (l @ t @ r) = t"
proof -
  have 1: "dropWhile is_ws (l @ t @ r) = t @ r"
    using assms(1,3,4) by (cases t) (simp_all add: dropWhile_ws_append)
  have "list_all is_ws (rev r)" using assms(2) by (simp add: list_all_iff)
  then have 2: "dropWhile is_ws (rev r @ rev t) = dropWhile is_ws (rev t)"
    by (rule dropWhile_ws_append)
  have 3: "dropWhile is_ws (rev t) = rev t"
    using assms(3,5) by (cases "rev t") (auto simp: last_rev [symmetric] hd_rev)
  show ?thesis by (simp add: trim_def 1 2 3)
qed

lemma radix_digit_not_ws: "is_radix_digit r c \<Longrightarrow> \<not> is_ws c"
  by (auto simp: is_radix_digit_def digit_val_def is_ws_def Let_def split: if_splits option.splits)

lemma numeral_ends:
  assumes "numeral_spec r ds"
  shows "\<not> is_ws (hd ds)" "\<not> is_ws (last ds)" "ds \<noteq> []"
  using assms radix_digit_not_ws [of r]
  by (auto simp: numeral_spec_def list_all_iff)

lemma literal_ends:
  assumes "bigint_literal_spec t v" "t \<noteq> []"
  shows "\<not> is_ws (hd t) \<and> \<not> is_ws (last t)"
proof -
  have s: "\<not> is_ws (CHR ''+'')" "\<not> is_ws (CHR ''-'')" "\<not> is_ws (CHR ''0'')"
    by (simp_all add: is_ws_def)
  show ?thesis
    using assms s unfolding bigint_literal_spec_def
    by (auto simp: numeral_ends)
qed

lemma trim_of_literal:
  assumes "list_all is_ws l" "list_all is_ws r" "bigint_literal_spec t v"
  shows "trim (l @ t @ r) = t"
proof (cases "t = []")
  case True
  then show ?thesis using assms(1,2) by (simp add: trim_all_ws)
next
  case False
  then show ?thesis
    using trim_sandwich [OF assms(1,2) False] literal_ends [OF assms(3) False] by simp
qed

lemma decimal_head:
  assumes "numeral_spec 10 ds"
  shows "\<not> startsWith ds ''0x''" "\<not> startsWith ds ''0X''" "\<not> startsWith ds ''0o''"
    "\<not> startsWith ds ''0O''" "\<not> startsWith ds ''0b''" "\<not> startsWith ds ''0B''"
    "\<not> startsWith ds ''-''" "\<not> startsWith ds ''+''"
  using assms
  by (cases ds; cases "tl ds";
      auto simp: startsWith_def numeral_spec_def is_radix_digit_def digit_val_def Let_def
           split: if_splits)+

lemma startsWith_split: "startsWith t p \<Longrightarrow> t = p @ drop (length p) t"
  by (metis append_take_drop_id startsWith_def)

lemma BigInt_of_trimmed:
  assumes "bigint_literal_spec t v" "trim s = t"
  shows "BigInt s = Some v"
proof -
  consider (empty) "t = []" "v = 0"
    | (dec) ds where "numeral_spec 10 ds" "t = ds" "v = positional_value 10 ds"
    | (plus) ds where "numeral_spec 10 ds" "t = CHR ''+'' # ds" "v = positional_value 10 ds"
    | (minus) ds where "numeral_spec 10 ds" "t = CHR ''-'' # ds" "v = - positional_value 10 ds"
    | (hex) ds where "numeral_spec 16 ds" "t = ''0x'' @ ds \<or> t = ''0X'' @ ds" "v = positional_value 16 ds"
    | (oct) ds where "numeral_spec 8 ds" "t = ''0o'' @ ds \<or> t = ''0O'' @ ds" "v = positional_value 8 ds"
    | (bin) ds where "numeral_spec 2 ds" "t = ''0b'' @ ds \<or> t = ''0B'' @ ds" "v = positional_value 2 ds"
    using assms(1) unfolding bigint_literal_spec_def by blast
  then show ?thesis
  proof cases
    case empty
    then show ?thesis using assms(2) by (simp add: BigInt_def)
  next
    case (dec ds)
    have "parse_digits 10 ds = Some v" using dec by (simp add: parse_digits_spec)
    moreover have "ds \<noteq> []" using dec(1) by (simp add: numeral_spec_def)
    ultimately show ?thesis
      using assms(2) dec(2) decimal_head [OF dec(1)] by (simp add: BigInt_def)
  next
    case (plus ds)
    have "parse_digits 10 ds = Some v" using plus by (simp add: parse_digits_spec)
    then show ?thesis
      using assms(2) plus(2) by (simp add: BigInt_def startsWith_def)
  next
    case (minus ds)
    have "parse_digits 10 ds = Some (positional_value 10 ds)"
      using minus by (simp add: parse_digits_spec)
    then show ?thesis
      using assms(2) minus(2,3) by (simp add: BigInt_def startsWith_def)
  next
    case (hex ds)
    have "parse_digits 16 ds = Some v" using hex by (simp add: parse_digits_spec)
    then show ?thesis
      using assms(2) hex(2) by (auto simp: BigInt_def startsWith_def)
  next
    case (oct ds)
    have "parse_digits 8 ds = Some v" using oct by (simp add: parse_digits_spec)
    then show ?thesis
      using assms(2) oct(2) by (auto simp: BigInt_def startsWith_def)
  next
    case (bin ds)
    have "parse_digits 2 ds = Some v" using bin by (simp add: parse_digits_spec)
    then show ?thesis
      using assms(2) bin(2) by (auto simp: BigInt_def startsWith_def)
  qed
qed

lemma literal_of_BigInt:
  assumes "BigInt s = Some v"
  shows "bigint_literal_spec (trim s) v"
proof -
  define t where "t = trim s"
  have pd: "\<exists>ds. numeral_spec r ds \<and> t = p @ ds \<and> w = positional_value r ds"
    if "startsWith t p" "n = length p" "parse_digits r (drop n t) = Some w" for r p n w
    using that startsWith_split [of t p] by (metis parse_digits_spec)
  have B: "BigInt s =
     (if t = [] then Some 0
      else if startsWith t ''0x'' \<or> startsWith t ''0X'' then parse_digits 16 (drop 2 t)
      else if startsWith t ''0o'' \<or> startsWith t ''0O'' then parse_digits 8 (drop 2 t)
      else if startsWith t ''0b'' \<or> startsWith t ''0B'' then parse_digits 2 (drop 2 t)
      else if startsWith t ''-'' then map_option uminus (parse_digits 10 (drop 1 t))
      else if startsWith t ''+'' then parse_digits 10 (drop 1 t)
      else parse_digits 10 t)"
    unfolding BigInt_def Let_def t_def ..
  consider (empty) "t = []" "v = 0"
    | (hex) "startsWith t ''0x'' \<or> startsWith t ''0X''" "parse_digits 16 (drop 2 t) = Some v"
    | (oct) "startsWith t ''0o'' \<or> startsWith t ''0O''" "parse_digits 8 (drop 2 t) = Some v"
    | (bin) "startsWith t ''0b'' \<or> startsWith t ''0B''" "parse_digits 2 (drop 2 t) = Some v"
    | (minus) "startsWith t ''-''" "map_option uminus (parse_digits 10 (drop 1 t)) = Some v"
    | (plus) "startsWith t ''+''" "parse_digits 10 (drop 1 t) = Some v"
    | (dec) "parse_digits 10 t = Some v"
  proof (cases "t = []")
    case True
    then show ?thesis using assms B empty by simp
  next
    case c0: False
    show ?thesis
    proof (cases "startsWith t ''0x'' \<or> startsWith t ''0X''")
      case True
      then show ?thesis using assms B c0 hex by simp
    next
      case c1: False
      show ?thesis
      proof (cases "startsWith t ''0o'' \<or> startsWith t ''0O''")
        case True
        then show ?thesis using assms B c0 c1 oct by simp
      next
        case c2: False
        show ?thesis
        proof (cases "startsWith t ''0b'' \<or> startsWith t ''0B''")
          case True
          then show ?thesis using assms B c0 c1 c2 bin by simp
        next
          case c3: False
          show ?thesis
          proof (cases "startsWith t ''-''")
            case True
            then show ?thesis using assms B c0 c1 c2 c3 minus by simp
          next
            case c4: False
            show ?thesis
            proof (cases "startsWith t ''+''")
              case True
              then show ?thesis using assms B c0 c1 c2 c3 c4 plus by simp
            next
              case False
              then show ?thesis using assms B c0 c1 c2 c3 c4 dec by simp
            qed
          qed
        qed
      qed
    qed
  qed
  then have "bigint_literal_spec t v"
  proof cases
    case empty
    then show ?thesis by (simp add: bigint_literal_spec_def)
  next
    case hex
    then have "\<exists>ds. numeral_spec 16 ds \<and> (t = ''0x'' @ ds \<or> t = ''0X'' @ ds) \<and> v = positional_value 16 ds"
      using pd [of "''0x''" 2 16 v] pd [of "''0X''" 2 16 v] by auto
    then show ?thesis unfolding bigint_literal_spec_def by blast
  next
    case oct
    then have "\<exists>ds. numeral_spec 8 ds \<and> (t = ''0o'' @ ds \<or> t = ''0O'' @ ds) \<and> v = positional_value 8 ds"
      using pd [of "''0o''" 2 8 v] pd [of "''0O''" 2 8 v] by auto
    then show ?thesis unfolding bigint_literal_spec_def by blast
  next
    case bin
    then have "\<exists>ds. numeral_spec 2 ds \<and> (t = ''0b'' @ ds \<or> t = ''0B'' @ ds) \<and> v = positional_value 2 ds"
      using pd [of "''0b''" 2 2 v] pd [of "''0B''" 2 2 v] by auto
    then show ?thesis unfolding bigint_literal_spec_def by blast
  next
    case minus
    then obtain m where m: "parse_digits 10 (drop 1 t) = Some m" "v = - m" by auto
    have "\<exists>ds. numeral_spec 10 ds \<and> t = ''-'' @ ds \<and> m = positional_value 10 ds"
      using pd [of "''-''" 1 10 m] minus(1) m(1) by auto
    then show ?thesis using m(2) unfolding bigint_literal_spec_def by auto
  next
    case plus
    then have "\<exists>ds. numeral_spec 10 ds \<and> t = ''+'' @ ds \<and> v = positional_value 10 ds"
      using pd [of "''+''" 1 10 v] by auto
    then show ?thesis unfolding bigint_literal_spec_def by auto
  next
    case dec
    then have "numeral_spec 10 t \<and> v = positional_value 10 t" by (simp add: parse_digits_spec)
    then show ?thesis unfolding bigint_literal_spec_def by blast
  qed
  then show ?thesis by (simp add: t_def)
qed

lemma BigInt_iff_spec: "BigInt s = Some v \<longleftrightarrow> parses_as_bigint_spec s v"
proof
  assume "BigInt s = Some v"
  then have "bigint_literal_spec (trim s) v" by (rule literal_of_BigInt)
  then show "parses_as_bigint_spec s v"
    using trim_decomposition [of s] unfolding parses_as_bigint_spec_def by blast
next
  assume "parses_as_bigint_spec s v"
  then obtain l t r where p: "s = l @ t @ r" "list_all is_ws l" "list_all is_ws r"
      "bigint_literal_spec t v"
    unfolding parses_as_bigint_spec_def by blast
  have "trim s = t" using trim_of_literal [OF p(2,3,4)] p(1) by simp
  then show "BigInt s = Some v" using BigInt_of_trimmed [OF p(4)] by simp
qed

lemma BigInt_none_iff_spec: "BigInt s = None \<longleftrightarrow> (\<nexists>v. parses_as_bigint_spec s v)"
  using BigInt_iff_spec [of s] by (cases "BigInt s") auto

text \<open>
  C10. \<open>hasEnoughBalance\<close> is total on all triples of strings. When the three strings
  parse as big integers, the body of the \<open>try\<close> returns, and the result is exactly
  \<open>balance \<ge> amount + gasEstimate\<close> on those integers; when one of them does not parse,
  the body raises and the result is \<open>false\<close>. In particular three printed integers of
  any magnitude are compared exactly.
\<close>

theorem hasEnoughBalance_total_exact:
  "(parses_as_bigint_spec balance b \<and> parses_as_bigint_spec amount a
      \<and> parses_as_bigint_spec gasEstimate g
    \<longrightarrow> hasEnoughBalance_try balance amount gasEstimate = Some (a + g \<le> b)
        \<and> hasEnoughBalance balance amount gasEstimate = (a + g \<le> b))
   \<and> ((\<nexists>v. parses_as_bigint_spec balance v) \<or> (\<nexists>v. parses_as_bigint_spec amount v)
        \<or> (\<nexists>v. parses_as_bigint_spec gasEstimate v)
      \<longrightarrow> hasEnoughBalance_try balance amount gasEstimate = None
          \<and> hasEnoughBalance balance amount gasEstimate = False)
   \<and> hasEnoughBalance (BigInt_toString x) (BigInt_toString y) (BigInt_toString z) = (y + z \<le> x)"
proof (intro conjI impI)
  assume "parses_as_bigint_spec balance b \<and> parses_as_bigint_spec amount a
      \<and> parses_as_bigint_spec gasEstimate g"
  then have p: "BigInt balance = Some b" "BigInt amount = Some a" "BigInt gasEstimate = Some g"
    by (simp_all add: BigInt_iff_spec)
  show "hasEnoughBalance_try balance amount gasEstimate = Some (a + g \<le> b)"
    by (simp add: hasEnoughBalance_try_def p)
  then show "hasEnoughBalance balance amount gasEstimate = (a + g \<le> b)"
    by (simp add: hasEnoughBalance_def)
next
  assume "(\<nexists>v. parses_as_bigint_spec balance v) \<or> (\<nexists>v. parses_as_bigint_spec amount v)
        \<or> (\<nexists>v. parses_as_bigint_spec gasEstimate v)"
  then have n: "BigInt balance = None \<or> BigInt amount = None \<or> BigInt gasEstimate = None"
    by (simp add: BigInt_none_iff_spec)
  then show t: "hasEnoughBalance_try balance amount gasEstimate = None"
    by (auto simp: hasEnoughBalance_try_def split: option.splits)
  show "hasEnoughBalance balance amount gasEstimate = False"
    by (simp add: hasEnoughBalance_def t)
next
  show "hasEnoughBalance (BigInt_toString x) (BigInt_toString y) (BigInt_toString z) = (y + z \<le> x)"
    by (simp add: hasEnoughBalance_def hasEnoughBalance_try_def BigInt_toString_roundtrip)
qed

theorem hasEnoughBalance_total_exact_witness:
  "hasEnoughBalance ''9007199254740993'' ''9007199254740992'' ''1'' = True
   \<and> hasEnoughBalance ''9007199254740992'' ''9007199254740992'' ''1'' = False
   \<and> hasEnoughBalance [CHR 0xA0, CHR ''5''] '' 0x3 '' ''-1'' = True
   \<and> hasEnoughBalance ''10'' ''1.5'' ''0'' = False
   \<and> hasEnoughBalance_try ''10'' ''1.5'' ''0'' = None"
proof -
  have b1: "BigInt ''9007199254740993'' = Some 9007199254740993" by code_simp
  have b2: "BigInt ''9007199254740992'' = Some 9007199254740992" by code_simp
  have b3: "BigInt ''1'' = Some 1" by code_simp
  have b4: "BigInt ''1.5'' = None" by code_simp
  have b5: "BigInt [CHR 0xA0, CHR ''5''] = Some 5" by code_simp
  have b6: "BigInt '' 0x3 '' = Some 3" by code_simp
  have b7: "BigInt ''-1'' = Some (- 1)" by code_simp
  have p1: "parses_as_bigint_spec ''9007199254740993'' 9007199254740993"
    and p2: "parses_as_bigint_spec ''9007199254740992'' 9007199254740992"
    and p3: "parses_as_bigint_spec ''1'' 1"
    and p5: "parses_as_bigint_spec [CHR 0xA0, CHR ''5''] 5"
    and p6: "parses_as_bigint_spec '' 0x3 '' 3"
    and p7: "parses_as_bigint_spec ''-1'' (- 1)"
    by (rule BigInt_iff_spec [THEN iffD1, OF b1], rule BigInt_iff_spec [THEN iffD1, OF b2],
        rule BigInt_iff_spec [THEN iffD1, OF b3], rule BigInt_iff_spec [THEN iffD1, OF b5],
        rule BigInt_iff_spec [THEN iffD1, OF b6], rule BigInt_iff_spec [THEN iffD1, OF b7])
  have p4: "\<nexists>v. parses_as_bigint_spec ''1.5'' v"
    by (rule BigInt_none_iff_spec [THEN iffD1, OF b4])
  show ?thesis
    using hasEnoughBalance_total_exact
            [of "''9007199254740993''" 9007199254740993 "''9007199254740992''" 9007199254740992
                "''1''" 1]
      hasEnoughBalance_total_exact
            [of "''9007199254740992''" 9007199254740992 "''9007199254740992''" 9007199254740992
                "''1''" 1]
      hasEnoughBalance_total_exact [of "[CHR 0xA0, CHR ''5'']" 5 "'' 0x3 ''" 3 "''-1''" "- 1"]
      hasEnoughBalance_total_exact [of "''10''" _ "''1.5''" _ "''0''"]
      p1 p2 p3 p4 p5 p6 p7
    by simp
qed

end
